theory Spec2Isabelle
  imports Complex_Main
begin

section \<open>Python values, exceptions and the external collaborators\<close>

text \<open>
  The module \<^verbatim>\<open>adafruit_fruitjam/ntp.py\<close> is glue code: everything it does is a call
  to the interpreter (\<^verbatim>\<open>os.getenv\<close>, \<^verbatim>\<open>float\<close>, \<^verbatim>\<open>int\<close>, \<^verbatim>\<open>time\<close>), to the board
  (\<^verbatim>\<open>board\<close>, \<^verbatim>\<open>digitalio\<close>, \<^verbatim>\<open>rtc\<close>) or to a driver library (\<^verbatim>\<open>adafruit_esp32spi\<close>,
  \<^verbatim>\<open>adafruit_connection_manager\<close>, \<^verbatim>\<open>adafruit_ntp\<close>). The embedding keeps the control
  flow of the module as it is written and takes the collaborators as a parameter, the
  record \<open>world\<close>: each of their calls may raise, and whether it does, and what it returns,
  may depend on the whole history of calls made so far.

  The values the module handles are the scalars of Python. A float is a real number
  here: the one float operation of the module is an addition, whose rounding is not
  modelled, and neither are the infinities, the NaN, or the overflow of \<^verbatim>\<open>float\<close> on a
  huge integer. Exceptions are the subclasses of \<^verbatim>\<open>Exception\<close> that occur, each with
  its message; an interrupt from the keyboard is outside the model. \<^verbatim>\<open>os.getenv\<close>,
  \<^verbatim>\<open>print\<close>, \<^verbatim>\<open>time.time\<close> and \<^verbatim>\<open>time.localtime\<close> return without raising.
\<close>

datatype pyval = PyNone | PyBool bool | PyInt int | PyFloat real | PyStr string

datatype pyerr =
    RuntimeError string
  | ValueError string
  | TypeError string
  | ConnectionError string
  | TimeoutError string
  | OSError string

record struct_time =
  tm_year :: int
  tm_mon :: int
  tm_mday :: int
  tm_hour :: int
  tm_min :: int
  tm_sec :: int
  tm_wday :: int
  tm_yday :: int
  tm_isdst :: int

text \<open>An object of a collaborator is known by its identity only.\<close>

type_synonym obj = nat

datatype board_pin = ESP_CS | ESP_BUSY | ESP_RESET

datatype printable = PStr string | PErr pyerr | PTime struct_time

text \<open>
  The calls the module makes to its collaborators, with their arguments, in the
  source's spelling: \<open>NTP_new pool tz_offset server socket_timeout cache_seconds\<close> is
  \<^verbatim>\<open>adafruit_ntp.NTP(pool, tz_offset=..., server=..., socket_timeout=..., cache_seconds=...)\<close>,
  \<open>NTP_datetime ntp\<close> reads \<^verbatim>\<open>ntp.datetime\<close>, \<open>RTC_set_datetime now\<close> is
  \<^verbatim>\<open>rtc.RTC().datetime = now\<close>.
\<close>

datatype call =
    Board_SPI
  | DigitalInOut board_pin
  | ESP_SPIcontrol obj obj obj obj
  | Get_radio_socketpool obj
  | Is_connected obj
  | Connect_AP obj pyval pyval
  | Esp_reset obj
  | Sleep real
  | NTP_new obj pyval pyval real int
  | NTP_datetime obj
  | RTC_set_datetime struct_time
  | Time_time
  | Time_localtime
  | Pin_deinit obj
  | Print "printable list"

datatype ret =
    Raised pyerr
  | Returned_none
  | New_obj obj
  | Returned_bool bool
  | Returned_time struct_time
  | Returned_val pyval

type_synonym event = "call \<times> ret"

record world =
  getenv :: "string \<Rightarrow> pyval"
  float_of_str :: "string \<Rightarrow> pyerr + real"
  int_of_str :: "string \<Rightarrow> pyerr + int"
  raises :: "event list \<Rightarrow> call \<Rightarrow> pyerr option"
  is_connected_val :: "event list \<Rightarrow> bool"
  ntp_time :: "event list \<Rightarrow> struct_time"
  clock :: "event list \<Rightarrow> pyval"
  localtime :: "event list \<Rightarrow> struct_time"

text \<open>
  \<open>getenv w name\<close> is \<^verbatim>\<open>os.getenv(name)\<close>: \<open>PyNone\<close> when the variable is unset, a
  string, or (on CircuitPython, for an integer in \<^verbatim>\<open>settings.toml\<close>) an integer.
  \<open>float_of_str\<close> and \<open>int_of_str\<close> are \<^verbatim>\<open>float(s)\<close> and \<^verbatim>\<open>int(s)\<close> on a string, \<open>Inl\<close>
  the \<^verbatim>\<open>ValueError\<close> of a string that does not parse. \<open>raises w h c\<close> is the
  exception that the call \<open>c\<close> raises after the history \<open>h\<close>, if it raises.
\<close>

text \<open>
  The class \<^verbatim>\<open>_State\<close> with its six fields, and the state of the whole system: the
  module's \<^verbatim>\<open>_state\<close> object together with the history of the calls made to the
  collaborators, each with its outcome.
\<close>

record State =
  spi :: "obj option"
  cs :: "obj option"
  rdy :: "obj option"
  rst :: "obj option"
  esp :: "obj option"
  pool :: "obj option"

record sys = State +
  log :: "event list"

subsection \<open>Built-in operations of Python\<close>

fun truthy :: "pyval \<Rightarrow> bool" where
  "truthy PyNone = False"
| "truthy (PyBool b) = b"
| "truthy (PyInt i) = (i \<noteq> 0)"
| "truthy (PyFloat r) = (r \<noteq> 0)"
| "truthy (PyStr s) = (s \<noteq> [])"

definition py_or :: "pyval \<Rightarrow> pyval \<Rightarrow> pyval" where
  "py_or a b = (if truthy a then a else b)"

definition trunc :: "real \<Rightarrow> int" where
  "trunc r = (if 0 \<le> r then \<lfloor>r\<rfloor> else \<lceil>r\<rceil>)"

fun py_float :: "world \<Rightarrow> pyval \<Rightarrow> pyerr + real" where
  "py_float w PyNone = Inl (TypeError ''float() argument must be a string or a real number'')"
| "py_float w (PyBool b) = Inr (if b then 1 else 0)"
| "py_float w (PyInt i) = Inr (of_int i)"
| "py_float w (PyFloat r) = Inr r"
| "py_float w (PyStr s) = float_of_str w s"

fun py_int :: "world \<Rightarrow> pyval \<Rightarrow> pyerr + int" where
  "py_int w PyNone = Inl (TypeError ''int() argument must be a string or a real number'')"
| "py_int w (PyBool b) = Inr (if b then 1 else 0)"
| "py_int w (PyInt i) = Inr i"
| "py_int w (PyFloat r) = Inr (trunc r)"
| "py_int w (PyStr s) = int_of_str w s"

text \<open>The operator \<^verbatim>\<open>+\<close>: numbers add (an integer and a float give a float), strings
  concatenate, anything else is a \<^verbatim>\<open>TypeError\<close>.\<close>

fun num_of :: "pyval \<Rightarrow> (int + real) option" where
  "num_of (PyBool b) = Some (Inl (if b then 1 else 0))"
| "num_of (PyInt i) = Some (Inl i)"
| "num_of (PyFloat r) = Some (Inr r)"
| "num_of v = None"

fun num_add :: "int + real \<Rightarrow> int + real \<Rightarrow> pyval" where
  "num_add (Inl i) (Inl j) = PyInt (i + j)"
| "num_add (Inl i) (Inr r) = PyFloat (of_int i + r)"
| "num_add (Inr q) (Inl j) = PyFloat (q + of_int j)"
| "num_add (Inr q) (Inr r) = PyFloat (q + r)"

definition py_add :: "pyval \<Rightarrow> pyval \<Rightarrow> pyerr + pyval" where
  "py_add a b =
     (case (a, b) of
        (PyStr s, PyStr t) \<Rightarrow> Inr (PyStr (s @ t))
      | _ \<Rightarrow> (case (num_of a, num_of b) of
                (Some x, Some y) \<Rightarrow> Inr (num_add x y)
              | _ \<Rightarrow> Inl (TypeError ''unsupported operand type(s) for +'')))"

subsection \<open>Calls to the collaborators\<close>

text \<open>
  A call either raises the exception the world chooses for it or returns; both are
  appended to the history. A constructor returns a new object, whose identity is the
  length of the history at its creation.
\<close>

definition record_call :: "call \<Rightarrow> ret \<Rightarrow> sys \<Rightarrow> sys" where
  "record_call c r s = s\<lparr>log := log s @ [(c, r)]\<rparr>"

definition ext_call :: "world \<Rightarrow> call \<Rightarrow> 'a \<Rightarrow> ('a \<Rightarrow> ret) \<Rightarrow> sys \<Rightarrow> (pyerr + 'a) \<times> sys" where
  "ext_call w c x emb s =
     (case raises w (log s) c of
        Some e \<Rightarrow> (Inl e, record_call c (Raised e) s)
      | None \<Rightarrow> (Inr x, record_call c (emb x) s))"

definition new_obj :: "world \<Rightarrow> call \<Rightarrow> sys \<Rightarrow> (pyerr + obj) \<times> sys" where
  "new_obj w c s = ext_call w c (length (log s)) New_obj s"

definition proc_call :: "world \<Rightarrow> call \<Rightarrow> sys \<Rightarrow> (pyerr + unit) \<times> sys" where
  "proc_call w c s = ext_call w c () (\<lambda>_. Returned_none) s"

definition esp_is_connected :: "world \<Rightarrow> obj \<Rightarrow> sys \<Rightarrow> (pyerr + bool) \<times> sys" where
  "esp_is_connected w e s = ext_call w (Is_connected e) (is_connected_val w (log s)) Returned_bool s"

definition ntp_datetime :: "world \<Rightarrow> obj \<Rightarrow> sys \<Rightarrow> (pyerr + struct_time) \<times> sys" where
  "ntp_datetime w n s = ext_call w (NTP_datetime n) (ntp_time w (log s)) Returned_time s"

text \<open>The module \<^verbatim>\<open>time\<close> and \<^verbatim>\<open>print\<close> do not fail, except \<^verbatim>\<open>time.sleep\<close> on a
  negative length.\<close>

definition time_sleep :: "real \<Rightarrow> sys \<Rightarrow> (pyerr + unit) \<times> sys" where
  "time_sleep d s =
     (if d < 0
      then (Inl (ValueError ''sleep length must be non-negative''),
            record_call (Sleep d) (Raised (ValueError ''sleep length must be non-negative'')) s)
      else (Inr (), record_call (Sleep d) Returned_none s))"

definition time_time :: "world \<Rightarrow> sys \<Rightarrow> pyval \<times> sys" where
  "time_time w s = (clock w (log s), record_call Time_time (Returned_val (clock w (log s))) s)"

definition time_localtime :: "world \<Rightarrow> sys \<Rightarrow> struct_time \<times> sys" where
  "time_localtime w s =
     (localtime w (log s), record_call Time_localtime (Returned_time (localtime w (log s))) s)"

definition print :: "printable list \<Rightarrow> sys \<Rightarrow> sys" where
  "print xs s = record_call (Print xs) Returned_none s"

section \<open>The module\<close>

subsection \<open>\<^verbatim>\<open>_ensure_radio\<close>\<close>

text \<open>
  \<^verbatim>\<open>if _state.x is None: _state.x = ctor(...)\<close>: the handle held, or a new one. The
  field is assigned before the next constructor runs, so a failure later on keeps the
  handles made so far.
\<close>

definition get_or_new :: "world \<Rightarrow> obj option \<Rightarrow> call \<Rightarrow> sys \<Rightarrow> (pyerr + obj) \<times> sys" where
  "get_or_new w cur c s = (case cur of Some x \<Rightarrow> (Inr x, s) | None \<Rightarrow> new_obj w c s)"

text \<open>Lines 42 to 58, what \<^verbatim>\<open>_ensure_radio\<close> does when it does not return at once.\<close>

definition ensure_radio_acquire :: "world \<Rightarrow> sys \<Rightarrow> (pyerr + obj \<times> obj) \<times> sys" where
  "ensure_radio_acquire w s =
     (case get_or_new w (spi s) Board_SPI s of
        (Inl x, s1) \<Rightarrow> (Inl x, s1)
      | (Inr a, s1) \<Rightarrow>
     (case get_or_new w (cs s1) (DigitalInOut ESP_CS) (s1\<lparr>spi := Some a\<rparr>) of
        (Inl x, s2) \<Rightarrow> (Inl x, s2)
      | (Inr b, s2) \<Rightarrow>
     (case get_or_new w (rdy s2) (DigitalInOut ESP_BUSY) (s2\<lparr>cs := Some b\<rparr>) of
        (Inl x, s3) \<Rightarrow> (Inl x, s3)
      | (Inr c, s3) \<Rightarrow>
     (case get_or_new w (rst s3) (DigitalInOut ESP_RESET) (s3\<lparr>rdy := Some c\<rparr>) of
        (Inl x, s4) \<Rightarrow> (Inl x, s4)
      | (Inr d, s4) \<Rightarrow>
     (case get_or_new w (esp s4) (ESP_SPIcontrol a b c d) (s4\<lparr>rst := Some d\<rparr>) of
        (Inl x, s5) \<Rightarrow> (Inl x, s5)
      | (Inr e, s5) \<Rightarrow>
     (case get_or_new w (pool s5) (Get_radio_socketpool e) (s5\<lparr>esp := Some e\<rparr>) of
        (Inl x, s6) \<Rightarrow> (Inl x, s6)
      | (Inr p, s6) \<Rightarrow> (Inr (e, p), s6\<lparr>pool := Some p\<rparr>)))))))"

text \<open>\<^verbatim>\<open>if _state.esp and _state.pool: return _state.esp, _state.pool\<close>: an object of
  the driver is true, \<^verbatim>\<open>None\<close> is not.\<close>

definition ensure_radio :: "world \<Rightarrow> sys \<Rightarrow> (pyerr + obj \<times> obj) \<times> sys" where
  "ensure_radio w s =
     (case (esp s, pool s) of
        (Some e, Some p) \<Rightarrow> (Inr (e, p), s)
      | _ \<Rightarrow> ensure_radio_acquire w s)"

subsection \<open>\<^verbatim>\<open>_env_float\<close> and \<^verbatim>\<open>_env_int\<close>\<close>

text \<open>
  \<^verbatim>\<open>float(v) if v not in {None, ""} else float(default)\<close> inside
  \<^verbatim>\<open>try ... except Exception: return float(default)\<close>. Every caller passes a float
  literal as the default of \<^verbatim>\<open>_env_float\<close> and an integer literal as the default
  of \<^verbatim>\<open>_env_int\<close>, on which \<^verbatim>\<open>float\<close> and \<^verbatim>\<open>int\<close> are the identity.
\<close>

definition env_float :: "world \<Rightarrow> string \<Rightarrow> real \<Rightarrow> real" where
  "env_float w name dflt =
     (let v = getenv w name in
      if v \<noteq> PyNone \<and> v \<noteq> PyStr ''''
      then (case py_float w v of Inr x \<Rightarrow> x | Inl e \<Rightarrow> dflt)
      else dflt)"

definition env_int :: "world \<Rightarrow> string \<Rightarrow> int \<Rightarrow> int" where
  "env_int w name dflt =
     (let v = getenv w name in
      if v \<noteq> PyNone \<and> v \<noteq> PyStr ''''
      then (case py_int w v of Inr x \<Rightarrow> x | Inl e \<Rightarrow> dflt)
      else dflt)"

subsection \<open>\<^verbatim>\<open>sync_time\<close>\<close>

text \<open>
  The local variables that lines 95 to 107 of \<^verbatim>\<open>sync_time\<close> compute, under their own
  names. \<open>sync_time_config\<close> is that block: it runs before any collaborator is called
  and touches nothing, so it is a function of the environment and of the arguments.
  Its statements run in the source's order, and the first exception ends it: \<^verbatim>\<open>+=\<close> on
  an argument that is not a number, \<^verbatim>\<open>float\<close> or \<^verbatim>\<open>int\<close> on a tuning value that does not
  convert.
\<close>

record config =
  server :: pyval
  tz_offset :: pyval
  timeout :: real
  retries :: int
  retry_delay :: real
  cache_seconds :: int
  require_year :: int
  interval :: int

text \<open>\<^verbatim>\<open>t.get(key, d)\<close> on the dict \<open>t\<close>, an association list.\<close>

definition tuning_get :: "(string \<times> pyval) list \<Rightarrow> string \<Rightarrow> pyval \<Rightarrow> pyval" where
  "tuning_get t k d = (case map_of t k of Some v \<Rightarrow> v | None \<Rightarrow> d)"

text \<open>\<^verbatim>\<open>tuning or {}\<close>: \<^verbatim>\<open>None\<close> and the empty dict are false.\<close>

definition tuning_or_empty :: "(string \<times> pyval) list option \<Rightarrow> (string \<times> pyval) list" where
  "tuning_or_empty tuning = (case tuning of None \<Rightarrow> [] | Some d \<Rightarrow> if d = [] then [] else d)"

definition sync_time_config ::
  "world \<Rightarrow> pyval \<Rightarrow> pyval \<Rightarrow> (string \<times> pyval) list option \<Rightarrow> pyerr + config" where
  "sync_time_config w srv tz tuning =
     (let srv1 = py_or (py_or srv (getenv w ''NTP_SERVER'')) (PyStr ''pool.ntp.org'');
          tz0 = (if tz = PyNone then PyFloat (env_float w ''NTP_TZ'' 0) else tz)
      in case py_add tz0 (PyFloat (env_float w ''NTP_DST'' 0)) of
           Inl x \<Rightarrow> Inl x
         | Inr tz1 \<Rightarrow>
      (let t = tuning_or_empty tuning
       in case py_float w (tuning_get t ''timeout'' (PyFloat (env_float w ''NTP_TIMEOUT'' 5))) of
            Inl x \<Rightarrow> Inl x
          | Inr v_timeout \<Rightarrow>
      (case py_int w (tuning_get t ''retries'' (PyInt (env_int w ''NTP_RETRIES'' 2))) of
            Inl x \<Rightarrow> Inl x
          | Inr v_retries \<Rightarrow>
      (case py_float w (tuning_get t ''retry_delay'' (PyFloat (env_float w ''NTP_DELAY_S'' 1))) of
            Inl x \<Rightarrow> Inl x
          | Inr v_retry_delay \<Rightarrow>
      (case py_int w (tuning_get t ''cache_seconds'' (PyInt (env_int w ''NTP_CACHE_SECONDS'' 0))) of
            Inl x \<Rightarrow> Inl x
          | Inr v_cache_seconds \<Rightarrow>
      (case py_int w (tuning_get t ''require_year'' (PyInt 2022)) of
            Inl x \<Rightarrow> Inl x
          | Inr v_require_year \<Rightarrow>
        Inr \<lparr>server = srv1, tz_offset = tz1, timeout = v_timeout, retries = v_retries,
             retry_delay = v_retry_delay, cache_seconds = v_cache_seconds,
             require_year = v_require_year, interval = env_int w ''NTP_INTERVAL'' 0\<rparr>))))))"

text \<open>
  The body of the \<^verbatim>\<open>try\<close> of the connection loop, one attempt:
  \<^verbatim>\<open>if not esp.is_connected: esp.connect_AP(ssid, pw)\<close>.
\<close>

definition try_connect :: "world \<Rightarrow> obj \<Rightarrow> pyval \<Rightarrow> pyval \<Rightarrow> sys \<Rightarrow> (pyerr + unit) \<times> sys" where
  "try_connect w e ssid pw s =
     (case esp_is_connected w e s of
        (Inl x, s1) \<Rightarrow> (Inl x, s1)
      | (Inr True, s1) \<Rightarrow> (Inr (), s1)
      | (Inr False, s1) \<Rightarrow> proc_call w (Connect_AP e ssid pw) s1)"

text \<open>
  \<^verbatim>\<open>for attempt in range(retries + 1)\<close>, as a recursion over the list of the values of
  \<^verbatim>\<open>attempt\<close> still to come: \<^verbatim>\<open>break\<close> after an attempt that did not raise; after one
  that raised, the bare \<^verbatim>\<open>raise\<close> when \<^verbatim>\<open>attempt >= retries\<close>, else \<^verbatim>\<open>esp.reset()\<close> with
  its exception swallowed and \<^verbatim>\<open>time.sleep(retry_delay)\<close>, whose exception is not.
\<close>

fun connect_loop ::
  "world \<Rightarrow> obj \<Rightarrow> pyval \<Rightarrow> pyval \<Rightarrow> int \<Rightarrow> real \<Rightarrow> int list \<Rightarrow> sys \<Rightarrow> (pyerr + unit) \<times> sys" where
  "connect_loop w e ssid pw n_retries delay [] s = (Inr (), s)"
| "connect_loop w e ssid pw n_retries delay (attempt # rest) s =
     (case try_connect w e ssid pw s of
        (Inr u, s1) \<Rightarrow> (Inr (), s1)
      | (Inl x, s1) \<Rightarrow>
          if attempt \<ge> n_retries then (Inl x, s1)
          else (case time_sleep delay (snd (proc_call w (Esp_reset e) s1)) of
                  (Inl y, s3) \<Rightarrow> (Inl y, s3)
                | (Inr u, s3) \<Rightarrow> connect_loop w e ssid pw n_retries delay rest s3))"

text \<open>
  Lines 126 to 140, the end of \<^verbatim>\<open>sync_time\<close> once the radio is connected: make the
  client, read \<^verbatim>\<open>ntp.datetime\<close>, check the year, set the clock, compute \<^verbatim>\<open>next_sync\<close>.
\<close>

definition sync_time_ntp ::
  "world \<Rightarrow> config \<Rightarrow> obj \<Rightarrow> sys \<Rightarrow> (pyerr + struct_time \<times> pyval) \<times> sys" where
  "sync_time_ntp w c p s2 =
     (case new_obj w (NTP_new p (tz_offset c) (server c) (timeout c) (cache_seconds c)) s2 of
        (Inl x, s3) \<Rightarrow> (Inl x, s3)
      | (Inr ntp, s3) \<Rightarrow>
     (case ntp_datetime w ntp s3 of
        (Inl x, s4) \<Rightarrow> (Inl x, s4)
      | (Inr now, s4) \<Rightarrow>
         if tm_year now < require_year c
         then (Inl (RuntimeError ''NTP returned an unexpected year; not setting RTC''), s4)
         else
     (case proc_call w (RTC_set_datetime now) s4 of
        (Inl x, s5) \<Rightarrow> (Inl x, s5)
      | (Inr u, s5) \<Rightarrow>
         if interval c > 0
         then (case time_time w s5 of
                 (t, s6) \<Rightarrow>
                   (case py_add t (PyInt (interval c)) of
                      Inl x \<Rightarrow> (Inl x, s6)
                    | Inr next_sync \<Rightarrow> (Inr (now, next_sync), s6)))
         else (Inr (now, PyNone), s5))))"

text \<open>
  \<^verbatim>\<open>sync_time(*, server=None, tz_offset=None, tuning=None)\<close>. The result is the pair
  \<^verbatim>\<open>(now, next_sync)\<close>, or the exception that ends the call. \<^verbatim>\<open>range(retries + 1)\<close> is
  the list \<open>[0..retries]\<close>, empty when \<open>retries\<close> is negative.
\<close>

definition sync_time ::
  "world \<Rightarrow> pyval \<Rightarrow> pyval \<Rightarrow> (string \<times> pyval) list option \<Rightarrow> sys
     \<Rightarrow> (pyerr + struct_time \<times> pyval) \<times> sys" where
  "sync_time w srv tz tuning s =
     (let ssid = getenv w ''CIRCUITPY_WIFI_SSID'';
          pw = getenv w ''CIRCUITPY_WIFI_PASSWORD''
      in if \<not> truthy ssid \<or> \<not> truthy pw
         then (Inl (RuntimeError ''Add CIRCUITPY_WIFI_SSID/PASSWORD to settings.toml''), s)
         else
      (case sync_time_config w srv tz tuning of
         Inl x \<Rightarrow> (Inl x, s)
       | Inr c \<Rightarrow>
      (case ensure_radio w s of
         (Inl x, s1) \<Rightarrow> (Inl x, s1)
       | (Inr (e, p), s1) \<Rightarrow>
      (case connect_loop w e ssid pw (retries c) (retry_delay c) [0..retries c] s1 of
         (Inl x, s2) \<Rightarrow> (Inl x, s2)
       | (Inr u, s2) \<Rightarrow> sync_time_ntp w c p s2))))"

subsection \<open>\<^verbatim>\<open>release_pins\<close>\<close>

text \<open>
  \<^verbatim>\<open>for pin in (_state.cs, _state.rdy, _state.rst): if pin: pin.deinit()\<close>: a pin
  object is true, \<^verbatim>\<open>None\<close> is not, and an exception of \<^verbatim>\<open>deinit\<close> ends the loop. The
  \<^verbatim>\<open>finally\<close> clause then runs in both cases, and the exception, if any, goes on to the
  caller.
\<close>

fun deinit_pins :: "world \<Rightarrow> obj option list \<Rightarrow> sys \<Rightarrow> (pyerr + unit) \<times> sys" where
  "deinit_pins w [] s = (Inr (), s)"
| "deinit_pins w (None # pins) s = deinit_pins w pins s"
| "deinit_pins w (Some pin # pins) s =
     (case proc_call w (Pin_deinit pin) s of
        (Inl x, s1) \<Rightarrow> (Inl x, s1)
      | (Inr u, s1) \<Rightarrow> deinit_pins w pins s1)"

definition release_pins :: "world \<Rightarrow> sys \<Rightarrow> (pyerr + unit) \<times> sys" where
  "release_pins w s =
     (case deinit_pins w [cs s, rdy s, rst s] s of
        (r, s1) \<Rightarrow>
          (r, s1\<lparr>spi := None, cs := None, rdy := None, rst := None, esp := None, pool := None\<rparr>))"

subsection \<open>\<^verbatim>\<open>setup_ntp\<close>\<close>

text \<open>
  The loop \<^verbatim>\<open>while True\<close> has no bound, so the model counts its passes: \<open>None\<close> is
  a loop that has not ended within \<open>fuel\<close> passes. \<^verbatim>\<open>time.sleep(1)\<close> stands in the
  handler, outside any \<^verbatim>\<open>try\<close>.
\<close>

fun setup_ntp_loop :: "nat \<Rightarrow> world \<Rightarrow> sys \<Rightarrow> ((pyerr + struct_time \<times> pyval) \<times> sys) option" where
  "setup_ntp_loop 0 w s = None"
| "setup_ntp_loop (Suc fuel) w s =
     (case sync_time w PyNone PyNone None s of
        (Inr r, s1) \<Rightarrow> Some (Inr r, s1)
      | (Inl ex, s1) \<Rightarrow>
          (case time_sleep 1 (print [PStr ''Exception:'', PErr ex] s1) of
             (Inl y, s2) \<Rightarrow> Some (Inl y, s2)
           | (Inr u, s2) \<Rightarrow> setup_ntp_loop fuel w s2))"

definition setup_ntp :: "nat \<Rightarrow> world \<Rightarrow> sys \<Rightarrow> ((pyerr + struct_time \<times> pyval) \<times> sys) option" where
  "setup_ntp fuel w s =
     (case setup_ntp_loop fuel w (print [PStr ''Fetching time via NTP.''] s) of
        None \<Rightarrow> None
      | Some (Inl x, s1) \<Rightarrow> Some (Inl x, s1)
      | Some (Inr r, s1) \<Rightarrow>
          (case time_localtime w s1 of
             (lt, s2) \<Rightarrow> Some (Inr r, print [PStr ''NTP OK, localtime:'', PTime lt] s2)))"

section \<open>Vocabulary of the properties\<close>

text \<open>
  The calls of the first half of \<^verbatim>\<open>sync_time\<close>: acquiring the handles and connecting the
  radio.
\<close>

fun setup_call :: "call \<Rightarrow> bool" where
  "setup_call Board_SPI = True"
| "setup_call (DigitalInOut p) = True"
| "setup_call (ESP_SPIcontrol a b c d) = True"
| "setup_call (Get_radio_socketpool e) = True"
| "setup_call (Is_connected e) = True"
| "setup_call (Connect_AP e a b) = True"
| "setup_call (Esp_reset e) = True"
| "setup_call (Sleep d) = True"
| "setup_call c = False"

definition new_events :: "sys \<Rightarrow> sys \<Rightarrow> event list" where
  "new_events s s' = drop (length (log s)) (log s')"

definition only_calls :: "(call \<Rightarrow> bool) \<Rightarrow> sys \<Rightarrow> sys \<Rightarrow> bool" where
  "only_calls P s s' = (\<exists>evs. log s' = log s @ evs \<and> (\<forall>ev\<in>set evs. P (fst ev)))"

text \<open>
  An environment variable that gives no number: unset, empty, or a value that
  \<^verbatim>\<open>float\<close> (or \<^verbatim>\<open>int\<close>) rejects. One that gives a number: set, not empty, and
  converted. \<open>unset w name\<close> is the world \<open>w\<close> without the variable \<open>name\<close>.
\<close>

definition bad_float :: "world \<Rightarrow> string \<Rightarrow> bool" where
  "bad_float w name =
     (getenv w name = PyNone \<or> getenv w name = PyStr '''' \<or> isl (py_float w (getenv w name)))"

definition bad_int :: "world \<Rightarrow> string \<Rightarrow> bool" where
  "bad_int w name =
     (getenv w name = PyNone \<or> getenv w name = PyStr '''' \<or> isl (py_int w (getenv w name)))"

definition reads_as_float :: "world \<Rightarrow> string \<Rightarrow> real \<Rightarrow> bool" where
  "reads_as_float w name x =
     (getenv w name \<noteq> PyNone \<and> getenv w name \<noteq> PyStr '''' \<and> py_float w (getenv w name) = Inr x)"

definition reads_as_int :: "world \<Rightarrow> string \<Rightarrow> int \<Rightarrow> bool" where
  "reads_as_int w name i =
     (getenv w name \<noteq> PyNone \<and> getenv w name \<noteq> PyStr '''' \<and> py_int w (getenv w name) = Inr i)"

definition unset :: "world \<Rightarrow> string \<Rightarrow> world" where
  "unset w name = w\<lparr>getenv := (getenv w)(name := PyNone)\<rparr>"

text \<open>The numeric variables that \<^verbatim>\<open>sync_time\<close> reads with \<^verbatim>\<open>_env_float\<close> and with
  \<^verbatim>\<open>_env_int\<close>.\<close>

definition float_vars :: "string list" where
  "float_vars = [''NTP_TZ'', ''NTP_DST'', ''NTP_TIMEOUT'', ''NTP_DELAY_S'']"

definition int_vars :: "string list" where
  "int_vars = [''NTP_RETRIES'', ''NTP_CACHE_SECONDS'', ''NTP_INTERVAL'']"

text \<open>
  The events of the connection loop. An attempt is one pass through the \<^verbatim>\<open>try\<close> body; it
  begins with the read of \<^verbatim>\<open>esp.is_connected\<close>. It succeeds when that read returns
  \<^verbatim>\<open>True\<close> or when \<^verbatim>\<open>esp.connect_AP\<close> returns, and fails with the exception that one of
  the two raises. \<open>sleeps_after_resets d\<close> holds of a history in which every
  \<^verbatim>\<open>esp.reset()\<close> is followed at once by a \<^verbatim>\<open>time.sleep(d)\<close> that returns.
\<close>

fun is_attempt :: "event \<Rightarrow> bool" where
  "is_attempt (Is_connected e, x) = True"
| "is_attempt ev = False"

fun is_reset :: "event \<Rightarrow> bool" where
  "is_reset (Esp_reset e, x) = True"
| "is_reset ev = False"

fun is_success :: "event \<Rightarrow> bool" where
  "is_success (Is_connected e, Returned_bool True) = True"
| "is_success (Connect_AP e a b, Returned_none) = True"
| "is_success ev = False"

fun attempt_raised :: "pyerr \<Rightarrow> event \<Rightarrow> bool" where
  "attempt_raised x (Is_connected e, Raised y) = (y = x)"
| "attempt_raised x (Connect_AP e a b, Raised y) = (y = x)"
| "attempt_raised x ev = False"

fun sleeps_after_resets :: "real \<Rightarrow> event list \<Rightarrow> bool" where
  "sleeps_after_resets d [] = True"
| "sleeps_after_resets d [ev] = (\<not> is_reset ev)"
| "sleeps_after_resets d (ev # ev' # evs) =
     ((is_reset ev \<longrightarrow> ev' = (Sleep d, Returned_none)) \<and> sleeps_after_resets d (ev' # evs))"

definition attempts :: "event list \<Rightarrow> nat" where
  "attempts evs = length (filter is_attempt evs)"

definition resets :: "event list \<Rightarrow> nat" where
  "resets evs = length (filter is_reset evs)"

text \<open>
  What a run of the loop over \<open>k\<close> values of \<^verbatim>\<open>attempt\<close> leaves in the history: at most
  \<open>k\<close> attempts; when there were \<open>k\<close> attempts and none succeeded, the result is the
  exception of the last one, after \<open>k - 1\<close> resets, each followed by its sleep; and when
  the delay is not negative and no attempt succeeds, all \<open>k\<close> attempts are made.
\<close>

definition loop_summary :: "real \<Rightarrow> nat \<Rightarrow> (pyerr + unit) \<Rightarrow> event list \<Rightarrow> bool" where
  "loop_summary d k r evs =
     (attempts evs \<le> k
      \<and> ((\<forall>ev\<in>set evs. \<not> is_success ev) \<and> attempts evs = k \<and> 0 < k \<longrightarrow>
           (\<exists>x. r = Inl x \<and> evs \<noteq> [] \<and> attempt_raised x (last evs))
           \<and> resets evs = k - 1 \<and> sleeps_after_resets d evs)
      \<and> ((\<forall>ev\<in>set evs. \<not> is_success ev) \<and> 0 \<le> d \<and> 0 < k \<longrightarrow> attempts evs = k))"

text \<open>The constructors of \<^verbatim>\<open>_ensure_radio\<close>, and the calls of the end of \<^verbatim>\<open>sync_time\<close>.\<close>

fun ctor_call :: "call \<Rightarrow> bool" where
  "ctor_call Board_SPI = True"
| "ctor_call (DigitalInOut p) = True"
| "ctor_call (ESP_SPIcontrol a b c d) = True"
| "ctor_call (Get_radio_socketpool e) = True"
| "ctor_call c = False"

fun ntp_call :: "call \<Rightarrow> bool" where
  "ntp_call (NTP_new p a b c d) = True"
| "ntp_call (NTP_datetime n) = True"
| "ntp_call (RTC_set_datetime t) = True"
| "ntp_call Time_time = True"
| "ntp_call c = False"

text \<open>
  For \<^verbatim>\<open>release_pins\<close>: the pins of a tuple that are not \<^verbatim>\<open>None\<close>, in order, and the event
  of a \<^verbatim>\<open>deinit\<close> that returned. \<open>log_only s s'\<close>: the states differ in the history at
  most, the handles are the same.

  For \<^verbatim>\<open>setup_ntp\<close>: \<open>failed_rounds k w s\<close> is the state after \<open>k\<close> passes of the loop
  in each of which \<^verbatim>\<open>sync_time()\<close> raised, the exception was printed and
  \<^verbatim>\<open>time.sleep(1)\<close> returned, and \<open>None\<close> when one of these \<open>k\<close> calls of \<^verbatim>\<open>sync_time()\<close>
  succeeded. \<open>setup_ntp_finish\<close> is the last line before the \<^verbatim>\<open>return\<close>: the call of
  \<^verbatim>\<open>time.localtime()\<close> and the \<^verbatim>\<open>print\<close> of its result.
\<close>

fun held :: "obj option list \<Rightarrow> obj list" where
  "held [] = []"
| "held (None # pins) = held pins"
| "held (Some pin # pins) = pin # held pins"

definition deinit_returned :: "obj \<Rightarrow> event" where
  "deinit_returned pin = (Pin_deinit pin, Returned_none)"

definition log_only :: "sys \<Rightarrow> sys \<Rightarrow> bool" where
  "log_only s s' = (\<exists>l. s' = s\<lparr>log := l\<rparr>)"

fun failed_rounds :: "nat \<Rightarrow> world \<Rightarrow> sys \<Rightarrow> sys option" where
  "failed_rounds 0 w s = Some s"
| "failed_rounds (Suc k) w s =
     (case sync_time w PyNone PyNone None s of
        (Inr res, s1) \<Rightarrow> None
      | (Inl ex, s1) \<Rightarrow>
          failed_rounds k w
            (record_call (Sleep 1) Returned_none (print [PStr ''Exception:'', PErr ex] s1)))"

definition setup_ntp_finish :: "world \<Rightarrow> sys \<Rightarrow> sys" where
  "setup_ntp_finish w s1 =
     print [PStr ''NTP OK, localtime:'', PTime (localtime w (log s1))]
       (record_call Time_localtime (Returned_time (localtime w (log s1))) s1)"

text \<open>
  The entry of the argument \<^verbatim>\<open>tuning\<close> under a key: what the caller supplied, read from the
  argument itself (\<^verbatim>\<open>None\<close> and a dict without the key supply nothing). The minimum year as
  the specification words it: the tuning override if supplied, else 2022, read by \<^verbatim>\<open>int\<close>
  as line 106 does.
\<close>

definition supplied :: "(string \<times> pyval) list option \<Rightarrow> string \<Rightarrow> pyval option" where
  "supplied tuning key = (case tuning of None \<Rightarrow> None | Some d \<Rightarrow> map_of d key)"

definition spec_require_year :: "world \<Rightarrow> (string \<times> pyval) list option \<Rightarrow> pyerr + int" where
  "spec_require_year w tuning =
     py_int w (case supplied tuning ''require_year'' of Some v \<Rightarrow> v | None \<Rightarrow> PyInt 2022)"

text \<open>The class of an exception and the message it carries.\<close>

fun class_name :: "pyerr \<Rightarrow> string" where
  "class_name (RuntimeError m) = ''RuntimeError''"
| "class_name (ValueError m) = ''ValueError''"
| "class_name (TypeError m) = ''TypeError''"
| "class_name (ConnectionError m) = ''ConnectionError''"
| "class_name (TimeoutError m) = ''TimeoutError''"
| "class_name (OSError m) = ''OSError''"

fun message :: "pyerr \<Rightarrow> string" where
  "message (RuntimeError m) = m"
| "message (ValueError m) = m"
| "message (TypeError m) = m"
| "message (ConnectionError m) = m"
| "message (TimeoutError m) = m"
| "message (OSError m) = m"

text \<open>The calls of the connection loop (lines 112 to 124) when the delay is \<open>d\<close>: every
  \<^verbatim>\<open>time.sleep\<close> among them sleeps \<open>d\<close> seconds.\<close>

fun loop_call :: "real \<Rightarrow> call \<Rightarrow> bool" where
  "loop_call d (Is_connected e) = True"
| "loop_call d (Connect_AP e a b) = True"
| "loop_call d (Esp_reset e) = True"
| "loop_call d (Sleep d') = (d' = d)"
| "loop_call d c = False"

text \<open>
  The events of a connection loop whose attempts all failed, in their order. A failed
  attempt is \<^verbatim>\<open>esp.is_connected\<close> raising, or returning \<^verbatim>\<open>False\<close> with \<^verbatim>\<open>esp.connect_AP\<close>
  raising then; \<open>failed_attempt_prefix\<close> takes one from the front of a trace and gives the
  exception and the rest. \<open>exhausted_trace d n x evs\<close>: the trace \<open>evs\<close> is \<open>n\<close> times a
  failed attempt, one \<^verbatim>\<open>esp.reset()\<close> (returning or raising) and one \<^verbatim>\<open>time.sleep(d)\<close> that
  returned, then one more failed attempt, which raised \<open>x\<close>, and nothing after it.
\<close>

fun failed_attempt_prefix :: "event list \<Rightarrow> (pyerr \<times> event list) option" where
  "failed_attempt_prefix ((Is_connected e, Raised x) # evs) = Some (x, evs)"
| "failed_attempt_prefix ((Is_connected e, Returned_bool False) # (Connect_AP e' a b, Raised x) # evs) =
     Some (x, evs)"
| "failed_attempt_prefix evs = None"

fun exhausted_trace :: "real \<Rightarrow> nat \<Rightarrow> pyerr \<Rightarrow> event list \<Rightarrow> bool" where
  "exhausted_trace d 0 x evs = (failed_attempt_prefix evs = Some (x, []))"
| "exhausted_trace d (Suc n) x evs =
     (case failed_attempt_prefix evs of
        Some (y, (Esp_reset e, r) # (Sleep d', Returned_none) # rest) \<Rightarrow>
          d' = d \<and> exhausted_trace d n x rest
      | _ \<Rightarrow> False)"

text \<open>
  \<open>assign w name v\<close> is the world \<open>w\<close> where the variable \<open>name\<close> holds \<open>v\<close>. The numeric
  variables with the defaults that \<^verbatim>\<open>sync_time\<close> gives to \<^verbatim>\<open>_env_float\<close> and \<^verbatim>\<open>_env_int\<close>
  (lines 97, 98, 102 to 105 and 107).
\<close>

definition assign :: "world \<Rightarrow> string \<Rightarrow> pyval \<Rightarrow> world" where
  "assign w name v = w\<lparr>getenv := (getenv w)(name := v)\<rparr>"

definition float_defaults :: "(string \<times> real) list" where
  "float_defaults = [(''NTP_TZ'', 0), (''NTP_DST'', 0), (''NTP_TIMEOUT'', 5), (''NTP_DELAY_S'', 1)]"

definition int_defaults :: "(string \<times> int) list" where
  "int_defaults = [(''NTP_RETRIES'', 2), (''NTP_CACHE_SECONDS'', 0), (''NTP_INTERVAL'', 0)]"

section \<open>Worlds for the examples\<close>

text \<open>
  The module right after its import, and a world to run it in: the environment is an
  association list, the radio is not connected at first, the time server answers with
  1 January of a given year, the clock shows 1000, and which calls raise is a parameter.
  \<^verbatim>\<open>int\<close> and \<^verbatim>\<open>float\<close> of this world read a decimal integer with an optional minus sign
  and reject every other string; the examples apply them to such integers and to
  strings that Python rejects as well (\<^verbatim>\<open>float("abc")\<close>, \<^verbatim>\<open>int("1.5")\<close>).
\<close>

definition initial :: sys where
  "initial = \<lparr>spi = None, cs = None, rdy = None, rst = None, esp = None, pool = None, log = []\<rparr>"

definition env_of :: "(string \<times> pyval) list \<Rightarrow> string \<Rightarrow> pyval" where
  "env_of kvs name = (case map_of kvs name of Some v \<Rightarrow> v | None \<Rightarrow> PyNone)"

fun digits_val :: "nat \<Rightarrow> string \<Rightarrow> nat option" where
  "digits_val acc [] = Some acc"
| "digits_val acc (c # rest) =
     (if 48 \<le> (of_char c :: nat) \<and> (of_char c :: nat) \<le> 57
      then digits_val (10 * acc + (of_char c - 48)) rest else None)"

definition parse_int :: "string \<Rightarrow> pyerr + int" where
  "parse_int s =
     (case (case s of
              [] \<Rightarrow> None
            | c # rest \<Rightarrow>
                if c = CHR ''-''
                then (if rest = [] then None
                      else map_option (\<lambda>n. - int n) (digits_val 0 rest))
                else map_option int (digits_val 0 s)) of
        None \<Rightarrow> Inl (ValueError ''invalid literal'')
      | Some i \<Rightarrow> Inr i)"

definition parse_float :: "string \<Rightarrow> pyerr + real" where
  "parse_float s = (case parse_int s of Inl x \<Rightarrow> Inl x | Inr i \<Rightarrow> Inr (of_int i))"

definition time_of_year :: "int \<Rightarrow> struct_time" where
  "time_of_year y = \<lparr>tm_year = y, tm_mon = 1, tm_mday = 1, tm_hour = 0, tm_min = 0, tm_sec = 0,
     tm_wday = 0, tm_yday = 1, tm_isdst = -1\<rparr>"

definition example_world ::
  "(string \<times> pyval) list \<Rightarrow> (event list \<Rightarrow> call \<Rightarrow> pyerr option) \<Rightarrow> int \<Rightarrow> world" where
  "example_world kvs rs y =
     \<lparr>getenv = env_of kvs, float_of_str = parse_float, int_of_str = parse_int,
      raises = rs, is_connected_val = (\<lambda>h. False), ntp_time = (\<lambda>h. time_of_year y),
      clock = (\<lambda>h. PyInt 1000), localtime = (\<lambda>h. time_of_year y)\<rparr>"

definition wifi :: "(string \<times> pyval) list" where
  "wifi = [(''CIRCUITPY_WIFI_SSID'', PyStr ''net''), (''CIRCUITPY_WIFI_PASSWORD'', PyStr ''secret'')]"

definition never :: "event list \<Rightarrow> call \<Rightarrow> pyerr option" where
  "never h c = None"

definition world_a :: world where
  "world_a = example_world (wifi @ [(''NTP_TZ'', PyStr ''-5''), (''NTP_DST'', PyStr ''1''),
      (''NTP_RETRIES'', PyStr ''4''), (''NTP_TIMEOUT'', PyStr ''abc''),
      (''NTP_INTERVAL'', PyStr ''60''),
      (''NTP_CACHE_SECONDS'', PyStr ''1.5'')]) never 2025"

definition world_b :: world where
  "world_b = example_world (wifi @ [(''NTP_INTERVAL'', PyStr ''-5'')]) never 2025"

definition failing_radio :: "pyerr \<Rightarrow> event list \<Rightarrow> call \<Rightarrow> pyerr option" where
  "failing_radio x h c = (case c of Connect_AP e a b \<Rightarrow> Some x | _ \<Rightarrow> None)"

definition world_c :: world where
  "world_c = example_world wifi (failing_radio (ConnectionError ''Failed to connect to ssid'')) 2025"

definition world_t :: world where
  "world_t = example_world wifi (failing_radio (TimeoutError ''ESP32 not responding'')) 2025"

text \<open>
  A world in which \<^verbatim>\<open>deinit\<close> of one pin raises, with the state after the handles have
  been acquired and after they have been released; a world in which the access point
  is found only once the history has ten events, with the state after the first pass
  of the loop of \<^verbatim>\<open>setup_ntp\<close>.
\<close>

definition failing_deinit :: "obj \<Rightarrow> pyerr \<Rightarrow> event list \<Rightarrow> call \<Rightarrow> pyerr option" where
  "failing_deinit pin x h c = (if c = Pin_deinit pin then Some x else None)"

definition world_d :: world where
  "world_d = example_world wifi (failing_deinit 1 (OSError ''pin is stuck'')) 2025"

definition acquired :: sys where
  "acquired = \<lparr>spi = Some 0, cs = Some 1, rdy = Some 2, rst = Some 3, esp = Some 4, pool = Some 5,
      log = [(Board_SPI, New_obj 0), (DigitalInOut ESP_CS, New_obj 1),
        (DigitalInOut ESP_BUSY, New_obj 2), (DigitalInOut ESP_RESET, New_obj 3),
        (ESP_SPIcontrol 0 1 2 3, New_obj 4), (Get_radio_socketpool 4, New_obj 5)]\<rparr>"

definition released :: sys where
  "released = \<lparr>spi = None, cs = None, rdy = None, rst = None, esp = None, pool = None,
      log = log acquired @ [(Pin_deinit 1, Returned_none), (Pin_deinit 2, Returned_none),
        (Pin_deinit 3, Returned_none)]\<rparr>"

definition flaky_radio :: "event list \<Rightarrow> call \<Rightarrow> pyerr option" where
  "flaky_radio h c =
     (case c of
        Connect_AP e a b \<Rightarrow>
          (if length h < 10 then Some (ConnectionError ''No such ssid'') else None)
      | _ \<Rightarrow> None)"

definition world_f :: world where
  "world_f = example_world (wifi @ [(''NTP_RETRIES'', PyInt 0)]) flaky_radio 2025"

definition round1 :: sys where
  "round1 = \<lparr>spi = Some 1, cs = Some 2, rdy = Some 3, rst = Some 4, esp = Some 5, pool = Some 6,
     log = [(Print [PStr ''Fetching time via NTP.''], Returned_none),
        (Board_SPI, New_obj 1), (DigitalInOut ESP_CS, New_obj 2),
        (DigitalInOut ESP_BUSY, New_obj 3), (DigitalInOut ESP_RESET, New_obj 4),
        (ESP_SPIcontrol 1 2 3 4, New_obj 5), (Get_radio_socketpool 5, New_obj 6),
        (Is_connected 5, Returned_bool False),
        (Connect_AP 5 (PyStr ''net'') (PyStr ''secret''), Raised (ConnectionError ''No such ssid'')),
        (Print [PStr ''Exception:'', PErr (ConnectionError ''No such ssid'')], Returned_none),
        (Sleep 1, Returned_none)]\<rparr>"

text \<open>
  Arguments \<^verbatim>\<open>tuning\<close> of the examples: a minimum year above the year of the server, given
  as the second entry of the dict; overrides that compete with usable values of the
  environment (\<open>world_e\<close>); a negative retry count.
\<close>

definition tuning_2030 :: "(string \<times> pyval) list option" where
  "tuning_2030 = Some [(''timeout'', PyFloat 3), (''require_year'', PyInt 2030)]"

definition world_e :: world where
  "world_e = example_world (wifi @ [(''NTP_TIMEOUT'', PyStr ''9''), (''NTP_RETRIES'', PyStr ''4''),
      (''NTP_DELAY_S'', PyStr ''2'')]) never 2025"

definition tuning_e :: "(string \<times> pyval) list option" where
  "tuning_e = Some [(''timeout'', PyFloat 3), (''retries'', PyInt 7), (''require_year'', PyInt 2020)]"

definition tuning_neg :: "(string \<times> pyval) list option" where
  "tuning_neg = Some [(''retries'', PyInt (- 2))]"

section \<open>The history only grows\<close>

lemma log_record_call: "log (record_call c r s) = log s @ [(c, r)]"
  by (simp add: record_call_def)

lemma only_calls_refl: "only_calls P s s"
  by (simp add: only_calls_def)

lemma only_calls_trans: "only_calls P s s1 \<Longrightarrow> only_calls P s1 s2 \<Longrightarrow> only_calls P s s2"
  by (auto simp: only_calls_def)

lemma only_calls_record: "P c \<Longrightarrow> only_calls P s (record_call c r s)"
  by (simp add: only_calls_def log_record_call)

lemma only_calls_ext_call: "P c \<Longrightarrow> only_calls P s (snd (ext_call w c x emb s))"
  by (simp add: ext_call_def only_calls_record split: option.splits)

lemma only_calls_upd:
  "only_calls P s (s1\<lparr>spi := a\<rparr>) = only_calls P s s1"
  "only_calls P s (s1\<lparr>cs := a\<rparr>) = only_calls P s s1"
  "only_calls P s (s1\<lparr>rdy := a\<rparr>) = only_calls P s s1"
  "only_calls P s (s1\<lparr>rst := a\<rparr>) = only_calls P s s1"
  "only_calls P s (s1\<lparr>esp := a\<rparr>) = only_calls P s s1"
  "only_calls P s (s1\<lparr>pool := a\<rparr>) = only_calls P s s1"
  by (simp_all add: only_calls_def)

lemma only_calls_get_or_new:
  "P c \<Longrightarrow> only_calls P s (snd (get_or_new w cur c s))"
  by (simp add: get_or_new_def new_obj_def only_calls_ext_call only_calls_refl split: option.splits)

lemma only_calls_stage:
  assumes "only_calls P s0 s" and "P c"
    and "\<And>a s1. only_calls P s0 s1 \<Longrightarrow> only_calls P s0 (snd (k a s1))"
  shows "only_calls P s0 (snd (case get_or_new w cur c s of
           (Inl x, s1) \<Rightarrow> (Inl x, s1) | (Inr a, s1) \<Rightarrow> k a s1))"
proof -
  obtain r s1 where g: "get_or_new w cur c s = (r, s1)"
    by (cases "get_or_new w cur c s")
  have "only_calls P s s1"
    using only_calls_get_or_new [of P c s w cur] assms(2) g by simp
  with assms(1) have "only_calls P s0 s1"
    by (rule only_calls_trans)
  then show ?thesis
    using g assms(3) by (cases r) simp_all
qed

lemma ensure_radio_acquire_calls:
  "only_calls setup_call s (snd (ensure_radio_acquire w s))"
  unfolding ensure_radio_acquire_def
  by (intro only_calls_stage) (simp_all add: only_calls_refl only_calls_upd)

lemma ensure_radio_calls:
  "only_calls setup_call s (snd (ensure_radio w s))"
  by (simp add: ensure_radio_def ensure_radio_acquire_calls only_calls_refl split: option.splits)

lemma try_connect_calls: "only_calls setup_call s (snd (try_connect w e ssid pw s))"
proof -
  have a: "only_calls setup_call s (snd (esp_is_connected w e s))"
    by (simp add: esp_is_connected_def only_calls_ext_call)
  have b: "\<And>s1. only_calls setup_call s1 (snd (proc_call w (Connect_AP e ssid pw) s1))"
    by (simp add: proc_call_def only_calls_ext_call)
  show ?thesis
    using a b [of "snd (esp_is_connected w e s)"]
    by (auto simp: try_connect_def split: prod.splits sum.splits bool.splits
        intro: only_calls_trans)
qed

lemma time_sleep_calls: "only_calls setup_call s (snd (time_sleep d s))"
  by (simp add: time_sleep_def only_calls_record)

lemma connect_loop_calls:
  "only_calls setup_call s (snd (connect_loop w e ssid pw n d as s))"
proof (induction as arbitrary: s)
  case Nil
  then show ?case by (simp add: only_calls_refl)
next
  case (Cons a as)
  obtain r1 s1 where t: "try_connect w e ssid pw s = (r1, s1)"
    by (cases "try_connect w e ssid pw s")
  have o1: "only_calls setup_call s s1"
    using try_connect_calls [of s w e ssid pw] t by simp
  define s2 where "s2 = snd (proc_call w (Esp_reset e) s1)"
  have o2: "only_calls setup_call s1 s2"
    by (simp add: s2_def proc_call_def only_calls_ext_call)
  obtain r3 s3 where sl: "time_sleep d s2 = (r3, s3)"
    by (cases "time_sleep d s2")
  have o3: "only_calls setup_call s2 s3"
    using time_sleep_calls [of s2 d] sl by simp
  have o13: "only_calls setup_call s s3"
    using o1 o2 o3 by (blast intro: only_calls_trans)
  have o4: "only_calls setup_call s (snd (connect_loop w e ssid pw n d as s3))"
    using o13 Cons.IH [of s3] by (blast intro: only_calls_trans)
  show ?case
    using t sl o1 o13 o4 unfolding s2_def
    by (cases r1; cases r3) (simp_all)
qed

section \<open>The courses a call of \<^verbatim>\<open>sync_time\<close> can take\<close>

lemma ext_call_cases:
  assumes "ext_call w c x emb s = (r, s')"
  obtains (raised) y where "r = Inl y" "s' = record_call c (Raised y) s"
  | (returned) "r = Inr x" "s' = record_call c (emb x) s"
  using assms by (auto simp: ext_call_def split: option.splits)

lemma sync_time_ntp_cases:
  assumes "sync_time_ntp w c p s2 = (r, s')"
  obtains
    (ntp_fail) x where "r = Inl x"
      "log s' = log s2 @ [(NTP_new p (tz_offset c) (server c) (timeout c) (cache_seconds c), Raised x)]"
  | (fetch_fail) n x where "r = Inl x"
      "log s' = log s2 @ [(NTP_new p (tz_offset c) (server c) (timeout c) (cache_seconds c), New_obj n),
                          (NTP_datetime n, Raised x)]"
  | (bad_year) n now where "tm_year now < require_year c"
      "r = Inl (RuntimeError ''NTP returned an unexpected year; not setting RTC'')"
      "log s' = log s2 @ [(NTP_new p (tz_offset c) (server c) (timeout c) (cache_seconds c), New_obj n),
                          (NTP_datetime n, Returned_time now)]"
  | (rtc_fail) n now x where "require_year c \<le> tm_year now" "r = Inl x"
      "log s' = log s2 @ [(NTP_new p (tz_offset c) (server c) (timeout c) (cache_seconds c), New_obj n),
                          (NTP_datetime n, Returned_time now),
                          (RTC_set_datetime now, Raised x)]"
  | (no_next) n now where "require_year c \<le> tm_year now" "interval c \<le> 0"
      "r = Inr (now, PyNone)"
      "log s' = log s2 @ [(NTP_new p (tz_offset c) (server c) (timeout c) (cache_seconds c), New_obj n),
                          (NTP_datetime n, Returned_time now),
                          (RTC_set_datetime now, Returned_none)]"
  | (with_next) n now t where "require_year c \<le> tm_year now" "0 < interval c"
      "r = (case py_add t (PyInt (interval c)) of Inl x \<Rightarrow> Inl x | Inr nx \<Rightarrow> Inr (now, nx))"
      "log s' = log s2 @ [(NTP_new p (tz_offset c) (server c) (timeout c) (cache_seconds c), New_obj n),
                          (NTP_datetime n, Returned_time now),
                          (RTC_set_datetime now, Returned_none),
                          (Time_time, Returned_val t)]"
proof -
  let ?c = "NTP_new p (tz_offset c) (server c) (timeout c) (cache_seconds c)"
  obtain r3 s3 where e3: "new_obj w ?c s2 = (r3, s3)"
    by (cases "new_obj w ?c s2")
  from e3 [unfolded new_obj_def] show ?thesis
  proof (cases rule: ext_call_cases)
    case (raised y)
    then show ?thesis
      using assms e3 ntp_fail by (auto simp: sync_time_ntp_def log_record_call)
  next
    case returned
    define n where "n = length (log s2)"
    have l3: "log s3 = log s2 @ [(?c, New_obj n)]"
      using returned by (simp add: log_record_call n_def)
    obtain r4 s4 where e4: "ntp_datetime w n s3 = (r4, s4)"
      by (cases "ntp_datetime w n s3")
    have a4: "sync_time_ntp w c p s2 =
        (case (r4, s4) of (Inl x, s4) \<Rightarrow> (Inl x, s4)
         | (Inr now, s4) \<Rightarrow>
         if tm_year now < require_year c
         then (Inl (RuntimeError ''NTP returned an unexpected year; not setting RTC''), s4)
         else
     (case proc_call w (RTC_set_datetime now) s4 of
        (Inl x, s5) \<Rightarrow> (Inl x, s5)
      | (Inr u, s5) \<Rightarrow>
         if interval c > 0
         then (case time_time w s5 of
                 (t, s6) \<Rightarrow>
                   (case py_add t (PyInt (interval c)) of
                      Inl x \<Rightarrow> (Inl x, s6)
                    | Inr next_sync \<Rightarrow> (Inr (now, next_sync), s6)))
         else (Inr (now, PyNone), s5)))"
      using e3 e4 returned by (simp add: sync_time_ntp_def n_def)
    from e4 [unfolded ntp_datetime_def] show ?thesis
    proof (cases rule: ext_call_cases)
      case (raised y)
      then show ?thesis
        using assms a4 l3 fetch_fail by (auto simp: log_record_call)
    next
      case returned
      define now where "now = ntp_time w (log s3)"
      have l4: "log s4 = log s2 @ [(?c, New_obj n), (NTP_datetime n, Returned_time now)]"
        using returned l3 by (simp add: log_record_call now_def)
      have r4: "r4 = Inr now" using returned by (simp add: now_def)
      show ?thesis
      proof (cases "tm_year now < require_year c")
        case True
        then show ?thesis using assms a4 r4 l4 bad_year by auto
      next
        case False
        obtain r5 s5 where e5: "proc_call w (RTC_set_datetime now) s4 = (r5, s5)"
          by (cases "proc_call w (RTC_set_datetime now) s4")
        from e5 [unfolded proc_call_def] show ?thesis
        proof (cases rule: ext_call_cases)
          case (raised y)
          then show ?thesis
            using assms a4 r4 l4 False e5 rtc_fail [of now y n] by (auto simp: log_record_call)
        next
          case returned
          have l5: "log s5 = log s2 @ [(?c, New_obj n), (NTP_datetime n, Returned_time now),
                (RTC_set_datetime now, Returned_none)]"
            using returned l4 by (simp add: log_record_call)
          show ?thesis
          proof (cases "0 < interval c")
            case True
            show ?thesis
              using assms a4 r4 l5 False e5 returned True
                with_next [of now "clock w (log s5)" n]
              by (auto simp: time_time_def log_record_call split: sum.splits)
          next
            case no: False
            show ?thesis
              using assms a4 r4 l5 False e5 returned no no_next [of now n]
              by auto
          qed
        qed
      qed
    qed
  qed
qed

lemma sync_time_cases:
  assumes "sync_time w srv tz tuning s = (r, s')"
  obtains
    (no_creds) "\<not> truthy (getenv w ''CIRCUITPY_WIFI_SSID'') \<or> \<not> truthy (getenv w ''CIRCUITPY_WIFI_PASSWORD'')"
      "r = Inl (RuntimeError ''Add CIRCUITPY_WIFI_SSID/PASSWORD to settings.toml'')" "s' = s"
  | (bad_config) x where "sync_time_config w srv tz tuning = Inl x" "r = Inl x" "s' = s"
  | (setup_fail) c x where "sync_time_config w srv tz tuning = Inr c" "r = Inl x"
      "only_calls setup_call s s'"
  | (reached_ntp) c p s2 where "sync_time_config w srv tz tuning = Inr c"
      "only_calls setup_call s s2" "sync_time_ntp w c p s2 = (r, s')"
proof (cases "\<not> truthy (getenv w ''CIRCUITPY_WIFI_SSID'') \<or> \<not> truthy (getenv w ''CIRCUITPY_WIFI_PASSWORD'')")
  case True
  then show ?thesis using assms no_creds by (auto simp: sync_time_def)
next
  case creds: False
  show ?thesis
  proof (cases "sync_time_config w srv tz tuning")
    case (Inl x)
    then show ?thesis using assms creds bad_config by (auto simp: sync_time_def)
  next
    case (Inr c)
    obtain r1 s1 where e1: "ensure_radio w s = (r1, s1)"
      by (cases "ensure_radio w s")
    have o1: "only_calls setup_call s s1"
      using ensure_radio_calls [of s w] e1 by simp
    show ?thesis
    proof (cases r1)
      case (Inl x)
      then show ?thesis
        using assms creds Inr e1 o1 setup_fail [of c x] by (auto simp: sync_time_def)
    next
      case r1: (Inr ep)
      obtain e p where ep: "ep = (e, p)" by (cases ep)
      let ?loop = "connect_loop w e (getenv w ''CIRCUITPY_WIFI_SSID'')
          (getenv w ''CIRCUITPY_WIFI_PASSWORD'') (retries c) (retry_delay c) [0..retries c] s1"
      obtain r2 s2 where e2: "?loop = (r2, s2)"
        by (cases ?loop)
      have "only_calls setup_call s1 s2"
        using connect_loop_calls [of s1 w e "getenv w ''CIRCUITPY_WIFI_SSID''"
            "getenv w ''CIRCUITPY_WIFI_PASSWORD''" "retries c" "retry_delay c" "[0..retries c]"] e2
        by simp
      with o1 have o2: "only_calls setup_call s s2"
        by (rule only_calls_trans)
      show ?thesis
      proof (cases r2)
        case (Inl x)
        then show ?thesis
          using assms creds Inr e1 r1 ep e2 o2 setup_fail [of c x]
          by (auto simp: sync_time_def)
      next
        case r2: (Inr u)
        then show ?thesis
          using assms creds Inr e1 r1 ep e2 o2 reached_ntp [of c s2 p]
          by (auto simp: sync_time_def)
      qed
    qed
  qed
qed

section \<open>Reading the environment\<close>

lemma getenv_unset_other: "n \<noteq> name \<Longrightarrow> getenv (unset w name) n = getenv w n"
  by (simp add: unset_def)

lemma py_float_unset: "py_float (unset w name) v = py_float w v"
  by (cases v) (simp_all add: unset_def)

lemma py_int_unset: "py_int (unset w name) v = py_int w v"
  by (cases v) (simp_all add: unset_def)

lemma env_float_bad: "bad_float w name \<Longrightarrow> env_float w name d = d"
  by (auto simp: env_float_def bad_float_def Let_def split: sum.splits)

lemma env_int_bad: "bad_int w name \<Longrightarrow> env_int w name d = d"
  by (auto simp: env_int_def bad_int_def Let_def split: sum.splits)

lemma env_float_unset_other: "n \<noteq> name \<Longrightarrow> env_float (unset w name) n d = env_float w n d"
  by (simp add: env_float_def py_float_unset Let_def getenv_unset_other)

lemma env_int_unset_other: "n \<noteq> name \<Longrightarrow> env_int (unset w name) n d = env_int w n d"
  by (simp add: env_int_def py_int_unset Let_def getenv_unset_other)

lemma env_float_unset_same: "env_float (unset w name) name d = d"
  by (simp add: env_float_def unset_def)

lemma env_int_unset_same: "env_int (unset w name) name d = d"
  by (simp add: env_int_def unset_def)

lemma env_float_unset_bad:
  "bad_float w name \<Longrightarrow> env_float (unset w name) n d = env_float w n d"
  by (cases "n = name") (simp_all add: env_float_unset_other env_float_unset_same env_float_bad)

lemma env_int_unset_bad:
  "bad_int w name \<Longrightarrow> env_int (unset w name) n d = env_int w n d"
  by (cases "n = name") (simp_all add: env_int_unset_other env_int_unset_same env_int_bad)

lemma sync_time_config_unset_float:
  assumes "name \<in> set float_vars" "bad_float w name"
  shows "sync_time_config (unset w name) srv tz tuning = sync_time_config w srv tz tuning"
proof -
  have ne: "''NTP_SERVER'' \<noteq> name" "''NTP_RETRIES'' \<noteq> name" "''NTP_CACHE_SECONDS'' \<noteq> name"
    "''NTP_INTERVAL'' \<noteq> name"
    using assms(1) by (auto simp: float_vars_def)
  show ?thesis
    unfolding sync_time_config_def
    by (simp only: env_float_unset_bad [OF assms(2)] env_int_unset_other [OF ne(2)]
        env_int_unset_other [OF ne(3)] env_int_unset_other [OF ne(4)]
        getenv_unset_other [OF ne(1)] py_float_unset py_int_unset)
qed

lemma sync_time_config_unset_int:
  assumes "name \<in> set int_vars" "bad_int w name"
  shows "sync_time_config (unset w name) srv tz tuning = sync_time_config w srv tz tuning"
proof -
  have ne: "''NTP_SERVER'' \<noteq> name" "''NTP_TZ'' \<noteq> name" "''NTP_DST'' \<noteq> name"
    "''NTP_TIMEOUT'' \<noteq> name" "''NTP_DELAY_S'' \<noteq> name"
    using assms(1) by (auto simp: int_vars_def)
  show ?thesis
    unfolding sync_time_config_def
    by (simp only: env_int_unset_bad [OF assms(2)] env_float_unset_other [OF ne(2)]
        env_float_unset_other [OF ne(3)] env_float_unset_other [OF ne(4)]
        env_float_unset_other [OF ne(5)]
        getenv_unset_other [OF ne(1)] py_float_unset py_int_unset)
qed

lemma ext_call_unset: "ext_call (unset w name) c x emb s = ext_call w c x emb s"
  by (simp add: ext_call_def unset_def)

lemma is_connected_val_unset: "is_connected_val (unset w name) = is_connected_val w"
  "ntp_time (unset w name) = ntp_time w" "clock (unset w name) = clock w"
  by (simp_all add: unset_def)

lemma ensure_radio_unset: "ensure_radio (unset w name) s = ensure_radio w s"
  by (simp add: ensure_radio_def ensure_radio_acquire_def get_or_new_def new_obj_def ext_call_unset
      cong: sum.case_cong option.case_cong prod.case_cong)

lemma try_connect_unset: "try_connect (unset w name) e ssid pw s = try_connect w e ssid pw s"
  by (simp add: try_connect_def esp_is_connected_def proc_call_def ext_call_unset
      is_connected_val_unset cong: sum.case_cong bool.case_cong prod.case_cong)

lemma connect_loop_unset:
  "connect_loop (unset w name) e ssid pw n d as s = connect_loop w e ssid pw n d as s"
  by (induction as arbitrary: s)
    (simp_all add: try_connect_unset proc_call_def ext_call_unset
      cong: sum.case_cong prod.case_cong if_cong)

lemma sync_time_ntp_unset: "sync_time_ntp (unset w name) c p s = sync_time_ntp w c p s"
  by (simp add: sync_time_ntp_def new_obj_def ntp_datetime_def proc_call_def ext_call_unset
      time_time_def is_connected_val_unset cong: sum.case_cong prod.case_cong if_cong)

lemma sync_time_unset:
  assumes "sync_time_config (unset w name) srv tz tuning = sync_time_config w srv tz tuning"
    and "name \<noteq> ''CIRCUITPY_WIFI_SSID''" "name \<noteq> ''CIRCUITPY_WIFI_PASSWORD''"
  shows "sync_time (unset w name) srv tz tuning s = sync_time w srv tz tuning s"
  unfolding sync_time_def
  by (simp only: assms(1) ensure_radio_unset connect_loop_unset sync_time_ntp_unset
      getenv_unset_other [OF assms(2) [symmetric]] getenv_unset_other [OF assms(3) [symmetric]])

section \<open>Runs of the examples\<close>

lemmas eval_defs = example_world_def wifi_def never_def env_of_def initial_def time_of_year_def
  parse_int_def parse_float_def
  sync_time_def sync_time_config_def sync_time_ntp_def ensure_radio_def ensure_radio_acquire_def
  get_or_new_def new_obj_def proc_call_def ext_call_def record_call_def esp_is_connected_def
  ntp_datetime_def time_sleep_def time_time_def time_localtime_def print_def
  env_float_def env_int_def tuning_get_def tuning_or_empty_def py_or_def py_add_def try_connect_def
  new_events_def upto.simps

section \<open>Properties of \<^verbatim>\<open>sync_time\<close>\<close>

lemma example_old_year_run:
  "sync_time (example_world wifi never 2000) PyNone PyNone None initial =
    (Inl (RuntimeError ''NTP returned an unexpected year; not setting RTC''),
     \<lparr>spi = Some 0, cs = Some 1, rdy = Some 2, rst = Some 3, esp = Some 4, pool = Some 5,
      log = [(Board_SPI, New_obj 0), (DigitalInOut ESP_CS, New_obj 1),
        (DigitalInOut ESP_BUSY, New_obj 2), (DigitalInOut ESP_RESET, New_obj 3),
        (ESP_SPIcontrol 0 1 2 3, New_obj 4), (Get_radio_socketpool 4, New_obj 5),
        (Is_connected 4, Returned_bool False),
        (Connect_AP 4 (PyStr ''net'') (PyStr ''secret''), Returned_none),
        (NTP_new 5 (PyFloat 0) (PyStr ''pool.ntp.org'') 5 0, New_obj 8),
        (NTP_datetime 8, Returned_time (time_of_year 2000))]\<rparr>)"
  by (simp add: eval_defs)

lemma log_initial: "log initial = []"
  by (simp add: initial_def)

lemma example_default_config:
  "sync_time_config (example_world wifi never y) PyNone PyNone None =
     Inr \<lparr>server = PyStr ''pool.ntp.org'', tz_offset = PyFloat 0, timeout = 5,
        retries = 2, retry_delay = 1, cache_seconds = 0, require_year = 2022, interval = 0\<rparr>"
  by (simp add: eval_defs)

text \<open>
  Claim C2. When \<^verbatim>\<open>CIRCUITPY_WIFI_SSID\<close> or \<^verbatim>\<open>CIRCUITPY_WIFI_PASSWORD\<close> is unset or
  empty, \<^verbatim>\<open>sync_time\<close> raises the \<^verbatim>\<open>RuntimeError\<close> that asks for the credentials, and the
  state is the one it started in: no handle has been acquired and the history of calls
  to the collaborators has not grown, so neither the board nor the radio was touched.
\<close>

theorem sync_time_missing_credentials:
  assumes "getenv w ''CIRCUITPY_WIFI_SSID'' \<in> {PyNone, PyStr ''''}
         \<or> getenv w ''CIRCUITPY_WIFI_PASSWORD'' \<in> {PyNone, PyStr ''''}"
  shows "sync_time w srv tz tuning s =
           (Inl (RuntimeError ''Add CIRCUITPY_WIFI_SSID/PASSWORD to settings.toml''), s)"
  using assms by (auto simp: sync_time_def)

theorem sync_time_missing_credentials_witness:
  "getenv (example_world [(''CIRCUITPY_WIFI_SSID'', PyStr ''net'')] never 2025) ''CIRCUITPY_WIFI_PASSWORD''
      \<in> {PyNone, PyStr ''''}
   \<and> sync_time (example_world [(''CIRCUITPY_WIFI_SSID'', PyStr ''net'')] never 2025) PyNone PyNone None initial =
       (Inl (RuntimeError ''Add CIRCUITPY_WIFI_SSID/PASSWORD to settings.toml''), initial)"
proof -
  have h: "getenv (example_world [(''CIRCUITPY_WIFI_SSID'', PyStr ''net'')] never 2025) ''CIRCUITPY_WIFI_PASSWORD''
      \<in> {PyNone, PyStr ''''}"
    by (simp add: example_world_def env_of_def)
  show ?thesis
    using h sync_time_missing_credentials [OF disjI2, OF h, of PyNone PyNone None initial]
    by simp
qed

lemma env_float_reads: "reads_as_float w name x \<Longrightarrow> env_float w name d = x"
  by (simp add: env_float_def reads_as_float_def)

lemma env_int_reads: "reads_as_int w name i \<Longrightarrow> env_int w name d = i"
  by (simp add: env_int_def reads_as_int_def)

lemma env_float_none: "getenv w name = PyNone \<Longrightarrow> env_float w name d = d"
  by (simp add: env_float_def)

lemma env_int_none: "getenv w name = PyNone \<Longrightarrow> env_int w name d = d"
  by (simp add: env_int_def)

lemma tuning_get_Some: "map_of t k = Some v \<Longrightarrow> tuning_get t k d = v"
  by (simp add: tuning_get_def)

lemma tuning_get_None: "map_of t k = None \<Longrightarrow> tuning_get t k d = d"
  by (simp add: tuning_get_def)

lemma sync_time_config_fields:
  assumes "sync_time_config w srv tz tuning = Inr c"
  shows "py_add (if tz = PyNone then PyFloat (env_float w ''NTP_TZ'' 0) else tz)
           (PyFloat (env_float w ''NTP_DST'' 0)) = Inr (tz_offset c)"
    and "py_float w (tuning_get (tuning_or_empty tuning) ''timeout''
           (PyFloat (env_float w ''NTP_TIMEOUT'' 5))) = Inr (timeout c)"
    and "py_int w (tuning_get (tuning_or_empty tuning) ''retries''
           (PyInt (env_int w ''NTP_RETRIES'' 2))) = Inr (retries c)"
    and "py_float w (tuning_get (tuning_or_empty tuning) ''retry_delay''
           (PyFloat (env_float w ''NTP_DELAY_S'' 1))) = Inr (retry_delay c)"
    and "py_int w (tuning_get (tuning_or_empty tuning) ''cache_seconds''
           (PyInt (env_int w ''NTP_CACHE_SECONDS'' 0))) = Inr (cache_seconds c)"
    and "py_int w (tuning_get (tuning_or_empty tuning) ''require_year'' (PyInt 2022)) =
           Inr (require_year c)"
    and "interval c = env_int w ''NTP_INTERVAL'' 0"
    and "server c = py_or (py_or srv (getenv w ''NTP_SERVER'')) (PyStr ''pool.ntp.org'')"
  using assms
  by (auto simp: sync_time_config_def Let_def split: sum.splits)

lemma ntp_client_args:
  assumes "sync_time w srv tz tuning s = (r, s')"
    and "sync_time_config w srv tz tuning = Inr c"
    and "(NTP_new p tzv sv tmo cch, x) \<in> set (new_events s s')"
  shows "tzv = tz_offset c \<and> sv = server c \<and> tmo = timeout c \<and> cch = cache_seconds c"
  using assms(1)
proof (cases rule: sync_time_cases)
  case no_creds
  then show ?thesis using assms(3) by (simp add: new_events_def)
next
  case (bad_config y)
  then show ?thesis using assms(3) by (simp add: new_events_def)
next
  case (setup_fail c' y)
  then obtain evs where "log s' = log s @ evs" "\<forall>ev\<in>set evs. setup_call (fst ev)"
    by (auto simp: only_calls_def)
  then show ?thesis
    using assms(3) by (fastforce simp: new_events_def)
next
  case (reached_ntp c' q s2)
  with assms(2) have c': "c' = c" by simp
  from reached_ntp obtain evs where evs: "log s2 = log s @ evs" "\<forall>ev\<in>set evs. setup_call (fst ev)"
    by (auto simp: only_calls_def)
  have no: "\<And>a b c d e y. (NTP_new a b c d e, y) \<notin> set evs"
    using evs(2) by fastforce
  from reached_ntp(3) [unfolded c'] show ?thesis
    using assms(3)
    by (cases rule: sync_time_ntp_cases) (auto simp: new_events_def evs(1) no)
qed

lemma world_a_config:
  "sync_time_config world_a PyNone (PyFloat 2) (Some [(''timeout'', PyFloat 3)]) =
     Inr \<lparr>server = PyStr ''pool.ntp.org'', tz_offset = PyFloat 3, timeout = 3,
        retries = 4, retry_delay = 1, cache_seconds = 0, require_year = 2022, interval = 60\<rparr>"
  by (simp add: world_a_def eval_defs)

lemma world_a_run:
  "sync_time world_a PyNone (PyFloat 2) (Some [(''timeout'', PyFloat 3)]) initial =
    (Inr (time_of_year 2025, PyInt 1060),
     \<lparr>spi = Some 0, cs = Some 1, rdy = Some 2, rst = Some 3, esp = Some 4, pool = Some 5,
      log = [(Board_SPI, New_obj 0), (DigitalInOut ESP_CS, New_obj 1),
        (DigitalInOut ESP_BUSY, New_obj 2), (DigitalInOut ESP_RESET, New_obj 3),
        (ESP_SPIcontrol 0 1 2 3, New_obj 4), (Get_radio_socketpool 4, New_obj 5),
        (Is_connected 4, Returned_bool False),
        (Connect_AP 4 (PyStr ''net'') (PyStr ''secret''), Returned_none),
        (NTP_new 5 (PyFloat 3) (PyStr ''pool.ntp.org'') 3 0, New_obj 8),
        (NTP_datetime 8, Returned_time (time_of_year 2025)),
        (RTC_set_datetime (time_of_year 2025), Returned_none),
        (Time_time, Returned_val (PyInt 1000))]\<rparr>)"
  by (simp add: world_a_def eval_defs)

lemma world_a_env:
  "reads_as_int world_a ''NTP_RETRIES'' 4"
  "getenv world_a ''NTP_DELAY_S'' = PyNone"
  "bad_int world_a ''NTP_CACHE_SECONDS''"
  "bad_float world_a ''NTP_TIMEOUT''"
  "reads_as_float world_a ''NTP_TZ'' (-5)"
  "reads_as_float world_a ''NTP_DST'' 1"
  "reads_as_int world_a ''NTP_INTERVAL'' 60"
  by (simp_all add: world_a_def reads_as_int_def reads_as_float_def bad_float_def bad_int_def
      example_world_def wifi_def env_of_def parse_int_def parse_float_def)

lemma world_b_config:
  "sync_time_config world_b PyNone PyNone None =
     Inr \<lparr>server = PyStr ''pool.ntp.org'', tz_offset = PyFloat 0, timeout = 5,
        retries = 2, retry_delay = 1, cache_seconds = 0, require_year = 2022, interval = - 5\<rparr>"
  by (simp add: world_b_def eval_defs)

lemma world_b_run:
  "fst (sync_time world_b PyNone PyNone None initial) = Inr (time_of_year 2025, PyNone)"
  by (simp add: world_b_def eval_defs)

lemma world_b_env:
  "reads_as_int world_b ''NTP_INTERVAL'' (-5)"
  by (simp_all add: world_b_def reads_as_int_def 
      example_world_def wifi_def env_of_def parse_int_def parse_float_def)

text \<open>
  Claim C6. The offset that \<^verbatim>\<open>sync_time\<close> passes to \<^verbatim>\<open>adafruit_ntp.NTP\<close> is the sum of
  the argument \<^verbatim>\<open>tz_offset\<close>, or of \<^verbatim>\<open>_env_float("NTP_TZ", 0.0)\<close> when the argument is
  \<^verbatim>\<open>None\<close>, and of \<^verbatim>\<open>_env_float("NTP_DST", 0.0)\<close>: the daylight-saving term is added in
  both cases.
\<close>

theorem tz_offset_adds_dst:
  assumes "sync_time w srv tz tuning s = (r, s')"
    and "(NTP_new p tzv sv tmo cch, x) \<in> set (new_events s s')"
  shows "py_add (if tz = PyNone then PyFloat (env_float w ''NTP_TZ'' 0) else tz)
           (PyFloat (env_float w ''NTP_DST'' 0)) = Inr tzv
       \<and> (tz = PyNone \<longrightarrow> tzv = PyFloat (env_float w ''NTP_TZ'' 0 + env_float w ''NTP_DST'' 0))
       \<and> (\<forall>a. tz = PyFloat a \<longrightarrow> tzv = PyFloat (a + env_float w ''NTP_DST'' 0))
       \<and> (\<forall>i. tz = PyInt i \<longrightarrow> tzv = PyFloat (of_int i + env_float w ''NTP_DST'' 0))
       \<and> (\<forall>a. reads_as_float w ''NTP_TZ'' a \<longrightarrow> env_float w ''NTP_TZ'' 0 = a)
       \<and> (getenv w ''NTP_TZ'' = PyNone \<longrightarrow> env_float w ''NTP_TZ'' 0 = 0)
       \<and> (\<forall>a. reads_as_float w ''NTP_DST'' a \<longrightarrow> env_float w ''NTP_DST'' 0 = a)
       \<and> (getenv w ''NTP_DST'' = PyNone \<longrightarrow> env_float w ''NTP_DST'' 0 = 0)"
proof -
  obtain c where c: "sync_time_config w srv tz tuning = Inr c"
    using assms by (cases rule: sync_time_cases) (auto simp: new_events_def)
  have tzv: "tzv = tz_offset c"
    using ntp_client_args [OF assms(1) c assms(2)] by simp
  have main: "py_add (if tz = PyNone then PyFloat (env_float w ''NTP_TZ'' 0) else tz)
           (PyFloat (env_float w ''NTP_DST'' 0)) = Inr tzv"
    using sync_time_config_fields(1) [OF c] tzv by simp
  then show ?thesis
    by (auto simp: py_add_def env_float_reads env_float_none)
qed

theorem tz_offset_adds_dst_witness:
  "(NTP_new 5 (PyFloat 3) (PyStr ''pool.ntp.org'') 3 0, New_obj 8) \<in> set (new_events initial
        (snd (sync_time world_a PyNone (PyFloat 2) (Some [(''timeout'', PyFloat 3)]) initial)))
   \<and> reads_as_float world_a ''NTP_TZ'' (- 5)
   \<and> reads_as_float world_a ''NTP_DST'' 1
   \<and> env_float world_a ''NTP_DST'' 0 = 1
   \<and> PyFloat 3 = PyFloat (2 + env_float world_a ''NTP_DST'' 0)"
proof -
  let ?run = "sync_time world_a PyNone (PyFloat 2) (Some [(''timeout'', PyFloat 3)]) initial"
  have run: "?run = (fst ?run, snd ?run)"
    by simp
  have ev: "(NTP_new 5 (PyFloat 3) (PyStr ''pool.ntp.org'') 3 0, New_obj 8)
      \<in> set (new_events initial (snd ?run))"
    by (simp add: world_a_run new_events_def log_initial)
  show ?thesis
    using tz_offset_adds_dst [OF run ev] ev world_a_env
    by simp
qed

lemma py_add_not_None: "py_add a b = Inr v \<Longrightarrow> v \<noteq> PyNone"
  by (cases a; cases b) (auto simp: py_add_def split: if_splits)

text \<open>
  Claim C7, as amended. In a call of \<^verbatim>\<open>sync_time\<close> that succeeds, \<^verbatim>\<open>next_sync\<close> is \<^verbatim>\<open>None\<close>
  exactly when \<^verbatim>\<open>_env_int("NTP_INTERVAL", 0)\<close> is not positive: zero, negative, or the
  default of a variable that is unset, empty or not an integer. When it is a positive
  \<open>I\<close>, the last call of the run is \<^verbatim>\<open>time.time()\<close> and \<^verbatim>\<open>next_sync\<close> is its result plus \<open>I\<close>.
\<close>

theorem next_sync_interval:
  assumes "sync_time w srv tz tuning s = (Inr (now, next_sync), s')"
  shows "(next_sync = PyNone \<longleftrightarrow> env_int w ''NTP_INTERVAL'' 0 \<le> 0)
       \<and> (0 < env_int w ''NTP_INTERVAL'' 0 \<longrightarrow>
            (\<exists>t. new_events s s' \<noteq> [] \<and> last (new_events s s') = (Time_time, Returned_val t)
                \<and> py_add t (PyInt (env_int w ''NTP_INTERVAL'' 0)) = Inr next_sync))
       \<and> (\<forall>i. reads_as_int w ''NTP_INTERVAL'' i \<longrightarrow> env_int w ''NTP_INTERVAL'' 0 = i)
       \<and> (bad_int w ''NTP_INTERVAL'' \<longrightarrow> env_int w ''NTP_INTERVAL'' 0 = 0)"
  using assms
proof (cases rule: sync_time_cases)
  case (reached_ntp c p s2)
  from reached_ntp obtain evs where evs: "log s2 = log s @ evs"
    by (auto simp: only_calls_def)
  have i: "interval c = env_int w ''NTP_INTERVAL'' 0"
    using sync_time_config_fields(7) [OF reached_ntp(1)] .
  from reached_ntp(3) show ?thesis
    by (cases rule: sync_time_ntp_cases)
      (auto simp: new_events_def evs i env_int_reads env_int_bad split: sum.splits
        dest: py_add_not_None)
qed simp_all

theorem next_sync_interval_witness:
  "sync_time world_a PyNone (PyFloat 2) (Some [(''timeout'', PyFloat 3)]) initial =
      (Inr (time_of_year 2025, PyInt 1060),
        snd (sync_time world_a PyNone (PyFloat 2) (Some [(''timeout'', PyFloat 3)]) initial))
   \<and> reads_as_int world_a ''NTP_INTERVAL'' 60
   \<and> env_int world_a ''NTP_INTERVAL'' 0 = 60
   \<and> PyInt 1060 \<noteq> PyNone"
proof -
  let ?run = "sync_time world_a PyNone (PyFloat 2) (Some [(''timeout'', PyFloat 3)]) initial"
  have run: "?run = (Inr (time_of_year 2025, PyInt 1060), snd ?run)"
    by (simp add: world_a_run)
  show ?thesis
    using next_sync_interval [OF run] run world_a_env
    by simp
qed

text \<open>
  Claim C7 as stated fails: with \<^verbatim>\<open>NTP_INTERVAL\<close> set to \<^verbatim>\<open>-5\<close> the interval is \<open>-5\<close>,
  neither 0 nor unset, and \<^verbatim>\<open>next_sync\<close> is \<^verbatim>\<open>None\<close>.
\<close>

theorem next_sync_negative_interval:
  "fst (sync_time world_b PyNone PyNone None initial) = Inr (time_of_year 2025, PyNone)
   \<and> getenv world_b ''NTP_INTERVAL'' = PyStr ''-5''
   \<and> env_int world_b ''NTP_INTERVAL'' 0 = - 5"
  using world_b_run env_int_reads [OF world_b_env, of 0]
  by (simp add: world_b_def example_world_def env_of_def wifi_def)

section \<open>The connection loop\<close>

lemma attempts_simps [simp]:
  "attempts [] = 0"
  "attempts (ev # evs) = (if is_attempt ev then 1 else 0) + attempts evs"
  "attempts (xs @ ys) = attempts xs + attempts ys"
  by (simp_all add: attempts_def)

lemma resets_simps [simp]:
  "resets [] = 0"
  "resets (ev # evs) = (if is_reset ev then 1 else 0) + resets evs"
  "resets (xs @ ys) = resets xs + resets ys"
  by (simp_all add: resets_def)

lemma sleeps_after_resets_append:
  "\<forall>ev\<in>set xs. \<not> is_reset ev \<Longrightarrow> sleeps_after_resets d (xs @ ys) = sleeps_after_resets d ys"
proof (induction xs)
  case Nil
  then show ?case by simp
next
  case (Cons x xs)
  then show ?case
    by (cases "xs @ ys") auto
qed

lemma try_connect_cases:
  assumes "try_connect w e ssid pw s = (r, s1)"
  obtains
    (query_raised) x where "r = Inl x" "log s1 = log s @ [(Is_connected e, Raised x)]"
  | (connected) "r = Inr ()" "log s1 = log s @ [(Is_connected e, Returned_bool True)]"
  | (connect_raised) x where "r = Inl x"
      "log s1 = log s @ [(Is_connected e, Returned_bool False), (Connect_AP e ssid pw, Raised x)]"
  | (connect_returned) "r = Inr ()"
      "log s1 = log s @ [(Is_connected e, Returned_bool False), (Connect_AP e ssid pw, Returned_none)]"
proof -
  obtain r0 s0 where e0: "esp_is_connected w e s = (r0, s0)"
    by (cases "esp_is_connected w e s")
  from e0 [unfolded esp_is_connected_def] show ?thesis
  proof (cases rule: ext_call_cases)
    case (raised y)
    then show ?thesis
      using assms e0 query_raised [of y] by (auto simp: try_connect_def log_record_call)
  next
    case returned
    show ?thesis
    proof (cases "is_connected_val w (log s)")
      case True
      then show ?thesis
        using assms e0 returned connected by (auto simp: try_connect_def log_record_call)
    next
      case False
      then have l0: "log s0 = log s @ [(Is_connected e, Returned_bool False)]"
        and t: "proc_call w (Connect_AP e ssid pw) s0 = (r, s1)"
        using assms e0 returned by (auto simp: try_connect_def log_record_call)
      from t [unfolded proc_call_def] show ?thesis
      proof (cases rule: ext_call_cases)
        case (raised y)
        then show ?thesis
          using l0 connect_raised [of y] by (auto simp: log_record_call)
      next
        case returned
        then show ?thesis
          using l0 connect_returned by (auto simp: log_record_call)
      qed
    qed
  qed
qed

text \<open>One attempt: its events, summarised.\<close>

lemma try_connect_summary:
  assumes "try_connect w e ssid pw s = (r, s1)"
  shows "\<exists>tev. log s1 = log s @ tev \<and> attempts tev = 1 \<and> resets tev = 0
    \<and> (\<forall>ev\<in>set tev. \<not> is_reset ev) \<and> tev \<noteq> []
    \<and> (\<forall>x. r = Inl x \<longrightarrow> attempt_raised x (last tev) \<and> (\<forall>ev\<in>set tev. \<not> is_success ev))
    \<and> (\<forall>u. r = Inr u \<longrightarrow> (\<exists>ev\<in>set tev. is_success ev))"
  using assms
proof (cases rule: try_connect_cases)
  case (query_raised x)
  show ?thesis
    by (rule exI [of _ "[(Is_connected e, Raised x)]"]) (use query_raised in auto)
next
  case connected
  show ?thesis
    by (rule exI [of _ "[(Is_connected e, Returned_bool True)]"]) (use connected in auto)
next
  case (connect_raised x)
  show ?thesis
    by (rule exI [of _ "[(Is_connected e, Returned_bool False), (Connect_AP e ssid pw, Raised x)]"])
      (use connect_raised in auto)
next
  case connect_returned
  show ?thesis
    by (rule exI [of _ "[(Is_connected e, Returned_bool False), (Connect_AP e ssid pw, Returned_none)]"])
      (use connect_returned in auto)
qed

lemma connect_loop_trace:
  assumes "connect_loop w e ssid pw n d as s = (r, s')"
    and "\<forall>a\<in>set (butlast as). a < n"
    and "as \<noteq> [] \<longrightarrow> last as = n"
  shows "\<exists>evs. log s' = log s @ evs \<and> loop_summary d (length as) r evs"
  using assms
proof (induction as arbitrary: s)
  case Nil
  then show ?case by (simp add: loop_summary_def)
next
  case (Cons a rest)
  obtain r1 s1 where t: "try_connect w e ssid pw s = (r1, s1)"
    by (cases "try_connect w e ssid pw s")
  from try_connect_summary [OF t] obtain tev where tev: "log s1 = log s @ tev" "attempts tev = 1"
    "resets tev = 0" "\<forall>ev\<in>set tev. \<not> is_reset ev" "tev \<noteq> []"
    "\<forall>x. r1 = Inl x \<longrightarrow> attempt_raised x (last tev) \<and> (\<forall>ev\<in>set tev. \<not> is_success ev)"
    "\<forall>u. r1 = Inr u \<longrightarrow> (\<exists>ev\<in>set tev. is_success ev)"
    by blast
  have sar_tev: "sleeps_after_resets d tev"
    using sleeps_after_resets_append [OF tev(4), of d "[]"] by simp
  show ?case
  proof (cases r1)
    case (Inr u)
    then have "r = Inr ()" "s' = s1"
      using Cons.prems(1) t by simp_all
    then show ?thesis
      using tev(1,2) tev(7) Inr by (auto simp: loop_summary_def)
  next
    case (Inl x)
    have fail: "attempt_raised x (last tev) \<and> (\<forall>ev\<in>set tev. \<not> is_success ev)"
      using tev(6) Inl by blast
    show ?thesis
    proof (cases "a \<ge> n")
      case True
      have rest: "rest = []"
      proof (rule ccontr)
        assume "rest \<noteq> []"
        then have "a \<in> set (butlast (a # rest))" by simp
        with Cons.prems(2) have "a < n" by blast
        with True show False by simp
      qed
      have "r = Inl x" "s' = s1"
        using Cons.prems(1) t Inl True by simp_all
      then show ?thesis
        using tev(1,2,3,5) fail sar_tev rest by (auto simp: loop_summary_def)
    next
      case False
      have rest: "rest \<noteq> []"
        using False Cons.prems(3) by auto
      obtain rr s2 where rs: "proc_call w (Esp_reset e) s1 = (rr, s2)"
        by (cases "proc_call w (Esp_reset e) s1")
      obtain y where l2: "log s2 = log s1 @ [(Esp_reset e, y)]"
        using rs [unfolded proc_call_def]
        by (cases rule: ext_call_cases) (auto simp: log_record_call)
      show ?thesis
      proof (cases "d < 0")
        case True
        have "s' = record_call (Sleep d) (Raised (ValueError ''sleep length must be non-negative'')) s2"
          using Cons.prems(1) t Inl False rs True by (simp add: time_sleep_def)
        then have "log s' = log s @ (tev @ [(Esp_reset e, y),
            (Sleep d, Raised (ValueError ''sleep length must be non-negative''))])"
          using l2 tev(1) by (simp add: log_record_call)
        moreover have "loop_summary d (length (a # rest)) r (tev @ [(Esp_reset e, y),
            (Sleep d, Raised (ValueError ''sleep length must be non-negative''))])"
          using tev(2) rest True by (cases rest) (auto simp: loop_summary_def)
        ultimately show ?thesis by blast
      next
        case no: False
        define s3 where "s3 = record_call (Sleep d) Returned_none s2"
        have l3: "log s3 = log s @ (tev @ [(Esp_reset e, y), (Sleep d, Returned_none)])"
          using l2 tev(1) by (simp add: s3_def log_record_call)
        have rec: "connect_loop w e ssid pw n d rest s3 = (r, s')"
          using Cons.prems(1) t Inl False rs no by (simp add: time_sleep_def s3_def)
        have p2: "\<forall>a\<in>set (butlast rest). a < n"
          using Cons.prems(2) rest by (auto dest: in_set_butlastD)
        have p3: "rest \<noteq> [] \<longrightarrow> last rest = n"
          using Cons.prems(3) rest by simp
        from Cons.IH [OF rec p2 p3] obtain evs where evs: "log s' = log s3 @ evs"
          "loop_summary d (length rest) r evs"
          by blast
        let ?all = "tev @ [(Esp_reset e, y), (Sleep d, Returned_none)] @ evs"
        have l: "log s' = log s @ ?all"
          using evs(1) l3 by simp
        have k: "0 < length rest" using rest by simp
        have a1: "attempts ?all = 1 + attempts evs"
          using tev(2) by simp
        have a2: "resets ?all = 1 + resets evs"
          using tev(3) by simp
        have a3: "sleeps_after_resets d ?all = sleeps_after_resets d evs"
          using sleeps_after_resets_append [OF tev(4), of d]
          by (cases evs) simp_all
        have a4: "evs \<noteq> [] \<Longrightarrow> last ?all = last evs"
          by simp
        have a5: "(\<forall>ev\<in>set ?all. \<not> is_success ev) \<Longrightarrow> (\<forall>ev\<in>set evs. \<not> is_success ev)"
          by simp
        have "loop_summary d (length (a # rest)) r ?all"
          unfolding loop_summary_def
        proof (intro conjI impI)
          show "attempts ?all \<le> length (a # rest)"
            using evs(2) a1 by (simp add: loop_summary_def)
        next
          assume h: "(\<forall>ev\<in>set ?all. \<not> is_success ev) \<and> attempts ?all = length (a # rest)
              \<and> 0 < length (a # rest)"
          then have h': "(\<forall>ev\<in>set evs. \<not> is_success ev) \<and> attempts evs = length rest \<and> 0 < length rest"
            using a1 k by simp
          with evs(2) have ih: "(\<exists>x. r = Inl x \<and> evs \<noteq> [] \<and> attempt_raised x (last evs))"
            "resets evs = length rest - 1" "sleeps_after_resets d evs"
            unfolding loop_summary_def by blast+
          show "\<exists>x. r = Inl x \<and> ?all \<noteq> [] \<and> attempt_raised x (last ?all)"
            using ih(1) by auto
          have "resets ?all = 1 + (length rest - 1)"
            by (simp only: a2 ih(2))
          also have "\<dots> = length (a # rest) - 1"
            using k by simp
          finally show "resets ?all = length (a # rest) - 1" .
          show "sleeps_after_resets d ?all"
            using a3 ih(3) by simp
        next
          assume h: "(\<forall>ev\<in>set ?all. \<not> is_success ev) \<and> 0 \<le> d \<and> 0 < length (a # rest)"
          then have "(\<forall>ev\<in>set evs. \<not> is_success ev) \<and> 0 \<le> d \<and> 0 < length rest"
            using k by simp
          with evs(2) have "attempts evs = length rest"
            unfolding loop_summary_def by blast
          then show "attempts ?all = length (a # rest)"
            using a1 by simp
        qed
        with l show ?thesis by blast
      qed
    qed
  qed
qed

lemma upto_butlast_less: "\<forall>a\<in>set (butlast [0..n]). a < (n::int)"
proof (cases "0 \<le> n")
  case True
  then have "[0..n] = [0..n - 1] @ [n]"
    by (simp add: upto_rec2)
  then show ?thesis by auto
next
  case False
  then show ?thesis by simp
qed

lemma upto_last: "[0..n] \<noteq> [] \<longrightarrow> last [0..n] = (n::int)"
proof (cases "0 \<le> n")
  case True
  then have "[0..n] = [0..n - 1] @ [n]"
    by (simp add: upto_rec2)
  then show ?thesis by simp
next
  case False
  then show ?thesis by simp
qed

lemma length_upto0: "length [0..n] = nat (n + 1)"
  by simp

lemma connect_loop_range:
  assumes "connect_loop w e ssid pw n d [0..n] s = (r, s')"
  shows "\<exists>evs. log s' = log s @ evs \<and> loop_summary d (nat (n + 1)) r evs"
  using connect_loop_trace [OF assms upto_butlast_less upto_last] by simp

lemma ensure_radio_acquire_ctor_calls:
  "only_calls ctor_call s (snd (ensure_radio_acquire w s))"
  unfolding ensure_radio_acquire_def
  by (intro only_calls_stage) (simp_all add: only_calls_refl only_calls_upd)

lemma ensure_radio_ctor_calls:
  "only_calls ctor_call s (snd (ensure_radio w s))"
  by (simp add: ensure_radio_def ensure_radio_acquire_ctor_calls only_calls_refl split: option.splits)

lemma sync_time_ntp_calls:
  assumes "sync_time_ntp w c p s2 = (r, s')"
  shows "only_calls ntp_call s2 s'"
  using assms
  by (cases rule: sync_time_ntp_cases) (auto simp: only_calls_def)

lemma sync_time_phases:
  assumes "sync_time w srv tz tuning s = (r, s')"
    and "sync_time_config w srv tz tuning = Inr c"
  obtains
    (no_creds) "s' = s"
  | (radio_fail) "only_calls ctor_call s s'"
  | (loop_fail) e s1 x where "only_calls ctor_call s s1" "r = Inl x"
      "connect_loop w e (getenv w ''CIRCUITPY_WIFI_SSID'') (getenv w ''CIRCUITPY_WIFI_PASSWORD'')
         (retries c) (retry_delay c) [0..retries c] s1 = (Inl x, s')"
  | (loop_done) e s1 u s2 where "only_calls ctor_call s s1"
      "connect_loop w e (getenv w ''CIRCUITPY_WIFI_SSID'') (getenv w ''CIRCUITPY_WIFI_PASSWORD'')
         (retries c) (retry_delay c) [0..retries c] s1 = (Inr u, s2)"
      "only_calls ntp_call s2 s'"
proof (cases "\<not> truthy (getenv w ''CIRCUITPY_WIFI_SSID'') \<or> \<not> truthy (getenv w ''CIRCUITPY_WIFI_PASSWORD'')")
  case True
  then show ?thesis using assms no_creds by (auto simp: sync_time_def)
next
  case creds: False
  obtain r1 s1 where e1: "ensure_radio w s = (r1, s1)"
    by (cases "ensure_radio w s")
  have o1: "only_calls ctor_call s s1"
    using ensure_radio_ctor_calls [of s w] e1 by simp
  show ?thesis
  proof (cases r1)
    case (Inl x)
    then show ?thesis
      using assms creds e1 o1 radio_fail by (auto simp: sync_time_def)
  next
    case r1: (Inr ep)
    obtain e p where ep: "ep = (e, p)" by (cases ep)
    let ?loop = "connect_loop w e (getenv w ''CIRCUITPY_WIFI_SSID'')
          (getenv w ''CIRCUITPY_WIFI_PASSWORD'') (retries c) (retry_delay c) [0..retries c] s1"
    obtain r2 s2 where e2: "?loop = (r2, s2)"
      by (cases ?loop)
    show ?thesis
    proof (cases r2)
      case (Inl x)
      then show ?thesis
        using assms creds e1 r1 ep e2 o1 loop_fail [of s1 x e]
        by (auto simp: sync_time_def)
    next
      case r2: (Inr u)
      then have "sync_time_ntp w c p s2 = (r, s')"
        using assms creds e1 r1 ep e2 by (auto simp: sync_time_def)
      then have "only_calls ntp_call s2 s'"
        by (rule sync_time_ntp_calls)
      then show ?thesis
        using e2 r2 o1 loop_done [of s1 e u s2] by simp
    qed
  qed
qed

lemma ctor_events:
  assumes "\<forall>ev\<in>set evs. ctor_call (fst ev)"
  shows "attempts evs = 0" "resets evs = 0" "\<forall>ev\<in>set evs. \<not> is_success ev"
    "\<forall>ev\<in>set evs. \<not> is_reset ev"
proof -
  have a: "\<And>ev. ctor_call (fst ev) \<Longrightarrow> \<not> is_attempt ev \<and> \<not> is_reset ev \<and> \<not> is_success ev"
  proof -
    fix ev :: event
    assume "ctor_call (fst ev)"
    then show "\<not> is_attempt ev \<and> \<not> is_reset ev \<and> \<not> is_success ev"
      by (cases ev; cases "fst ev") auto
  qed
  show "attempts evs = 0" "resets evs = 0"
    using assms a by (auto simp: attempts_def resets_def filter_empty_conv)
  show "\<forall>ev\<in>set evs. \<not> is_success ev" "\<forall>ev\<in>set evs. \<not> is_reset ev"
    using assms a by blast+
qed

lemma ntp_events:
  assumes "\<forall>ev\<in>set evs. ntp_call (fst ev)"
  shows "attempts evs = 0" "resets evs = 0" "\<forall>ev\<in>set evs. \<not> is_success ev"
proof -
  have a: "\<And>ev. ntp_call (fst ev) \<Longrightarrow> \<not> is_attempt ev \<and> \<not> is_reset ev \<and> \<not> is_success ev"
  proof -
    fix ev :: event
    assume "ntp_call (fst ev)"
    then show "\<not> is_attempt ev \<and> \<not> is_reset ev \<and> \<not> is_success ev"
      by (cases ev; cases "fst ev") auto
  qed
  show "attempts evs = 0" "resets evs = 0"
    using assms a by (auto simp: attempts_def resets_def filter_empty_conv)
  show "\<forall>ev\<in>set evs. \<not> is_success ev"
    using assms a by blast
qed

text \<open>The connection loop seen from the whole call.\<close>

lemma sync_time_loop_summary:
  assumes "sync_time w srv tz tuning s = (r, s')"
    and "sync_time_config w srv tz tuning = Inr c"
  shows "attempts (new_events s s') \<le> nat (retries c + 1)
    \<and> ((\<forall>ev\<in>set (new_events s s'). \<not> is_success ev)
          \<and> attempts (new_events s s') = nat (retries c + 1) \<and> 0 \<le> retries c \<longrightarrow>
        (\<exists>x. r = Inl x \<and> new_events s s' \<noteq> [] \<and> attempt_raised x (last (new_events s s')))
        \<and> resets (new_events s s') = nat (retries c)
        \<and> sleeps_after_resets (retry_delay c) (new_events s s'))
    \<and> ((\<forall>ev\<in>set (new_events s s'). \<not> is_success ev) \<and> 0 \<le> retry_delay c
          \<and> 0 < attempts (new_events s s') \<longrightarrow>
        attempts (new_events s s') = nat (retries c + 1))"
  using assms
proof (cases rule: sync_time_phases)
  case no_creds
  then show ?thesis by (auto simp: new_events_def)
next
  case radio_fail
  then obtain pre where pre: "log s' = log s @ pre" "\<forall>ev\<in>set pre. ctor_call (fst ev)"
    by (auto simp: only_calls_def)
  show ?thesis
    using ctor_events(1) [OF pre(2)] pre(1) by (auto simp: new_events_def)
next
  case (loop_fail e s1 x)
  then obtain pre where pre: "log s1 = log s @ pre" "\<forall>ev\<in>set pre. ctor_call (fst ev)"
    by (auto simp: only_calls_def)
  from connect_loop_range [OF loop_fail(3)] obtain lev where lev: "log s' = log s1 @ lev"
    "loop_summary (retry_delay c) (nat (retries c + 1)) (Inl x) lev"
    by blast
  have ne: "new_events s s' = pre @ lev"
    using pre(1) lev(1) by (simp add: new_events_def)
  note p = ctor_events [OF pre(2)]
  have sar: "sleeps_after_resets (retry_delay c) (pre @ lev) = sleeps_after_resets (retry_delay c) lev"
    using sleeps_after_resets_append [OF p(4)] .
  have k: "0 \<le> retries c \<Longrightarrow> nat (retries c + 1) - 1 = nat (retries c)" "0 \<le> retries c \<Longrightarrow> 0 < nat (retries c + 1)"
    by simp_all
  show ?thesis
    using lev(2) p(1,2,3) loop_fail(2) k
    unfolding ne sar loop_summary_def
    by (auto simp: ball_Un)
next
  case (loop_done e s1 u s2)
  then obtain pre where pre: "log s1 = log s @ pre" "\<forall>ev\<in>set pre. ctor_call (fst ev)"
    by (auto simp: only_calls_def)
  from loop_done obtain tail where tail: "log s' = log s2 @ tail" "\<forall>ev\<in>set tail. ntp_call (fst ev)"
    by (auto simp: only_calls_def)
  from connect_loop_range [OF loop_done(2)] obtain lev where lev: "log s2 = log s1 @ lev"
    "loop_summary (retry_delay c) (nat (retries c + 1)) (Inr u) lev"
    by blast
  have ne: "new_events s s' = pre @ lev @ tail"
    using pre(1) lev(1) tail(1) by (simp add: new_events_def)
  note p = ctor_events [OF pre(2)]
  note q = ntp_events [OF tail(2)]
  have k: "0 \<le> retries c \<Longrightarrow> 0 < nat (retries c + 1)"
    by simp
  show ?thesis
    using lev(2) p(1,2,3) q k
    unfolding ne loop_summary_def
    by (auto simp: ball_Un)
qed

lemma failing_run:
  "sync_time (example_world wifi (failing_radio x) 2025) PyNone PyNone None initial =
    (Inl x,
     \<lparr>spi = Some 0, cs = Some 1, rdy = Some 2, rst = Some 3, esp = Some 4, pool = Some 5,
      log = [(Board_SPI, New_obj 0), (DigitalInOut ESP_CS, New_obj 1),
        (DigitalInOut ESP_BUSY, New_obj 2), (DigitalInOut ESP_RESET, New_obj 3),
        (ESP_SPIcontrol 0 1 2 3, New_obj 4), (Get_radio_socketpool 4, New_obj 5),
        (Is_connected 4, Returned_bool False),
        (Connect_AP 4 (PyStr ''net'') (PyStr ''secret''), Raised x),
        (Esp_reset 4, Returned_none), (Sleep 1, Returned_none),
        (Is_connected 4, Returned_bool False),
        (Connect_AP 4 (PyStr ''net'') (PyStr ''secret''), Raised x),
        (Esp_reset 4, Returned_none), (Sleep 1, Returned_none),
        (Is_connected 4, Returned_bool False),
        (Connect_AP 4 (PyStr ''net'') (PyStr ''secret''), Raised x)]\<rparr>)"
  by (simp add: eval_defs failing_radio_def Let_def)

lemma failing_config:
  "sync_time_config (example_world wifi rs y) PyNone PyNone None =
     Inr \<lparr>server = PyStr ''pool.ntp.org'', tz_offset = PyFloat 0, timeout = 5,
        retries = 2, retry_delay = 1, cache_seconds = 0, require_year = 2022, interval = 0\<rparr>"
  by (simp add: eval_defs)

text \<open>
  Claim C4, as amended. When all \<open>retries + 1\<close> attempts have been made and none
  succeeded, \<^verbatim>\<open>sync_time\<close> ends in the very exception that the last attempt raised, in
  \<^verbatim>\<open>esp.is_connected\<close> or in \<^verbatim>\<open>esp.connect_AP\<close>: the bare \<^verbatim>\<open>raise\<close> passes it on as it is.
\<close>

theorem exhausted_failure_propagates:
  assumes "sync_time w srv tz tuning s = (r, s')"
    and "sync_time_config w srv tz tuning = Inr c"
    and "0 \<le> retries c"
    and "int (attempts (new_events s s')) = retries c + 1"
    and "\<forall>ev\<in>set (new_events s s'). \<not> is_success ev"
  shows "\<exists>x. r = Inl x \<and> new_events s s' \<noteq> [] \<and> attempt_raised x (last (new_events s s'))"
proof -
  have "attempts (new_events s s') = nat (retries c + 1)"
    using assms(3,4) by linarith
  with sync_time_loop_summary [OF assms(1,2)] assms(3,5) show ?thesis
    by blast
qed

theorem exhausted_failure_propagates_witness:
  "int (attempts (new_events initial (snd (sync_time world_t PyNone PyNone None initial)))) = 2 + 1
   \<and> filter is_success (new_events initial (snd (sync_time world_t PyNone PyNone None initial))) = []
   \<and> fst (sync_time world_t PyNone PyNone None initial) = Inl (TimeoutError ''ESP32 not responding'')
   \<and> attempt_raised (TimeoutError ''ESP32 not responding'')
        (last (new_events initial (snd (sync_time world_t PyNone PyNone None initial))))"
proof -
  let ?run = "sync_time world_t PyNone PyNone None initial"
  have run: "?run = (fst ?run, snd ?run)"
    by simp
  have cfg: "sync_time_config world_t PyNone PyNone None =
     Inr \<lparr>server = PyStr ''pool.ntp.org'', tz_offset = PyFloat 0, timeout = 5,
        retries = 2, retry_delay = 1, cache_seconds = 0, require_year = 2022, interval = 0\<rparr>"
    unfolding world_t_def by (rule failing_config)
  have a: "int (attempts (new_events initial (snd ?run))) = 2 + 1"
    and b: "\<forall>ev\<in>set (new_events initial (snd ?run)). \<not> is_success ev"
    by (simp_all add: world_t_def failing_run new_events_def log_initial)
  show ?thesis
    using exhausted_failure_propagates [OF run cfg] a b
    by (simp add: world_t_def failing_run new_events_def log_initial)
qed

text \<open>
  Claim C4 as stated fails: when the driver raises \<^verbatim>\<open>TimeoutError\<close> in every attempt, the
  three attempts are exhausted and the caller gets that \<^verbatim>\<open>TimeoutError\<close>, not a
  \<^verbatim>\<open>ConnectionError\<close>.
\<close>

theorem exhausted_failure_not_connection_error:
  "fst (sync_time world_t PyNone PyNone None initial) = Inl (TimeoutError ''ESP32 not responding'')
   \<and> attempts (new_events initial (snd (sync_time world_t PyNone PyNone None initial))) = 3
   \<and> filter is_success (new_events initial (snd (sync_time world_t PyNone PyNone None initial))) = []"
  by (simp add: world_t_def failing_run new_events_def log_initial)

section \<open>\<^verbatim>\<open>release_pins\<close> and \<^verbatim>\<open>setup_ntp\<close>\<close>

lemma deinit_pins_trace:
  assumes "deinit_pins w pins s = (r, s1)"
  shows "\<exists>evs. s1 = s\<lparr>log := log s @ evs\<rparr>
    \<and> (r = Inr () \<longrightarrow> evs = map deinit_returned (held pins))
    \<and> (\<forall>x. r = Inl x \<longrightarrow> (\<exists>pre pin rest. held pins = pre @ pin # rest
          \<and> evs = map deinit_returned pre @ [(Pin_deinit pin, Raised x)]))"
  using assms
proof (induction pins arbitrary: s)
  case Nil
  then show ?case by auto
next
  case (Cons p pins)
  show ?case
  proof (cases p)
    case None
    then show ?thesis using Cons by simp
  next
    case (Some pin)
    obtain r0 s0 where e0: "proc_call w (Pin_deinit pin) s = (r0, s0)"
      by (cases "proc_call w (Pin_deinit pin) s")
    from e0 [unfolded proc_call_def] show ?thesis
    proof (cases rule: ext_call_cases)
      case (raised y)
      then have "r = Inl y" "s1 = s\<lparr>log := log s @ [(Pin_deinit pin, Raised y)]\<rparr>"
        using Cons.prems e0 Some by (simp_all add: record_call_def)
      moreover have "held (p # pins) = [] @ pin # held pins"
        using Some by simp
      ultimately show ?thesis
        by (intro exI [of _ "[(Pin_deinit pin, Raised y)]"]) force
    next
      case returned
      then have rec: "deinit_pins w pins s0 = (r, s1)"
        and s0: "s0 = s\<lparr>log := log s @ [deinit_returned pin]\<rparr>"
        using Cons.prems e0 Some by (simp_all add: record_call_def deinit_returned_def)
      from Cons.IH [OF rec] obtain evs where evs: "s1 = s0\<lparr>log := log s0 @ evs\<rparr>"
        "r = Inr () \<longrightarrow> evs = map deinit_returned (held pins)"
        "\<forall>x. r = Inl x \<longrightarrow> (\<exists>pre pin rest. held pins = pre @ pin # rest
          \<and> evs = map deinit_returned pre @ [(Pin_deinit pin, Raised x)])"
        by blast
      have a: "s1 = s\<lparr>log := log s @ (deinit_returned pin # evs)\<rparr>"
        using evs(1) s0 by simp
      have b: "r = Inr () \<longrightarrow> deinit_returned pin # evs = map deinit_returned (held (p # pins))"
        using evs(2) Some by simp
      have c: "\<forall>x. r = Inl x \<longrightarrow> (\<exists>pre q rest. held (p # pins) = pre @ q # rest
          \<and> deinit_returned pin # evs = map deinit_returned pre @ [(Pin_deinit q, Raised x)])"
      proof (intro allI impI)
        fix x assume "r = Inl x"
        with evs(3) obtain pre q rest where "held pins = pre @ q # rest"
          "evs = map deinit_returned pre @ [(Pin_deinit q, Raised x)]"
          by blast
        then have "held (p # pins) = (pin # pre) @ q # rest
          \<and> deinit_returned pin # evs = map deinit_returned (pin # pre) @ [(Pin_deinit q, Raised x)]"
          using Some by simp
        then show "\<exists>pre q rest. held (p # pins) = pre @ q # rest
          \<and> deinit_returned pin # evs = map deinit_returned pre @ [(Pin_deinit q, Raised x)]"
          by blast
      qed
      have "s1 = s\<lparr>log := log s @ (deinit_returned pin # evs)\<rparr>
        \<and> (r = Inr () \<longrightarrow> deinit_returned pin # evs = map deinit_returned (held (p # pins)))
        \<and> (\<forall>x. r = Inl x \<longrightarrow> (\<exists>pre q rest. held (p # pins) = pre @ q # rest
          \<and> deinit_returned pin # evs = map deinit_returned pre @ [(Pin_deinit q, Raised x)]))"
        using a b c by (intro conjI)
      then show ?thesis
        by (rule exI [of _ "deinit_returned pin # evs"])
    qed
  qed
qed

lemma ensure_radio_from_scratch:
  assumes "spi s = None" "cs s = None" "rdy s = None" "rst s = None" "esp s = None" "pool s = None"
    and "ensure_radio w s = (Inr (e, p), s')"
  shows "s' = s\<lparr>spi := Some (length (log s)), cs := Some (length (log s) + 1),
              rdy := Some (length (log s) + 2), rst := Some (length (log s) + 3),
              esp := Some (length (log s) + 4), pool := Some (length (log s) + 5),
              log := log s @
                [(Board_SPI, New_obj (length (log s))),
                 (DigitalInOut ESP_CS, New_obj (length (log s) + 1)),
                 (DigitalInOut ESP_BUSY, New_obj (length (log s) + 2)),
                 (DigitalInOut ESP_RESET, New_obj (length (log s) + 3)),
                 (ESP_SPIcontrol (length (log s)) (length (log s) + 1) (length (log s) + 2)
                    (length (log s) + 3), New_obj (length (log s) + 4)),
                 (Get_radio_socketpool (length (log s) + 4), New_obj (length (log s) + 5))]\<rparr>
       \<and> e = length (log s) + 4 \<and> p = length (log s) + 5"
  using assms
  by (auto simp: ensure_radio_def ensure_radio_acquire_def get_or_new_def new_obj_def ext_call_def
      record_call_def split: option.splits)

lemma log_only_refl: "log_only s s"
  by (auto simp: log_only_def intro: exI [of _ "log s"])

lemma log_only_trans: "log_only s s1 \<Longrightarrow> log_only s1 s2 \<Longrightarrow> log_only s s2"
  by (auto simp: log_only_def)

lemma log_only_record: "log_only s (record_call c r s)"
  by (auto simp: log_only_def record_call_def)

lemma log_only_ext_call: "log_only s (snd (ext_call w c x emb s))"
  by (simp add: ext_call_def log_only_record split: option.splits)

lemma log_only_time_sleep: "log_only s (snd (time_sleep d s))"
  by (simp add: time_sleep_def log_only_record)

lemma try_connect_log_only: "log_only s (snd (try_connect w e ssid pw s))"
proof -
  have a: "log_only s (snd (esp_is_connected w e s))"
    by (simp add: esp_is_connected_def log_only_ext_call)
  have b: "\<And>s1. log_only s1 (snd (proc_call w (Connect_AP e ssid pw) s1))"
    by (simp add: proc_call_def log_only_ext_call)
  show ?thesis
    using a b [of "snd (esp_is_connected w e s)"]
    by (auto simp: try_connect_def split: prod.splits sum.splits bool.splits
        intro: log_only_trans)
qed

lemma connect_loop_log_only:
  "log_only s (snd (connect_loop w e ssid pw n d as s))"
proof (induction as arbitrary: s)
  case Nil
  then show ?case by (simp add: log_only_refl)
next
  case (Cons a as)
  obtain r1 s1 where t: "try_connect w e ssid pw s = (r1, s1)"
    by (cases "try_connect w e ssid pw s")
  have o1: "log_only s s1"
    using try_connect_log_only [of s w e ssid pw] t by simp
  define s2 where "s2 = snd (proc_call w (Esp_reset e) s1)"
  have o2: "log_only s1 s2"
    by (simp add: s2_def proc_call_def log_only_ext_call)
  obtain r3 s3 where sl: "time_sleep d s2 = (r3, s3)"
    by (cases "time_sleep d s2")
  have o3: "log_only s2 s3"
    using log_only_time_sleep [of s2 d] sl by simp
  have o13: "log_only s s3"
    using o1 o2 o3 by (blast intro: log_only_trans)
  have o4: "log_only s (snd (connect_loop w e ssid pw n d as s3))"
    using o13 Cons.IH [of s3] by (blast intro: log_only_trans)
  show ?case
    using t sl o1 o13 o4 unfolding s2_def
    by (cases r1; cases r3) (simp_all)
qed

lemma sync_time_ntp_log_only: "log_only s (snd (sync_time_ntp w c p s))"
  by (auto simp: sync_time_ntp_def new_obj_def ntp_datetime_def proc_call_def time_time_def
      ext_call_def record_call_def log_only_def split: option.splits sum.splits)

lemma sync_time_success_radio:
  assumes "sync_time w srv tz tuning s = (Inr res, s')"
  shows "\<exists>e p s1 evs. ensure_radio w s = (Inr (e, p), s1) \<and> s' = s1\<lparr>log := log s1 @ evs\<rparr>"
proof -
  let ?ssid = "getenv w ''CIRCUITPY_WIFI_SSID''" and ?pw = "getenv w ''CIRCUITPY_WIFI_PASSWORD''"
  have creds: "\<not> (\<not> truthy ?ssid \<or> \<not> truthy ?pw)"
    using assms by (auto simp: sync_time_def Let_def split: if_splits)
  obtain c where c: "sync_time_config w srv tz tuning = Inr c"
    using assms creds by (cases "sync_time_config w srv tz tuning") (auto simp: sync_time_def)
  obtain r1 s1 where e1: "ensure_radio w s = (r1, s1)"
    by (cases "ensure_radio w s")
  obtain e p where r1: "r1 = Inr (e, p)"
    using assms creds c e1 by (cases r1) (auto simp: sync_time_def)
  let ?loop = "connect_loop w e ?ssid ?pw (retries c) (retry_delay c) [0..retries c] s1"
  obtain r2 s2 where e2: "?loop = (r2, s2)"
    by (cases ?loop)
  have o2: "only_calls setup_call s1 s2"
    using connect_loop_calls [of s1 w e ?ssid ?pw "retries c" "retry_delay c" "[0..retries c]"] e2
    by simp
  have r2: "sync_time_ntp w c p s2 = (Inr res, s')"
    using assms creds c e1 r1 e2 by (cases r2) (auto simp: sync_time_def)
  then have "only_calls ntp_call s2 s'"
    by (rule sync_time_ntp_calls)
  moreover have "log_only s1 s2"
    using connect_loop_log_only [of s1 w e ?ssid ?pw "retries c" "retry_delay c" "[0..retries c]"] e2
    by simp
  moreover have "log_only s2 s'"
    using sync_time_ntp_log_only [of s2 w c p] r2 by simp
  ultimately obtain evs where "s' = s1\<lparr>log := log s1 @ evs\<rparr>"
    using o2 by (auto simp: only_calls_def log_only_def)
  with e1 r1 show ?thesis by blast
qed

text \<open>
  Claim C8, as amended. \<^verbatim>\<open>release_pins\<close> always leaves the six handles of \<^verbatim>\<open>_state\<close>
  unset, whether a \<^verbatim>\<open>deinit\<close> raised or not. When it returns, it has called \<^verbatim>\<open>deinit\<close> on
  each control line that was held, in the order \<^verbatim>\<open>cs\<close>, \<^verbatim>\<open>rdy\<close>, \<^verbatim>\<open>rst\<close>. When a \<^verbatim>\<open>deinit\<close>
  raises, the lines before it have been released, the ones after it have not been
  touched, and the exception goes to the caller. A later call of \<^verbatim>\<open>sync_time\<close> that
  succeeds begins with the six constructors and holds the six new objects.
\<close>

theorem release_pins_resets:
  assumes "release_pins w s = (r, s')"
  shows "spi s' = None \<and> cs s' = None \<and> rdy s' = None \<and> rst s' = None
       \<and> esp s' = None \<and> pool s' = None
     \<and> (r = Inr () \<longrightarrow> new_events s s' = map deinit_returned (held [cs s, rdy s, rst s]))
     \<and> (\<forall>x. r = Inl x \<longrightarrow>
          (\<exists>pre pin rest. held [cs s, rdy s, rst s] = pre @ pin # rest
             \<and> new_events s s' = map deinit_returned pre @ [(Pin_deinit pin, Raised x)]))
     \<and> (\<forall>w' srv tz tuning res s''.
          sync_time w' srv tz tuning s' = (Inr res, s'') \<longrightarrow>
          take 6 (new_events s' s'') =
            [(Board_SPI, New_obj (length (log s'))),
             (DigitalInOut ESP_CS, New_obj (length (log s') + 1)),
             (DigitalInOut ESP_BUSY, New_obj (length (log s') + 2)),
             (DigitalInOut ESP_RESET, New_obj (length (log s') + 3)),
             (ESP_SPIcontrol (length (log s')) (length (log s') + 1) (length (log s') + 2)
                (length (log s') + 3), New_obj (length (log s') + 4)),
             (Get_radio_socketpool (length (log s') + 4), New_obj (length (log s') + 5))]
          \<and> spi s'' = Some (length (log s')) \<and> cs s'' = Some (length (log s') + 1)
          \<and> rdy s'' = Some (length (log s') + 2) \<and> rst s'' = Some (length (log s') + 3)
          \<and> esp s'' = Some (length (log s') + 4) \<and> pool s'' = Some (length (log s') + 5))"
proof -
  obtain r0 s0 where d: "deinit_pins w [cs s, rdy s, rst s] s = (r0, s0)"
    by (cases "deinit_pins w [cs s, rdy s, rst s] s")
  have r: "r = r0"
    and s': "s' = s0\<lparr>spi := None, cs := None, rdy := None, rst := None, esp := None, pool := None\<rparr>"
    using assms d by (simp_all add: release_pins_def)
  from deinit_pins_trace [OF d] obtain evs where evs: "s0 = s\<lparr>log := log s @ evs\<rparr>"
    "r0 = Inr () \<longrightarrow> evs = map deinit_returned (held [cs s, rdy s, rst s])"
    "\<forall>x. r0 = Inl x \<longrightarrow> (\<exists>pre pin rest. held [cs s, rdy s, rst s] = pre @ pin # rest
          \<and> evs = map deinit_returned pre @ [(Pin_deinit pin, Raised x)])"
    by blast
  have ne: "new_events s s' = evs"
    using s' evs(1) by (simp add: new_events_def)
  have a: "spi s' = None \<and> cs s' = None \<and> rdy s' = None \<and> rst s' = None
       \<and> esp s' = None \<and> pool s' = None"
    using s' by simp
  have b: "r = Inr () \<longrightarrow> new_events s s' = map deinit_returned (held [cs s, rdy s, rst s])"
    using evs(2) r ne by simp
  have c: "\<forall>x. r = Inl x \<longrightarrow>
          (\<exists>pre pin rest. held [cs s, rdy s, rst s] = pre @ pin # rest
             \<and> new_events s s' = map deinit_returned pre @ [(Pin_deinit pin, Raised x)])"
    using evs(3) r ne by simp
  have e: "\<forall>w' srv tz tuning res s''.
          sync_time w' srv tz tuning s' = (Inr res, s'') \<longrightarrow>
          take 6 (new_events s' s'') =
            [(Board_SPI, New_obj (length (log s'))),
             (DigitalInOut ESP_CS, New_obj (length (log s') + 1)),
             (DigitalInOut ESP_BUSY, New_obj (length (log s') + 2)),
             (DigitalInOut ESP_RESET, New_obj (length (log s') + 3)),
             (ESP_SPIcontrol (length (log s')) (length (log s') + 1) (length (log s') + 2)
                (length (log s') + 3), New_obj (length (log s') + 4)),
             (Get_radio_socketpool (length (log s') + 4), New_obj (length (log s') + 5))]
          \<and> spi s'' = Some (length (log s')) \<and> cs s'' = Some (length (log s') + 1)
          \<and> rdy s'' = Some (length (log s') + 2) \<and> rst s'' = Some (length (log s') + 3)
          \<and> esp s'' = Some (length (log s') + 4) \<and> pool s'' = Some (length (log s') + 5)"
  proof (intro allI impI)
    fix w' srv tz tuning res s''
    assume run: "sync_time w' srv tz tuning s' = (Inr res, s'')"
    from sync_time_success_radio [OF run] obtain e p s1 more where
      er: "ensure_radio w' s' = (Inr (e, p), s1)" and more: "s'' = s1\<lparr>log := log s1 @ more\<rparr>"
      by blast
    have s1: "s1 = s'\<lparr>spi := Some (length (log s')), cs := Some (length (log s') + 1),
              rdy := Some (length (log s') + 2), rst := Some (length (log s') + 3),
              esp := Some (length (log s') + 4), pool := Some (length (log s') + 5),
              log := log s' @
                [(Board_SPI, New_obj (length (log s'))),
                 (DigitalInOut ESP_CS, New_obj (length (log s') + 1)),
                 (DigitalInOut ESP_BUSY, New_obj (length (log s') + 2)),
                 (DigitalInOut ESP_RESET, New_obj (length (log s') + 3)),
                 (ESP_SPIcontrol (length (log s')) (length (log s') + 1) (length (log s') + 2)
                    (length (log s') + 3), New_obj (length (log s') + 4)),
                 (Get_radio_socketpool (length (log s') + 4), New_obj (length (log s') + 5))]\<rparr>"
      using ensure_radio_from_scratch [OF _ _ _ _ _ _ er] a by simp
    show "take 6 (new_events s' s'') =
            [(Board_SPI, New_obj (length (log s'))),
             (DigitalInOut ESP_CS, New_obj (length (log s') + 1)),
             (DigitalInOut ESP_BUSY, New_obj (length (log s') + 2)),
             (DigitalInOut ESP_RESET, New_obj (length (log s') + 3)),
             (ESP_SPIcontrol (length (log s')) (length (log s') + 1) (length (log s') + 2)
                (length (log s') + 3), New_obj (length (log s') + 4)),
             (Get_radio_socketpool (length (log s') + 4), New_obj (length (log s') + 5))]
          \<and> spi s'' = Some (length (log s')) \<and> cs s'' = Some (length (log s') + 1)
          \<and> rdy s'' = Some (length (log s') + 2) \<and> rst s'' = Some (length (log s') + 3)
          \<and> esp s'' = Some (length (log s') + 4) \<and> pool s'' = Some (length (log s') + 5)"
      by (simp add: new_events_def more s1)
  qed
  from a have a': "spi s' = None" "cs s' = None" "rdy s' = None" "rst s' = None"
    "esp s' = None" "pool s' = None"
    by simp_all
  show ?thesis
    using a' b c e by (intro conjI)
qed

lemma acquired_run: "ensure_radio world_d initial = (Inr (4, 5), acquired)"
  by (simp add: world_d_def acquired_def eval_defs failing_deinit_def)

lemma release_ok_run: "release_pins (example_world wifi never 2025) acquired = (Inr (), released)"
  by (simp add: released_def acquired_def release_pins_def eval_defs)

lemma release_stuck_run:
  "release_pins world_d acquired =
     (Inl (OSError ''pin is stuck''),
      \<lparr>spi = None, cs = None, rdy = None, rst = None, esp = None, pool = None,
       log = log acquired @ [(Pin_deinit 1, Raised (OSError ''pin is stuck''))]\<rparr>)"
  by (simp add: world_d_def acquired_def release_pins_def eval_defs failing_deinit_def)

lemma resync_run:
  "sync_time (example_world wifi never 2025) PyNone PyNone None released =
    (Inr (time_of_year 2025, PyNone),
     \<lparr>spi = Some 9, cs = Some 10, rdy = Some 11, rst = Some 12, esp = Some 13, pool = Some 14,
      log = log released @ [(Board_SPI, New_obj 9), (DigitalInOut ESP_CS, New_obj 10),
        (DigitalInOut ESP_BUSY, New_obj 11), (DigitalInOut ESP_RESET, New_obj 12),
        (ESP_SPIcontrol 9 10 11 12, New_obj 13), (Get_radio_socketpool 13, New_obj 14),
        (Is_connected 13, Returned_bool False),
        (Connect_AP 13 (PyStr ''net'') (PyStr ''secret''), Returned_none),
        (NTP_new 14 (PyFloat 0) (PyStr ''pool.ntp.org'') 5 0, New_obj 17),
        (NTP_datetime 17, Returned_time (time_of_year 2025)),
        (RTC_set_datetime (time_of_year 2025), Returned_none)]\<rparr>)"
  by (simp add: released_def acquired_def eval_defs Let_def)

theorem release_pins_resets_witness:
  "release_pins (example_world wifi never 2025) acquired = (Inr (), released)
   \<and> new_events acquired released = map deinit_returned (held [Some 1, Some 2, Some 3])
   \<and> esp released = None \<and> pool released = None
   \<and> fst (sync_time (example_world wifi never 2025) PyNone PyNone None released) =
        Inr (time_of_year 2025, PyNone)
   \<and> take 6 (new_events released
        (snd (sync_time (example_world wifi never 2025) PyNone PyNone None released))) =
      [(Board_SPI, New_obj 9), (DigitalInOut ESP_CS, New_obj 10),
       (DigitalInOut ESP_BUSY, New_obj 11), (DigitalInOut ESP_RESET, New_obj 12),
       (ESP_SPIcontrol 9 10 11 12, New_obj 13), (Get_radio_socketpool 13, New_obj 14)]"
proof -
  have len: "length (log released) = 9" "cs acquired = Some 1" "rdy acquired = Some 2"
    "rst acquired = Some 3"
    by (simp_all add: released_def acquired_def)
  note t = release_pins_resets [OF release_ok_run]
  have a: "new_events acquired released = map deinit_returned (held [Some 1, Some 2, Some 3])"
    using t len by simp
  have b: "esp released = None \<and> pool released = None"
    using t by simp
  let ?run = "sync_time (example_world wifi never 2025) PyNone PyNone None released"
  have run: "?run = (Inr (time_of_year 2025, PyNone), snd ?run)"
    by (simp add: resync_run)
  have c: "take 6 (new_events released (snd ?run)) =
      [(Board_SPI, New_obj 9), (DigitalInOut ESP_CS, New_obj 10),
       (DigitalInOut ESP_BUSY, New_obj 11), (DigitalInOut ESP_RESET, New_obj 12),
       (ESP_SPIcontrol 9 10 11 12, New_obj 13), (Get_radio_socketpool 13, New_obj 14)]"
    using t run len(1) by (simp add: resync_run new_events_def)
  have d: "fst ?run = Inr (time_of_year 2025, PyNone)"
    by (simp add: resync_run)
  show ?thesis
    using a b c d release_ok_run by simp
qed

text \<open>
  Claim C8 as stated fails: with \<^verbatim>\<open>cs\<close>, \<^verbatim>\<open>rdy\<close> and \<^verbatim>\<open>rst\<close> held and a \<^verbatim>\<open>deinit\<close> of
  \<^verbatim>\<open>cs\<close> that raises, \<^verbatim>\<open>release_pins\<close> makes that one call only: \<^verbatim>\<open>rdy\<close> and \<^verbatim>\<open>rst\<close> are not
  released.
\<close>

theorem release_pins_stops_at_failure:
  "ensure_radio world_d initial = (Inr (4, 5), acquired)
   \<and> rdy acquired = Some 2 \<and> rst acquired = Some 3
   \<and> fst (release_pins world_d acquired) = Inl (OSError ''pin is stuck'')
   \<and> new_events acquired (snd (release_pins world_d acquired)) =
        [(Pin_deinit 1, Raised (OSError ''pin is stuck''))]"
  by (simp add: acquired_run release_stuck_run new_events_def) (simp add: acquired_def)

lemma time_sleep_1: "time_sleep 1 s = (Inr (), record_call (Sleep 1) Returned_none s)"
  by (simp add: time_sleep_def)

lemma setup_ntp_loop_no_failure: "setup_ntp_loop fuel w s \<noteq> Some (Inl x, s')"
  by (induction fuel arbitrary: s) (auto simp: time_sleep_1 split: prod.splits sum.splits)

lemma setup_ntp_loop_first_success:
  assumes "failed_rounds k w s = Some sk"
    and "sync_time w PyNone PyNone None sk = (Inr res, s1)"
    and "k < fuel"
  shows "setup_ntp_loop fuel w s = Some (Inr res, s1)"
  using assms
proof (induction k arbitrary: s fuel)
  case 0
  then obtain f where "fuel = Suc f" by (cases fuel) auto
  with 0 show ?case by simp
next
  case (Suc k)
  then obtain f where f: "fuel = Suc f" "k < f" by (cases fuel) auto
  obtain r0 s0 where e0: "sync_time w PyNone PyNone None s = (r0, s0)"
    by (cases "sync_time w PyNone PyNone None s")
  show ?case
  proof (cases r0)
    case (Inr a)
    then show ?thesis using Suc.prems(1) e0 by simp
  next
    case (Inl ex)
    then have "failed_rounds k w
        (record_call (Sleep 1) Returned_none (print [PStr ''Exception:'', PErr ex] s0)) = Some sk"
      using Suc.prems(1) e0 by simp
    from Suc.IH [OF this Suc.prems(2) f(2)] show ?thesis
      using e0 Inl f(1) by (simp add: time_sleep_1)
  qed
qed

lemma setup_ntp_loop_returns:
  assumes "setup_ntp_loop fuel w s = Some (Inr res, s1)"
  shows "\<exists>k sk. k < fuel \<and> failed_rounds k w s = Some sk
           \<and> sync_time w PyNone PyNone None sk = (Inr res, s1)"
  using assms
proof (induction fuel arbitrary: s)
  case 0
  then show ?case by simp
next
  case (Suc fuel)
  obtain r0 s0 where e0: "sync_time w PyNone PyNone None s = (r0, s0)"
    by (cases "sync_time w PyNone PyNone None s")
  show ?case
  proof (cases r0)
    case (Inr a)
    then have "a = res" "s0 = s1" using Suc.prems e0 by simp_all
    then have "failed_rounds 0 w s = Some s \<and> sync_time w PyNone PyNone None s = (Inr res, s1)"
      using e0 Inr by simp
    then show ?thesis by blast
  next
    case (Inl ex)
    let ?s = "record_call (Sleep 1) Returned_none (print [PStr ''Exception:'', PErr ex] s0)"
    have "setup_ntp_loop fuel w ?s = Some (Inr res, s1)"
      using Suc.prems e0 Inl by (simp add: time_sleep_1)
    from Suc.IH [OF this] obtain k sk where k: "k < fuel" "failed_rounds k w ?s = Some sk"
      "sync_time w PyNone PyNone None sk = (Inr res, s1)"
      by blast
    then have "Suc k < Suc fuel \<and> failed_rounds (Suc k) w s = Some sk
        \<and> sync_time w PyNone PyNone None sk = (Inr res, s1)"
      using e0 Inl by simp
    then show ?thesis by blast
  qed
qed

text \<open>
  Claim C9. \<^verbatim>\<open>setup_ntp\<close> never ends in an exception, whatever \<^verbatim>\<open>sync_time\<close> does. When
  the first \<open>k\<close> calls of \<^verbatim>\<open>sync_time()\<close> raise, each followed by the print of the
  exception and a sleep of one second, and the next call returns a pair, then
  \<^verbatim>\<open>setup_ntp\<close> returns that pair, within \<open>k + 1\<close> passes of its loop. And a pair that
  \<^verbatim>\<open>setup_ntp\<close> returns is the pair of the first call of \<^verbatim>\<open>sync_time()\<close> that succeeded.
\<close>

theorem setup_ntp_first_success:
  "setup_ntp fuel w s \<noteq> Some (Inl x, s')
   \<and> (\<forall>k sk res s1.
        failed_rounds k w (print [PStr ''Fetching time via NTP.''] s) = Some sk
        \<and> sync_time w PyNone PyNone None sk = (Inr res, s1) \<and> k < fuel \<longrightarrow>
        setup_ntp fuel w s = Some (Inr res, setup_ntp_finish w s1))
   \<and> (\<forall>res s2. setup_ntp fuel w s = Some (Inr res, s2) \<longrightarrow>
        (\<exists>k sk s1. k < fuel
           \<and> failed_rounds k w (print [PStr ''Fetching time via NTP.''] s) = Some sk
           \<and> sync_time w PyNone PyNone None sk = (Inr res, s1)
           \<and> s2 = setup_ntp_finish w s1))"
proof -
  let ?s = "print [PStr ''Fetching time via NTP.''] s"
  have a: "setup_ntp fuel w s \<noteq> Some (Inl x, s')"
    using setup_ntp_loop_no_failure [of fuel w ?s]
    by (auto simp: setup_ntp_def time_localtime_def split: option.splits prod.splits sum.splits)
  have b: "\<forall>k sk res s1.
        failed_rounds k w ?s = Some sk
        \<and> sync_time w PyNone PyNone None sk = (Inr res, s1) \<and> k < fuel \<longrightarrow>
        setup_ntp fuel w s = Some (Inr res, setup_ntp_finish w s1)"
    by (auto simp: setup_ntp_def setup_ntp_finish_def time_localtime_def
        dest!: setup_ntp_loop_first_success)
  have c: "\<forall>res s2. setup_ntp fuel w s = Some (Inr res, s2) \<longrightarrow>
        (\<exists>k sk s1. k < fuel
           \<and> failed_rounds k w ?s = Some sk
           \<and> sync_time w PyNone PyNone None sk = (Inr res, s1)
           \<and> s2 = setup_ntp_finish w s1)"
  proof (intro allI impI)
    fix res s2 assume h: "setup_ntp fuel w s = Some (Inr res, s2)"
    then obtain s1 where l: "setup_ntp_loop fuel w ?s = Some (Inr res, s1)"
      and s2: "s2 = setup_ntp_finish w s1"
      by (auto simp: setup_ntp_def setup_ntp_finish_def time_localtime_def
          split: option.splits prod.splits sum.splits)
    from setup_ntp_loop_returns [OF l] s2
    show "\<exists>k sk s1. k < fuel
           \<and> failed_rounds k w ?s = Some sk
           \<and> sync_time w PyNone PyNone None sk = (Inr res, s1)
           \<and> s2 = setup_ntp_finish w s1"
      by blast
  qed
  show ?thesis
    using a b c by (intro conjI)
qed

lemma round1_run:
  "failed_rounds 1 world_f (print [PStr ''Fetching time via NTP.''] initial) = Some round1"
  by (simp add: world_f_def round1_def flaky_radio_def eval_defs Let_def)

lemma round2_run:
  "fst (sync_time world_f PyNone PyNone None round1) = Inr (time_of_year 2025, PyNone)"
  by (simp add: world_f_def round1_def flaky_radio_def eval_defs Let_def)

theorem setup_ntp_first_success_witness:
  "failed_rounds 1 world_f (print [PStr ''Fetching time via NTP.''] initial) = Some round1
   \<and> fst (sync_time world_f PyNone PyNone None round1) = Inr (time_of_year 2025, PyNone)
   \<and> (1::nat) < 5
   \<and> setup_ntp 5 world_f initial =
        Some (Inr (time_of_year 2025, PyNone),
              setup_ntp_finish world_f (snd (sync_time world_f PyNone PyNone None round1)))"
proof -
  let ?run = "sync_time world_f PyNone PyNone None round1"
  have run: "?run = (Inr (time_of_year 2025, PyNone), snd ?run)"
    using round2_run by (cases ?run) simp
  have lt: "(1::nat) < 5"
    by simp
  have "setup_ntp 5 world_f initial = Some (Inr (time_of_year 2025, PyNone),
      setup_ntp_finish world_f (snd ?run))"
    by (rule setup_ntp_first_success [of 5 world_f initial, THEN conjunct2, THEN conjunct1,
          rule_format, OF conjI [OF round1_run conjI [OF run lt]]])
  then show ?thesis
    using round1_run round2_run by simp
qed

section \<open>The minimum year\<close>

lemma map_of_tuning_or_empty: "map_of (tuning_or_empty tuning) key = supplied tuning key"
  by (simp add: tuning_or_empty_def supplied_def split: option.splits)

lemma tuning_get_supplied:
  "tuning_get (tuning_or_empty tuning) key d =
     (case supplied tuning key of Some v \<Rightarrow> v | None \<Rightarrow> d)"
  by (simp add: tuning_get_def map_of_tuning_or_empty)

lemma config_require_year:
  assumes "sync_time_config w srv tz tuning = Inr c"
  shows "spec_require_year w tuning = Inr (require_year c)"
  using sync_time_config_fields(6) [OF assms]
  by (simp add: spec_require_year_def tuning_get_supplied)

lemma year_2030_run:
  "sync_time (example_world wifi never 2025) PyNone PyNone tuning_2030 initial =
    (Inl (RuntimeError ''NTP returned an unexpected year; not setting RTC''),
     \<lparr>spi = Some 0, cs = Some 1, rdy = Some 2, rst = Some 3, esp = Some 4, pool = Some 5,
      log = [(Board_SPI, New_obj 0), (DigitalInOut ESP_CS, New_obj 1),
        (DigitalInOut ESP_BUSY, New_obj 2), (DigitalInOut ESP_RESET, New_obj 3),
        (ESP_SPIcontrol 0 1 2 3, New_obj 4), (Get_radio_socketpool 4, New_obj 5),
        (Is_connected 4, Returned_bool False),
        (Connect_AP 4 (PyStr ''net'') (PyStr ''secret''), Returned_none),
        (NTP_new 5 (PyFloat 0) (PyStr ''pool.ntp.org'') 3 0, New_obj 8),
        (NTP_datetime 8, Returned_time (time_of_year 2025))]\<rparr>)"
  by (simp add: eval_defs tuning_2030_def Let_def)

text \<open>
  Claim C1, as amended. The effective \<open>require_year\<close> of a call is the entry
  \<^verbatim>\<open>require_year\<close> of the argument \<^verbatim>\<open>tuning\<close> when the caller supplied one, else 2022. Among
  the calls that one run of \<^verbatim>\<open>sync_time\<close> makes: when \<^verbatim>\<open>ntp.datetime\<close> returned a time
  whose year is below the effective \<open>require_year\<close>, the run ends in the \<^verbatim>\<open>RuntimeError\<close>
  "NTP returned an unexpected year; not setting RTC" and has made no assignment to
  \<^verbatim>\<open>rtc.RTC().datetime\<close>; and every assignment to the clock that a run makes writes a
  time that \<^verbatim>\<open>ntp.datetime\<close> returned in this run and whose year is at least the effective
  \<open>require_year\<close>.
\<close>

theorem sync_time_year_check:
  assumes "sync_time w srv tz tuning s = (r, s')"
  shows "(\<forall>ntp now y. (NTP_datetime ntp, Returned_time now) \<in> set (new_events s s')
              \<and> spec_require_year w tuning = Inr y \<and> tm_year now < y \<longrightarrow>
            r = Inl (RuntimeError ''NTP returned an unexpected year; not setting RTC'')
            \<and> (\<forall>t x. (RTC_set_datetime t, x) \<notin> set (new_events s s')))
       \<and> (\<forall>t x. (RTC_set_datetime t, x) \<in> set (new_events s s') \<longrightarrow>
            (\<exists>ntp. (NTP_datetime ntp, Returned_time t) \<in> set (new_events s s'))
            \<and> (\<exists>y. spec_require_year w tuning = Inr y \<and> y \<le> tm_year t))"
  using assms
proof (cases rule: sync_time_cases)
  case no_creds
  then show ?thesis by (simp add: new_events_def)
next
  case (bad_config x)
  then show ?thesis by (simp add: new_events_def)
next
  case (setup_fail c x)
  then obtain evs where "log s' = log s @ evs" "\<forall>ev\<in>set evs. setup_call (fst ev)"
    by (auto simp: only_calls_def)
  then show ?thesis
    by (fastforce simp: new_events_def)
next
  case (reached_ntp c p s2)
  note y = config_require_year [OF reached_ntp(1)]
  from reached_ntp obtain evs where evs: "log s2 = log s @ evs" "\<forall>ev\<in>set evs. setup_call (fst ev)"
    by (auto simp: only_calls_def)
  have no1: "\<And>n x. (NTP_datetime n, x) \<notin> set evs" and no2: "\<And>t x. (RTC_set_datetime t, x) \<notin> set evs"
    using evs(2) by fastforce+
  from reached_ntp(3) show ?thesis
    by (cases rule: sync_time_ntp_cases) (auto simp: new_events_def evs(1) no1 no2 y)
qed

theorem sync_time_year_check_witness:
  "(NTP_datetime 8, Returned_time (time_of_year 2025))
      \<in> set (new_events initial
            (snd (sync_time (example_world wifi never 2025) PyNone PyNone tuning_2030 initial)))
   \<and> spec_require_year (example_world wifi never 2025) tuning_2030 = Inr 2030
   \<and> tm_year (time_of_year 2025) < 2030
   \<and> fst (sync_time (example_world wifi never 2025) PyNone PyNone tuning_2030 initial) =
       Inl (RuntimeError ''NTP returned an unexpected year; not setting RTC'')"
proof -
  let ?run = "sync_time (example_world wifi never 2025) PyNone PyNone tuning_2030 initial"
  have run: "?run = (fst ?run, snd ?run)"
    by simp
  have y: "spec_require_year (example_world wifi never 2025) tuning_2030 = Inr 2030"
    by (simp add: spec_require_year_def supplied_def tuning_2030_def)
  show ?thesis
    using sync_time_year_check [OF run] y
    by (simp add: year_2030_run new_events_def log_initial time_of_year_def)
qed

text \<open>
  Claim C1 as stated fails: it names the exception \<^verbatim>\<open>ValidationError\<close> with the message
  "NTP returned an unexpected year". When the server answers with the year 2000, the call
  ends in an exception of the class \<^verbatim>\<open>RuntimeError\<close>, and its message is
  "NTP returned an unexpected year; not setting RTC".
\<close>

theorem sync_time_year_error_is_runtime_error:
  "fst (sync_time (example_world wifi never 2000) PyNone PyNone None initial) =
      Inl (RuntimeError ''NTP returned an unexpected year; not setting RTC'')
   \<and> class_name (RuntimeError ''NTP returned an unexpected year; not setting RTC'') \<noteq> ''ValidationError''
   \<and> message (RuntimeError ''NTP returned an unexpected year; not setting RTC'')
        \<noteq> ''NTP returned an unexpected year''"
  by (simp add: example_old_year_run)

section \<open>The options of a call\<close>

lemma try_connect_loop_calls: "only_calls (loop_call d) s (snd (try_connect w e ssid pw s))"
proof -
  have a: "only_calls (loop_call d) s (snd (esp_is_connected w e s))"
    by (simp add: esp_is_connected_def only_calls_ext_call)
  have b: "\<And>s1. only_calls (loop_call d) s1 (snd (proc_call w (Connect_AP e ssid pw) s1))"
    by (simp add: proc_call_def only_calls_ext_call)
  show ?thesis
    using a b [of "snd (esp_is_connected w e s)"]
    by (auto simp: try_connect_def split: prod.splits sum.splits bool.splits
        intro: only_calls_trans)
qed

lemma connect_loop_loop_calls:
  "only_calls (loop_call d) s (snd (connect_loop w e ssid pw n d as s))"
proof (induction as arbitrary: s)
  case Nil
  then show ?case by (simp add: only_calls_refl)
next
  case (Cons a as)
  obtain r1 s1 where t: "try_connect w e ssid pw s = (r1, s1)"
    by (cases "try_connect w e ssid pw s")
  have o1: "only_calls (loop_call d) s s1"
    using try_connect_loop_calls [of d s w e ssid pw] t by simp
  define s2 where "s2 = snd (proc_call w (Esp_reset e) s1)"
  have o2: "only_calls (loop_call d) s1 s2"
    by (simp add: s2_def proc_call_def only_calls_ext_call)
  obtain r3 s3 where sl: "time_sleep d s2 = (r3, s3)"
    by (cases "time_sleep d s2")
  have o3: "only_calls (loop_call d) s2 s3"
    using sl by (auto simp: time_sleep_def only_calls_record split: if_splits)
  have o13: "only_calls (loop_call d) s s3"
    using o1 o2 o3 by (blast intro: only_calls_trans)
  have o4: "only_calls (loop_call d) s (snd (connect_loop w e ssid pw n d as s3))"
    using o13 Cons.IH [of s3] by (blast intro: only_calls_trans)
  show ?case
    using t sl o1 o13 o4 unfolding s2_def
    by (cases r1; cases r3) (simp_all)
qed

lemma sync_time_sleeps:
  assumes "sync_time w srv tz tuning s = (r, s')"
    and "sync_time_config w srv tz tuning = Inr c"
    and "(Sleep d, x) \<in> set (new_events s s')"
  shows "d = retry_delay c"
  using assms(1,2)
proof (cases rule: sync_time_phases)
  case no_creds
  then show ?thesis using assms(3) by (simp add: new_events_def)
next
  case radio_fail
  then obtain pre where "log s' = log s @ pre" "\<forall>ev\<in>set pre. ctor_call (fst ev)"
    by (auto simp: only_calls_def)
  then show ?thesis using assms(3) by (fastforce simp: new_events_def)
next
  case (loop_fail e s1 y)
  then obtain pre where pre: "log s1 = log s @ pre" "\<forall>ev\<in>set pre. ctor_call (fst ev)"
    by (auto simp: only_calls_def)
  have "only_calls (loop_call (retry_delay c)) s1 s'"
    using connect_loop_loop_calls [of "retry_delay c" s1 w e "getenv w ''CIRCUITPY_WIFI_SSID''"
        "getenv w ''CIRCUITPY_WIFI_PASSWORD''" "retries c" "[0..retries c]"] loop_fail(3)
    by simp
  then obtain lev where lev: "log s' = log s1 @ lev" "\<forall>ev\<in>set lev. loop_call (retry_delay c) (fst ev)"
    by (auto simp: only_calls_def)
  show ?thesis
    using assms(3) pre lev by (fastforce simp: new_events_def)
next
  case (loop_done e s1 u s2)
  then obtain pre where pre: "log s1 = log s @ pre" "\<forall>ev\<in>set pre. ctor_call (fst ev)"
    by (auto simp: only_calls_def)
  from loop_done obtain tail where tail: "log s' = log s2 @ tail" "\<forall>ev\<in>set tail. ntp_call (fst ev)"
    by (auto simp: only_calls_def)
  have "only_calls (loop_call (retry_delay c)) s1 s2"
    using connect_loop_loop_calls [of "retry_delay c" s1 w e "getenv w ''CIRCUITPY_WIFI_SSID''"
        "getenv w ''CIRCUITPY_WIFI_PASSWORD''" "retries c" "[0..retries c]"] loop_done(2)
    by simp
  then obtain lev where lev: "log s2 = log s1 @ lev" "\<forall>ev\<in>set lev. loop_call (retry_delay c) (fst ev)"
    by (auto simp: only_calls_def)
  show ?thesis
    using assms(3) pre lev tail by (fastforce simp: new_events_def)
qed

lemma rtc_write_year:
  assumes "sync_time w srv tz tuning s = (r, s')"
    and "sync_time_config w srv tz tuning = Inr c"
    and "(RTC_set_datetime t, x) \<in> set (new_events s s')"
  shows "require_year c \<le> tm_year t"
  using assms(1)
proof (cases rule: sync_time_cases)
  case no_creds
  then show ?thesis using assms(3) by (simp add: new_events_def)
next
  case (bad_config y)
  then show ?thesis using assms(3) by (simp add: new_events_def)
next
  case (setup_fail c' y)
  then obtain evs where "log s' = log s @ evs" "\<forall>ev\<in>set evs. setup_call (fst ev)"
    by (auto simp: only_calls_def)
  then show ?thesis
    using assms(3) by (fastforce simp: new_events_def)
next
  case (reached_ntp c' p s2)
  with assms(2) have c': "c' = c" by simp
  from reached_ntp obtain evs where evs: "log s2 = log s @ evs" "\<forall>ev\<in>set evs. setup_call (fst ev)"
    by (auto simp: only_calls_def)
  have no: "\<And>t x. (RTC_set_datetime t, x) \<notin> set evs"
    using evs(2) by fastforce
  from reached_ntp(3) [unfolded c'] show ?thesis
    using assms(3)
    by (cases rule: sync_time_ntp_cases) (auto simp: new_events_def evs(1) no)
qed

lemma py_add_float_ok:
  "tz = PyNone \<or> num_of tz \<noteq> None \<Longrightarrow>
   \<exists>v. py_add (if tz = PyNone then PyFloat a else tz) (PyFloat b) = Inr v"
  by (cases tz) (auto simp: py_add_def)

lemma sync_time_config_total:
  assumes "tz = PyNone \<or> num_of tz \<noteq> None"
    and "\<forall>v. supplied tuning ''timeout'' = Some v \<longrightarrow> \<not> isl (py_float w v)"
    and "\<forall>v. supplied tuning ''retries'' = Some v \<longrightarrow> \<not> isl (py_int w v)"
    and "\<forall>v. supplied tuning ''retry_delay'' = Some v \<longrightarrow> \<not> isl (py_float w v)"
    and "\<forall>v. supplied tuning ''cache_seconds'' = Some v \<longrightarrow> \<not> isl (py_int w v)"
    and "\<forall>v. supplied tuning ''require_year'' = Some v \<longrightarrow> \<not> isl (py_int w v)"
  shows "\<exists>c. sync_time_config w srv tz tuning = Inr c"
proof -
  obtain tz1 where tz1: "py_add (if tz = PyNone then PyFloat (env_float w ''NTP_TZ'' 0) else tz)
      (PyFloat (env_float w ''NTP_DST'' 0)) = Inr tz1"
    using py_add_float_ok [OF assms(1)] by blast
  have f: "\<And>key d. (\<forall>v. supplied tuning key = Some v \<longrightarrow> \<not> isl (py_float w v)) \<Longrightarrow>
      \<exists>x. py_float w (tuning_get (tuning_or_empty tuning) key (PyFloat d)) = Inr x"
    by (auto simp: tuning_get_supplied split: option.splits sum.splits)
       (metis isl_def sum.exhaust)
  have i: "\<And>key d. (\<forall>v. supplied tuning key = Some v \<longrightarrow> \<not> isl (py_int w v)) \<Longrightarrow>
      \<exists>x. py_int w (tuning_get (tuning_or_empty tuning) key (PyInt d)) = Inr x"
    by (auto simp: tuning_get_supplied split: option.splits sum.splits)
       (metis isl_def sum.exhaust)
  obtain a where a: "py_float w (tuning_get (tuning_or_empty tuning) ''timeout''
      (PyFloat (env_float w ''NTP_TIMEOUT'' 5))) = Inr a"
    using f [OF assms(2)] by blast
  obtain b where b: "py_int w (tuning_get (tuning_or_empty tuning) ''retries''
      (PyInt (env_int w ''NTP_RETRIES'' 2))) = Inr b"
    using i [OF assms(3)] by blast
  obtain c where c: "py_float w (tuning_get (tuning_or_empty tuning) ''retry_delay''
      (PyFloat (env_float w ''NTP_DELAY_S'' 1))) = Inr c"
    using f [OF assms(4)] by blast
  obtain d where d: "py_int w (tuning_get (tuning_or_empty tuning) ''cache_seconds''
      (PyInt (env_int w ''NTP_CACHE_SECONDS'' 0))) = Inr d"
    using i [OF assms(5)] by blast
  obtain e where e: "py_int w (tuning_get (tuning_or_empty tuning) ''require_year''
      (PyInt 2022)) = Inr e"
    using i [OF assms(6)] by blast
  show ?thesis
    by (simp add: sync_time_config_def Let_def tz1 a b c d e)
qed

lemma world_e_config:
  "sync_time_config world_e PyNone PyNone tuning_e =
     Inr \<lparr>server = PyStr ''pool.ntp.org'', tz_offset = PyFloat 0, timeout = 3,
        retries = 7, retry_delay = 2, cache_seconds = 0, require_year = 2020, interval = 0\<rparr>"
  by (simp add: world_e_def tuning_e_def eval_defs)

lemma world_e_run:
  "sync_time world_e PyNone PyNone tuning_e initial =
    (Inr (time_of_year 2025, PyNone),
     \<lparr>spi = Some 0, cs = Some 1, rdy = Some 2, rst = Some 3, esp = Some 4, pool = Some 5,
      log = [(Board_SPI, New_obj 0), (DigitalInOut ESP_CS, New_obj 1),
        (DigitalInOut ESP_BUSY, New_obj 2), (DigitalInOut ESP_RESET, New_obj 3),
        (ESP_SPIcontrol 0 1 2 3, New_obj 4), (Get_radio_socketpool 4, New_obj 5),
        (Is_connected 4, Returned_bool False),
        (Connect_AP 4 (PyStr ''net'') (PyStr ''secret''), Returned_none),
        (NTP_new 5 (PyFloat 0) (PyStr ''pool.ntp.org'') 3 0, New_obj 8),
        (NTP_datetime 8, Returned_time (time_of_year 2025)),
        (RTC_set_datetime (time_of_year 2025), Returned_none)]\<rparr>)"
  by (simp add: world_e_def tuning_e_def eval_defs Let_def)

lemma world_e_env:
  "reads_as_float world_e ''NTP_TIMEOUT'' 9"
  "reads_as_int world_e ''NTP_RETRIES'' 4"
  "reads_as_float world_e ''NTP_DELAY_S'' 2"
  "getenv world_e ''NTP_CACHE_SECONDS'' = PyNone"
  by (simp_all add: world_e_def reads_as_int_def reads_as_float_def
      example_world_def wifi_def env_of_def parse_int_def parse_float_def)

lemma tuning_e_supplied:
  "supplied tuning_e ''timeout'' = Some (PyFloat 3)"
  "supplied tuning_e ''retries'' = Some (PyInt 7)"
  "supplied tuning_e ''retry_delay'' = None"
  "supplied tuning_e ''cache_seconds'' = None"
  "supplied tuning_e ''require_year'' = Some (PyInt 2020)"
  by (simp_all add: supplied_def tuning_e_def)

text \<open>
  Claim C5. Whenever the argument \<^verbatim>\<open>tz_offset\<close> is \<^verbatim>\<open>None\<close> or a number and \<^verbatim>\<open>float\<close> and
  \<^verbatim>\<open>int\<close> accept the entries that the caller supplied, lines 95 to 107 give a
  configuration. For \<^verbatim>\<open>timeout\<close>, \<^verbatim>\<open>retries\<close>, \<^verbatim>\<open>retry_delay\<close> and \<^verbatim>\<open>cache_seconds\<close>, the value
  of the configuration is the entry that the caller supplied in \<^verbatim>\<open>tuning\<close> when there is
  one (read by \<^verbatim>\<open>float\<close> or \<^verbatim>\<open>int\<close>); without one it is the number that the environment
  variable \<^verbatim>\<open>NTP_TIMEOUT\<close>, \<^verbatim>\<open>NTP_RETRIES\<close>, \<^verbatim>\<open>NTP_DELAY_S\<close>, \<^verbatim>\<open>NTP_CACHE_SECONDS\<close> gives,
  and 5.0, 2, 1.0, 0 when that variable is unset. \<^verbatim>\<open>require_year\<close> is the supplied entry
  or 2022, whatever the environment. These are the values the run works with: the
  time-protocol client is made with this timeout and this cache duration, the connection
  attempts are at most \<open>retries + 1\<close> (none for a negative count), every \<^verbatim>\<open>time.sleep\<close> of
  the run sleeps \<open>retry_delay\<close>, and every time written to the clock has a year of at
  least \<open>require_year\<close>.
\<close>

theorem tuning_precedence:
  assumes "sync_time w srv tz tuning s = (r, s')"
  shows "((tz = PyNone \<or> num_of tz \<noteq> None)
          \<and> (\<forall>v. supplied tuning ''timeout'' = Some v \<longrightarrow> \<not> isl (py_float w v))
          \<and> (\<forall>v. supplied tuning ''retries'' = Some v \<longrightarrow> \<not> isl (py_int w v))
          \<and> (\<forall>v. supplied tuning ''retry_delay'' = Some v \<longrightarrow> \<not> isl (py_float w v))
          \<and> (\<forall>v. supplied tuning ''cache_seconds'' = Some v \<longrightarrow> \<not> isl (py_int w v))
          \<and> (\<forall>v. supplied tuning ''require_year'' = Some v \<longrightarrow> \<not> isl (py_int w v)) \<longrightarrow>
          (\<exists>c. sync_time_config w srv tz tuning = Inr c))
     \<and> (\<forall>c. sync_time_config w srv tz tuning = Inr c \<longrightarrow>
         (\<forall>v. supplied tuning ''timeout'' = Some v \<longrightarrow> py_float w v = Inr (timeout c))
       \<and> (supplied tuning ''timeout'' = None \<longrightarrow>
            (\<forall>x. reads_as_float w ''NTP_TIMEOUT'' x \<longrightarrow> timeout c = x)
            \<and> (getenv w ''NTP_TIMEOUT'' = PyNone \<longrightarrow> timeout c = 5))
       \<and> (\<forall>v. supplied tuning ''retries'' = Some v \<longrightarrow> py_int w v = Inr (retries c))
       \<and> (supplied tuning ''retries'' = None \<longrightarrow>
            (\<forall>i. reads_as_int w ''NTP_RETRIES'' i \<longrightarrow> retries c = i)
            \<and> (getenv w ''NTP_RETRIES'' = PyNone \<longrightarrow> retries c = 2))
       \<and> (\<forall>v. supplied tuning ''retry_delay'' = Some v \<longrightarrow> py_float w v = Inr (retry_delay c))
       \<and> (supplied tuning ''retry_delay'' = None \<longrightarrow>
            (\<forall>x. reads_as_float w ''NTP_DELAY_S'' x \<longrightarrow> retry_delay c = x)
            \<and> (getenv w ''NTP_DELAY_S'' = PyNone \<longrightarrow> retry_delay c = 1))
       \<and> (\<forall>v. supplied tuning ''cache_seconds'' = Some v \<longrightarrow> py_int w v = Inr (cache_seconds c))
       \<and> (supplied tuning ''cache_seconds'' = None \<longrightarrow>
            (\<forall>i. reads_as_int w ''NTP_CACHE_SECONDS'' i \<longrightarrow> cache_seconds c = i)
            \<and> (getenv w ''NTP_CACHE_SECONDS'' = PyNone \<longrightarrow> cache_seconds c = 0))
       \<and> (\<forall>v. supplied tuning ''require_year'' = Some v \<longrightarrow> py_int w v = Inr (require_year c))
       \<and> (supplied tuning ''require_year'' = None \<longrightarrow> require_year c = 2022)
       \<and> (\<forall>p tzv sv tmo cch x. (NTP_new p tzv sv tmo cch, x) \<in> set (new_events s s') \<longrightarrow>
            tmo = timeout c \<and> cch = cache_seconds c)
       \<and> int (attempts (new_events s s')) \<le> max 0 (retries c + 1)
       \<and> (\<forall>d x. (Sleep d, x) \<in> set (new_events s s') \<longrightarrow> d = retry_delay c)
       \<and> (\<forall>t x. (RTC_set_datetime t, x) \<in> set (new_events s s') \<longrightarrow> require_year c \<le> tm_year t))"
proof (intro conjI allI impI)
  assume "(tz = PyNone \<or> num_of tz \<noteq> None)
          \<and> (\<forall>v. supplied tuning ''timeout'' = Some v \<longrightarrow> \<not> isl (py_float w v))
          \<and> (\<forall>v. supplied tuning ''retries'' = Some v \<longrightarrow> \<not> isl (py_int w v))
          \<and> (\<forall>v. supplied tuning ''retry_delay'' = Some v \<longrightarrow> \<not> isl (py_float w v))
          \<and> (\<forall>v. supplied tuning ''cache_seconds'' = Some v \<longrightarrow> \<not> isl (py_int w v))
          \<and> (\<forall>v. supplied tuning ''require_year'' = Some v \<longrightarrow> \<not> isl (py_int w v))"
  then show "\<exists>c. sync_time_config w srv tz tuning = Inr c"
    using sync_time_config_total [of tz tuning w srv] by blast
next
  fix c v assume c: "sync_time_config w srv tz tuning = Inr c"
    and v: "supplied tuning ''timeout'' = Some v"
  show "py_float w v = Inr (timeout c)"
    using sync_time_config_fields(2) [OF c] v by (simp add: tuning_get_supplied)
next
  fix c x assume c: "sync_time_config w srv tz tuning = Inr c"
    and v: "supplied tuning ''timeout'' = None" and e: "reads_as_float w ''NTP_TIMEOUT'' x"
  show "timeout c = x"
    using sync_time_config_fields(2) [OF c] v e by (simp add: tuning_get_supplied env_float_reads)
next
  fix c assume c: "sync_time_config w srv tz tuning = Inr c"
    and v: "supplied tuning ''timeout'' = None" and e: "getenv w ''NTP_TIMEOUT'' = PyNone"
  show "timeout c = 5"
    using sync_time_config_fields(2) [OF c] v e by (simp add: tuning_get_supplied env_float_none)
next
  fix c v assume c: "sync_time_config w srv tz tuning = Inr c"
    and v: "supplied tuning ''retries'' = Some v"
  show "py_int w v = Inr (retries c)"
    using sync_time_config_fields(3) [OF c] v by (simp add: tuning_get_supplied)
next
  fix c i assume c: "sync_time_config w srv tz tuning = Inr c"
    and v: "supplied tuning ''retries'' = None" and e: "reads_as_int w ''NTP_RETRIES'' i"
  show "retries c = i"
    using sync_time_config_fields(3) [OF c] v e by (simp add: tuning_get_supplied env_int_reads)
next
  fix c assume c: "sync_time_config w srv tz tuning = Inr c"
    and v: "supplied tuning ''retries'' = None" and e: "getenv w ''NTP_RETRIES'' = PyNone"
  show "retries c = 2"
    using sync_time_config_fields(3) [OF c] v e by (simp add: tuning_get_supplied env_int_none)
next
  fix c v assume c: "sync_time_config w srv tz tuning = Inr c"
    and v: "supplied tuning ''retry_delay'' = Some v"
  show "py_float w v = Inr (retry_delay c)"
    using sync_time_config_fields(4) [OF c] v by (simp add: tuning_get_supplied)
next
  fix c x assume c: "sync_time_config w srv tz tuning = Inr c"
    and v: "supplied tuning ''retry_delay'' = None" and e: "reads_as_float w ''NTP_DELAY_S'' x"
  show "retry_delay c = x"
    using sync_time_config_fields(4) [OF c] v e by (simp add: tuning_get_supplied env_float_reads)
next
  fix c assume c: "sync_time_config w srv tz tuning = Inr c"
    and v: "supplied tuning ''retry_delay'' = None" and e: "getenv w ''NTP_DELAY_S'' = PyNone"
  show "retry_delay c = 1"
    using sync_time_config_fields(4) [OF c] v e by (simp add: tuning_get_supplied env_float_none)
next
  fix c v assume c: "sync_time_config w srv tz tuning = Inr c"
    and v: "supplied tuning ''cache_seconds'' = Some v"
  show "py_int w v = Inr (cache_seconds c)"
    using sync_time_config_fields(5) [OF c] v by (simp add: tuning_get_supplied)
next
  fix c i assume c: "sync_time_config w srv tz tuning = Inr c"
    and v: "supplied tuning ''cache_seconds'' = None" and e: "reads_as_int w ''NTP_CACHE_SECONDS'' i"
  show "cache_seconds c = i"
    using sync_time_config_fields(5) [OF c] v e by (simp add: tuning_get_supplied env_int_reads)
next
  fix c assume c: "sync_time_config w srv tz tuning = Inr c"
    and v: "supplied tuning ''cache_seconds'' = None" and e: "getenv w ''NTP_CACHE_SECONDS'' = PyNone"
  show "cache_seconds c = 0"
    using sync_time_config_fields(5) [OF c] v e by (simp add: tuning_get_supplied env_int_none)
next
  fix c v assume c: "sync_time_config w srv tz tuning = Inr c"
    and v: "supplied tuning ''require_year'' = Some v"
  show "py_int w v = Inr (require_year c)"
    using sync_time_config_fields(6) [OF c] v by (simp add: tuning_get_supplied)
next
  fix c assume c: "sync_time_config w srv tz tuning = Inr c"
    and v: "supplied tuning ''require_year'' = None"
  show "require_year c = 2022"
    using sync_time_config_fields(6) [OF c] v by (simp add: tuning_get_supplied)
next
  fix c p tzv sv tmo cch x assume c: "sync_time_config w srv tz tuning = Inr c"
    and e: "(NTP_new p tzv sv tmo cch, x) \<in> set (new_events s s')"
  show "tmo = timeout c" "cch = cache_seconds c"
    using ntp_client_args [OF assms c e] by simp_all
next
  fix c assume c: "sync_time_config w srv tz tuning = Inr c"
  show "int (attempts (new_events s s')) \<le> max 0 (retries c + 1)"
    using sync_time_loop_summary [OF assms c] by linarith
next
  fix c d x assume c: "sync_time_config w srv tz tuning = Inr c"
    and e: "(Sleep d, x) \<in> set (new_events s s')"
  show "d = retry_delay c"
    using sync_time_sleeps [OF assms c e] .
next
  fix c t x assume c: "sync_time_config w srv tz tuning = Inr c"
    and e: "(RTC_set_datetime t, x) \<in> set (new_events s s')"
  show "require_year c \<le> tm_year t"
    using rtc_write_year [OF assms c e] .
qed

theorem tuning_precedence_witness:
  "supplied tuning_e ''timeout'' = Some (PyFloat 3) \<and> reads_as_float world_e ''NTP_TIMEOUT'' 9
   \<and> supplied tuning_e ''retries'' = Some (PyInt 7) \<and> reads_as_int world_e ''NTP_RETRIES'' 4
   \<and> supplied tuning_e ''retry_delay'' = None \<and> reads_as_float world_e ''NTP_DELAY_S'' 2
   \<and> supplied tuning_e ''cache_seconds'' = None \<and> getenv world_e ''NTP_CACHE_SECONDS'' = PyNone
   \<and> supplied tuning_e ''require_year'' = Some (PyInt 2020)
   \<and> (NTP_new 5 (PyFloat 0) (PyStr ''pool.ntp.org'') 3 0, New_obj 8) \<in> set (new_events initial
        (snd (sync_time world_e PyNone PyNone tuning_e initial)))
   \<and> sync_time_config world_e PyNone PyNone tuning_e =
     Inr \<lparr>server = PyStr ''pool.ntp.org'', tz_offset = PyFloat 0, timeout = 3,
        retries = 7, retry_delay = 2, cache_seconds = 0, require_year = 2020, interval = 0\<rparr>"
proof -
  let ?run = "sync_time world_e PyNone PyNone tuning_e initial"
  have run: "?run = (fst ?run, snd ?run)"
    by simp
  have ev: "(NTP_new 5 (PyFloat 0) (PyStr ''pool.ntp.org'') 3 0, New_obj 8)
      \<in> set (new_events initial (snd ?run))"
    by (simp add: world_e_run new_events_def log_initial)
  obtain c where c: "sync_time_config world_e PyNone PyNone tuning_e = Inr c"
    using tuning_precedence [OF run, THEN conjunct1] tuning_e_supplied
    by auto
  note t = tuning_precedence [OF run, THEN conjunct2, rule_format, OF c]
  have "timeout c = 3" "retries c = 7" "retry_delay c = 2" "cache_seconds c = 0"
    "require_year c = 2020"
    using t tuning_e_supplied world_e_env by auto
  then show ?thesis
    using ev c world_e_config tuning_e_supplied world_e_env by simp
qed

section \<open>The events of an exhausted connection loop\<close>

lemma try_connect_failed_prefix:
  assumes "try_connect w e ssid pw s = (Inl x, s1)"
  shows "\<exists>tev. log s1 = log s @ tev \<and> (\<forall>rest. failed_attempt_prefix (tev @ rest) = Some (x, rest))"
  using assms
proof (cases rule: try_connect_cases)
  case (query_raised y)
  then show ?thesis
    by (intro exI [of _ "[(Is_connected e, Raised x)]"]) simp
next
  case (connect_raised y)
  then show ?thesis
    by (intro exI [of _ "[(Is_connected e, Returned_bool False), (Connect_AP e ssid pw, Raised x)]"])
      simp
qed simp_all

lemma connect_loop_exhausted:
  assumes "connect_loop w e ssid pw n d as s = (r, s')"
    and "\<forall>a\<in>set (butlast as). a < n"
    and "as \<noteq> []" and "last as = n"
    and "log s' = log s @ evs"
    and "\<forall>ev\<in>set evs. \<not> is_success ev"
    and "attempts evs = length as"
  shows "\<exists>x. r = Inl x \<and> exhausted_trace d (length as - 1) x evs"
  using assms
proof (induction as arbitrary: s evs)
  case Nil
  then show ?case by simp
next
  case (Cons a rest)
  obtain r1 s1 where t: "try_connect w e ssid pw s = (r1, s1)"
    by (cases "try_connect w e ssid pw s")
  from try_connect_summary [OF t] obtain tev where tev: "log s1 = log s @ tev" "attempts tev = 1"
    "\<forall>u. r1 = Inr u \<longrightarrow> (\<exists>ev\<in>set tev. is_success ev)"
    by blast
  show ?case
  proof (cases r1)
    case (Inr u)
    then have "s' = s1"
      using Cons.prems(1) t by simp
    then have "evs = tev"
      using tev(1) Cons.prems(5) by simp
    then show ?thesis
      using tev(3) Inr Cons.prems(6) by blast
  next
    case (Inl x)
    from try_connect_failed_prefix [OF t [unfolded Inl]] obtain fev where
      fev: "log s1 = log s @ fev" "\<forall>rest. failed_attempt_prefix (fev @ rest) = Some (x, rest)"
      by blast
    have same: "fev = tev"
      using fev(1) tev(1) by simp
    show ?thesis
    proof (cases "a \<ge> n")
      case True
      have rest: "rest = []"
      proof (rule ccontr)
        assume "rest \<noteq> []"
        then have "a \<in> set (butlast (a # rest))" by simp
        with Cons.prems(2) have "a < n" by blast
        with True show False by simp
      qed
      have "r = Inl x" "s' = s1"
        using Cons.prems(1) t Inl True by simp_all
      then have "evs = fev"
        using fev(1) Cons.prems(5) by simp
      then show ?thesis
        using fev(2) [rule_format, of "[]"] rest \<open>r = Inl x\<close> by simp
    next
      case False
      have rest: "rest \<noteq> []"
        using False Cons.prems(3,4) by auto
      obtain rr s2 where rs: "proc_call w (Esp_reset e) s1 = (rr, s2)"
        by (cases "proc_call w (Esp_reset e) s1")
      obtain y where l2: "log s2 = log s1 @ [(Esp_reset e, y)]"
        using rs [unfolded proc_call_def]
        by (cases rule: ext_call_cases) (auto simp: log_record_call)
      show ?thesis
      proof (cases "d < 0")
        case True
        have "s' = record_call (Sleep d) (Raised (ValueError ''sleep length must be non-negative'')) s2"
          using Cons.prems(1) t Inl False rs True by (simp add: time_sleep_def)
        then have "log s' = log s @ (tev @ [(Esp_reset e, y),
            (Sleep d, Raised (ValueError ''sleep length must be non-negative''))])"
          using l2 tev(1) by (simp add: log_record_call)
        then have "evs = tev @ [(Esp_reset e, y),
            (Sleep d, Raised (ValueError ''sleep length must be non-negative''))]"
          using Cons.prems(5) by simp
        then have "attempts evs = 1"
          using tev(2) by simp
        then show ?thesis
          using Cons.prems(7) rest by (cases rest) simp_all
      next
        case no: False
        define s3 where "s3 = record_call (Sleep d) Returned_none s2"
        have l3: "log s3 = log s @ (fev @ [(Esp_reset e, y), (Sleep d, Returned_none)])"
          using l2 fev(1) by (simp add: s3_def log_record_call)
        have rec: "connect_loop w e ssid pw n d rest s3 = (r, s')"
          using Cons.prems(1) t Inl False rs no by (simp add: time_sleep_def s3_def)
        have "only_calls setup_call s3 s'"
          using connect_loop_calls [of s3 w e ssid pw n d rest] rec by simp
        then obtain evs' where evs': "log s' = log s3 @ evs'"
          by (auto simp: only_calls_def)
        have all: "evs = fev @ [(Esp_reset e, y), (Sleep d, Returned_none)] @ evs'"
          using evs' l3 Cons.prems(5) by simp
        have p2: "\<forall>a\<in>set (butlast rest). a < n"
          using Cons.prems(2) rest by (auto dest: in_set_butlastD)
        have p4: "last rest = n"
          using Cons.prems(4) rest by simp
        have p6: "\<forall>ev\<in>set evs'. \<not> is_success ev"
          using Cons.prems(6) all by simp
        have p7: "attempts evs' = length rest"
          using Cons.prems(7) all tev(2) same by simp
        from Cons.IH [OF rec p2 rest p4 evs' p6 p7] obtain z where
          z: "r = Inl z" "exhausted_trace d (length rest - 1) z evs'"
          by blast
        obtain k where k: "length rest = Suc k"
          using rest by (cases rest) simp_all
        have "exhausted_trace d (Suc k) z evs"
          using z(2) k fev(2) [rule_format, of "[(Esp_reset e, y), (Sleep d, Returned_none)] @ evs'"]
          by (simp add: all)
        then show ?thesis
          using z(1) k by simp
      qed
    qed
  qed
qed

lemma dropWhile_ctor_prefix:
  assumes "\<forall>ev\<in>set pre. ctor_call (fst ev)"
    and "evs = [] \<or> \<not> ctor_call (fst (hd evs))"
  shows "dropWhile (\<lambda>ev. ctor_call (fst ev)) (pre @ evs) = evs"
  using assms
  by (cases evs) (simp_all add: dropWhile_append)

lemma exhausted_trace_head:
  assumes "exhausted_trace d n x evs"
  shows "evs \<noteq> [] \<and> \<not> ctor_call (fst (hd evs))"
proof -
  have "failed_attempt_prefix evs \<noteq> None"
    using assms by (cases n) (auto split: option.splits)
  then show ?thesis
    by (cases evs rule: failed_attempt_prefix.cases) simp_all
qed

lemma sync_time_exhausted:
  assumes "sync_time w srv tz tuning s = (r, s')"
    and "sync_time_config w srv tz tuning = Inr c"
    and "0 \<le> retries c"
    and "int (attempts (new_events s s')) = retries c + 1"
    and "\<forall>ev\<in>set (new_events s s'). \<not> is_success ev"
  shows "\<exists>x. r = Inl x \<and> exhausted_trace (retry_delay c) (nat (retries c)) x
           (dropWhile (\<lambda>ev. ctor_call (fst ev)) (new_events s s'))"
  using assms(1,2)
proof (cases rule: sync_time_phases)
  case no_creds
  then show ?thesis using assms(3,4) by (simp add: new_events_def)
next
  case radio_fail
  then obtain pre where pre: "log s' = log s @ pre" "\<forall>ev\<in>set pre. ctor_call (fst ev)"
    by (auto simp: only_calls_def)
  show ?thesis
    using ctor_events(1) [OF pre(2)] pre(1) assms(3,4) by (simp add: new_events_def)
next
  case (loop_fail e s1 x)
  then obtain pre where pre: "log s1 = log s @ pre" "\<forall>ev\<in>set pre. ctor_call (fst ev)"
    by (auto simp: only_calls_def)
  have "only_calls setup_call s1 s'"
    using connect_loop_calls [of s1 w e "getenv w ''CIRCUITPY_WIFI_SSID''"
        "getenv w ''CIRCUITPY_WIFI_PASSWORD''" "retries c" "retry_delay c" "[0..retries c]"]
      loop_fail(3) by simp
  then obtain lev where lev: "log s' = log s1 @ lev"
    by (auto simp: only_calls_def)
  have ne: "new_events s s' = pre @ lev"
    using pre(1) lev by (simp add: new_events_def)
  note p = ctor_events [OF pre(2)]
  have a: "attempts lev = length [0..retries c]"
    using assms(3,4) p(1) by (simp add: ne)
  have b: "\<forall>ev\<in>set lev. \<not> is_success ev"
    using assms(5) by (simp add: ne)
  have c: "[0..retries c] \<noteq> []" "last [0..retries c] = retries c"
    using assms(3) upto_last [of "retries c"] by (simp_all add: upto.simps)
  from connect_loop_exhausted [OF loop_fail(3) upto_butlast_less c lev b a]
  obtain y where y: "Inl x = (Inl y :: pyerr + unit)"
    "exhausted_trace (retry_delay c) (length [0..retries c] - 1) y lev"
    by blast
  have len: "length [0..retries c] - 1 = nat (retries c)"
    using assms(3) by simp
  have "dropWhile (\<lambda>ev. ctor_call (fst ev)) (pre @ lev) = lev"
    using dropWhile_ctor_prefix [OF pre(2), of lev] exhausted_trace_head [OF y(2)] by simp
  then show ?thesis
    using y loop_fail(2) len by (simp add: ne)
next
  case (loop_done e s1 u s2)
  then obtain pre where pre: "log s1 = log s @ pre" "\<forall>ev\<in>set pre. ctor_call (fst ev)"
    by (auto simp: only_calls_def)
  from loop_done obtain tail where tail: "log s' = log s2 @ tail" "\<forall>ev\<in>set tail. ntp_call (fst ev)"
    by (auto simp: only_calls_def)
  have "only_calls setup_call s1 s2"
    using connect_loop_calls [of s1 w e "getenv w ''CIRCUITPY_WIFI_SSID''"
        "getenv w ''CIRCUITPY_WIFI_PASSWORD''" "retries c" "retry_delay c" "[0..retries c]"]
      loop_done(2) by simp
  then obtain lev where lev: "log s2 = log s1 @ lev"
    by (auto simp: only_calls_def)
  have ne: "new_events s s' = pre @ lev @ tail"
    using pre(1) lev tail(1) by (simp add: new_events_def)
  note p = ctor_events [OF pre(2)]
  note q = ntp_events [OF tail(2)]
  have a: "attempts lev = length [0..retries c]"
    using assms(3,4) p(1) q(1) by (simp add: ne)
  have b: "\<forall>ev\<in>set lev. \<not> is_success ev"
    using assms(5) by (simp add: ne)
  have c: "[0..retries c] \<noteq> []" "last [0..retries c] = retries c"
    using assms(3) upto_last [of "retries c"] by (simp_all add: upto.simps)
  from connect_loop_exhausted [OF loop_done(2) upto_butlast_less c lev b a]
  show ?thesis by simp
qed

lemma neg_retries_config:
  "sync_time_config (example_world wifi never 2025) PyNone PyNone tuning_neg =
     Inr \<lparr>server = PyStr ''pool.ntp.org'', tz_offset = PyFloat 0, timeout = 5,
        retries = - 2, retry_delay = 1, cache_seconds = 0, require_year = 2022, interval = 0\<rparr>"
  by (simp add: tuning_neg_def eval_defs)

lemma neg_retries_run:
  "sync_time (example_world wifi never 2025) PyNone PyNone tuning_neg initial =
    (Inr (time_of_year 2025, PyNone),
     \<lparr>spi = Some 0, cs = Some 1, rdy = Some 2, rst = Some 3, esp = Some 4, pool = Some 5,
      log = [(Board_SPI, New_obj 0), (DigitalInOut ESP_CS, New_obj 1),
        (DigitalInOut ESP_BUSY, New_obj 2), (DigitalInOut ESP_RESET, New_obj 3),
        (ESP_SPIcontrol 0 1 2 3, New_obj 4), (Get_radio_socketpool 4, New_obj 5),
        (NTP_new 5 (PyFloat 0) (PyStr ''pool.ntp.org'') 5 0, New_obj 6),
        (NTP_datetime 6, Returned_time (time_of_year 2025)),
        (RTC_set_datetime (time_of_year 2025), Returned_none)]\<rparr>)"
  by (simp add: tuning_neg_def eval_defs Let_def)

text \<open>
  Claim C3, as amended. For a retry count \<open>retries\<close> that is not negative, a run of
  \<^verbatim>\<open>sync_time\<close> makes at most \<open>retries + 1\<close> connection attempts; for a negative one it makes
  none. When a run with \<open>retries\<close> not negative has made \<open>retries + 1\<close> attempts and none of
  them succeeded, the call ends in the exception that the last attempt raised, and what
  follows the constructors of \<^verbatim>\<open>_ensure_radio\<close> in the run is exactly: \<open>retries\<close> times a
  failed attempt, one \<^verbatim>\<open>esp.reset()\<close> and one \<^verbatim>\<open>time.sleep(retry_delay)\<close> that returned, then
  the last failed attempt and nothing after it. So \<^verbatim>\<open>esp.reset()\<close> is called once after
  each failed attempt but the last, \<open>retries\<close> times in all. With a delay that
  \<^verbatim>\<open>time.sleep\<close> accepts, a run that makes an attempt and whose attempts all fail does make
  all \<open>retries + 1\<close> of them.
\<close>

theorem connect_loop_retries:
  assumes "sync_time w srv tz tuning s = (r, s')"
    and "sync_time_config w srv tz tuning = Inr c"
  shows "(0 \<le> retries c \<longrightarrow> int (attempts (new_events s s')) \<le> retries c + 1)
    \<and> (retries c < 0 \<longrightarrow> attempts (new_events s s') = 0)
    \<and> (0 \<le> retries c \<and> int (attempts (new_events s s')) = retries c + 1
          \<and> (\<forall>ev\<in>set (new_events s s'). \<not> is_success ev) \<longrightarrow>
        (\<exists>x. r = Inl x
           \<and> exhausted_trace (retry_delay c) (nat (retries c)) x
               (dropWhile (\<lambda>ev. ctor_call (fst ev)) (new_events s s'))
           \<and> attempt_raised x (last (new_events s s')))
        \<and> int (resets (new_events s s')) = retries c
        \<and> sleeps_after_resets (retry_delay c) (new_events s s'))
    \<and> (0 \<le> retry_delay c \<and> 0 < attempts (new_events s s')
          \<and> (\<forall>ev\<in>set (new_events s s'). \<not> is_success ev) \<longrightarrow>
        int (attempts (new_events s s')) = retries c + 1)"
proof -
  note L = sync_time_loop_summary [OF assms]
  have a: "0 \<le> retries c \<longrightarrow> int (attempts (new_events s s')) \<le> retries c + 1"
    using L by linarith
  have a': "retries c < 0 \<longrightarrow> attempts (new_events s s') = 0"
    using L by linarith
  have b: "0 \<le> retries c \<and> int (attempts (new_events s s')) = retries c + 1
          \<and> (\<forall>ev\<in>set (new_events s s'). \<not> is_success ev) \<longrightarrow>
        (\<exists>x. r = Inl x
           \<and> exhausted_trace (retry_delay c) (nat (retries c)) x
               (dropWhile (\<lambda>ev. ctor_call (fst ev)) (new_events s s'))
           \<and> attempt_raised x (last (new_events s s')))
        \<and> int (resets (new_events s s')) = retries c
        \<and> sleeps_after_resets (retry_delay c) (new_events s s')"
  proof (intro impI, elim conjE)
    assume h: "0 \<le> retries c" "int (attempts (new_events s s')) = retries c + 1"
      "\<forall>ev\<in>set (new_events s s'). \<not> is_success ev"
    then have "attempts (new_events s s') = nat (retries c + 1)"
      by linarith
    with h L have old: "(\<exists>x. r = Inl x \<and> new_events s s' \<noteq> [] \<and> attempt_raised x (last (new_events s s')))"
      "resets (new_events s s') = nat (retries c)"
      "sleeps_after_resets (retry_delay c) (new_events s s')"
      by blast+
    from sync_time_exhausted [OF assms h] obtain x where x: "r = Inl x"
      "exhausted_trace (retry_delay c) (nat (retries c)) x
               (dropWhile (\<lambda>ev. ctor_call (fst ev)) (new_events s s'))"
      by blast
    have "attempt_raised x (last (new_events s s'))"
      using old(1) x(1) by auto
    with x old(2,3) h(1)
    show "(\<exists>x. r = Inl x
           \<and> exhausted_trace (retry_delay c) (nat (retries c)) x
               (dropWhile (\<lambda>ev. ctor_call (fst ev)) (new_events s s'))
           \<and> attempt_raised x (last (new_events s s')))
        \<and> int (resets (new_events s s')) = retries c
        \<and> sleeps_after_resets (retry_delay c) (new_events s s')"
      by auto
  qed
  have c: "0 \<le> retry_delay c \<and> 0 < attempts (new_events s s')
          \<and> (\<forall>ev\<in>set (new_events s s'). \<not> is_success ev) \<longrightarrow>
        int (attempts (new_events s s')) = retries c + 1"
  proof (intro impI, elim conjE)
    assume h: "0 \<le> retry_delay c" "0 < attempts (new_events s s')"
      "\<forall>ev\<in>set (new_events s s'). \<not> is_success ev"
    with L have "attempts (new_events s s') = nat (retries c + 1)"
      by blast
    with h(2) show "int (attempts (new_events s s')) = retries c + 1"
      by linarith
  qed
  show ?thesis
    using a a' b c by (intro conjI)
qed

theorem connect_loop_retries_witness:
  "(0::int) \<le> 2
   \<and> int (attempts (new_events initial (snd (sync_time world_c PyNone PyNone None initial)))) = 2 + 1
   \<and> filter is_success (new_events initial (snd (sync_time world_c PyNone PyNone None initial))) = []
   \<and> fst (sync_time world_c PyNone PyNone None initial) =
        Inl (ConnectionError ''Failed to connect to ssid'')
   \<and> exhausted_trace 1 2 (ConnectionError ''Failed to connect to ssid'')
        (dropWhile (\<lambda>ev. ctor_call (fst ev))
           (new_events initial (snd (sync_time world_c PyNone PyNone None initial))))
   \<and> dropWhile (\<lambda>ev. ctor_call (fst ev))
         (new_events initial (snd (sync_time world_c PyNone PyNone None initial))) =
       [(Is_connected 4, Returned_bool False),
        (Connect_AP 4 (PyStr ''net'') (PyStr ''secret''),
           Raised (ConnectionError ''Failed to connect to ssid'')),
        (Esp_reset 4, Returned_none), (Sleep 1, Returned_none),
        (Is_connected 4, Returned_bool False),
        (Connect_AP 4 (PyStr ''net'') (PyStr ''secret''),
           Raised (ConnectionError ''Failed to connect to ssid'')),
        (Esp_reset 4, Returned_none), (Sleep 1, Returned_none),
        (Is_connected 4, Returned_bool False),
        (Connect_AP 4 (PyStr ''net'') (PyStr ''secret''),
           Raised (ConnectionError ''Failed to connect to ssid''))]
   \<and> int (resets (new_events initial (snd (sync_time world_c PyNone PyNone None initial)))) = 2"
proof -
  let ?run = "sync_time world_c PyNone PyNone None initial"
  have run: "?run = (fst ?run, snd ?run)"
    by simp
  have cfg: "sync_time_config world_c PyNone PyNone None =
     Inr \<lparr>server = PyStr ''pool.ntp.org'', tz_offset = PyFloat 0, timeout = 5,
        retries = 2, retry_delay = 1, cache_seconds = 0, require_year = 2022, interval = 0\<rparr>"
    unfolding world_c_def by (rule failing_config)
  show ?thesis
    using connect_loop_retries [OF run cfg]
    by (simp add: world_c_def failing_run new_events_def log_initial)
qed

text \<open>
  Claim C3 as stated fails for a negative retry count: with \<^verbatim>\<open>tuning={"retries": -2}\<close> the
  loop \<^verbatim>\<open>for attempt in range(retries + 1)\<close> has no pass, so the attempts are 0, which is
  more than \<open>retries + 1 = -1\<close>; no attempt succeeded, yet no failure reaches the caller:
  the call goes on to the time-protocol client and returns the time.
\<close>

theorem negative_retries_no_attempt:
  "sync_time_config (example_world wifi never 2025) PyNone PyNone tuning_neg =
     Inr \<lparr>server = PyStr ''pool.ntp.org'', tz_offset = PyFloat 0, timeout = 5,
        retries = - 2, retry_delay = 1, cache_seconds = 0, require_year = 2022, interval = 0\<rparr>
   \<and> attempts (new_events initial
        (snd (sync_time (example_world wifi never 2025) PyNone PyNone tuning_neg initial))) = 0
   \<and> - 2 + 1 < int (attempts (new_events initial
        (snd (sync_time (example_world wifi never 2025) PyNone PyNone tuning_neg initial))))
   \<and> fst (sync_time (example_world wifi never 2025) PyNone PyNone tuning_neg initial) =
        Inr (time_of_year 2025, PyNone)"
  by (simp add: neg_retries_config neg_retries_run new_events_def log_initial)

section \<open>Unusable values of the numeric variables\<close>

lemma getenv_assign_other: "n \<noteq> name \<Longrightarrow> getenv (assign w name v) n = getenv w n"
  by (simp add: assign_def)

lemma py_float_assign: "py_float (assign w name u) v = py_float w v"
  by (cases v) (simp_all add: assign_def)

lemma py_int_assign: "py_int (assign w name u) v = py_int w v"
  by (cases v) (simp_all add: assign_def)

lemma env_float_assign_other:
  "n \<noteq> name \<Longrightarrow> env_float (assign w name v) n d = env_float w n d"
  by (simp add: env_float_def py_float_assign Let_def getenv_assign_other)

lemma env_int_assign_other:
  "n \<noteq> name \<Longrightarrow> env_int (assign w name v) n d = env_int w n d"
  by (simp add: env_int_def py_int_assign Let_def getenv_assign_other)

lemma env_float_assign_default:
  "bad_float w name \<Longrightarrow> env_float (assign w name (PyFloat d)) name d = env_float w name d"
  by (simp add: env_float_bad) (simp add: env_float_def assign_def)

lemma env_int_assign_default:
  "bad_int w name \<Longrightarrow> env_int (assign w name (PyInt d)) name d = env_int w name d"
  by (simp add: env_int_bad) (simp add: env_int_def assign_def)

lemma sync_time_config_cong:
  assumes "env_float w' ''NTP_TZ'' 0 = env_float w ''NTP_TZ'' 0"
    and "env_float w' ''NTP_DST'' 0 = env_float w ''NTP_DST'' 0"
    and "env_float w' ''NTP_TIMEOUT'' 5 = env_float w ''NTP_TIMEOUT'' 5"
    and "env_float w' ''NTP_DELAY_S'' 1 = env_float w ''NTP_DELAY_S'' 1"
    and "env_int w' ''NTP_RETRIES'' 2 = env_int w ''NTP_RETRIES'' 2"
    and "env_int w' ''NTP_CACHE_SECONDS'' 0 = env_int w ''NTP_CACHE_SECONDS'' 0"
    and "env_int w' ''NTP_INTERVAL'' 0 = env_int w ''NTP_INTERVAL'' 0"
    and "getenv w' ''NTP_SERVER'' = getenv w ''NTP_SERVER''"
    and "py_float w' = py_float w" and "py_int w' = py_int w"
  shows "sync_time_config w' srv tz tuning = sync_time_config w srv tz tuning"
  unfolding sync_time_config_def by (simp only: assms)

lemma sync_time_config_assign_float:
  assumes "(name, d) \<in> set float_defaults" "bad_float w name"
  shows "sync_time_config (assign w name (PyFloat d)) srv tz tuning = sync_time_config w srv tz tuning"
proof (rule sync_time_config_cong)
  note b = env_float_assign_default [OF assms(2), of d]
  show "env_float (assign w name (PyFloat d)) ''NTP_TZ'' 0 = env_float w ''NTP_TZ'' 0"
    using assms(1) b by (cases "name = ''NTP_TZ''") (auto simp: float_defaults_def env_float_assign_other)
  show "env_float (assign w name (PyFloat d)) ''NTP_DST'' 0 = env_float w ''NTP_DST'' 0"
    using assms(1) b by (cases "name = ''NTP_DST''") (auto simp: float_defaults_def env_float_assign_other)
  show "env_float (assign w name (PyFloat d)) ''NTP_TIMEOUT'' 5 = env_float w ''NTP_TIMEOUT'' 5"
    using assms(1) b by (cases "name = ''NTP_TIMEOUT''") (auto simp: float_defaults_def env_float_assign_other)
  show "env_float (assign w name (PyFloat d)) ''NTP_DELAY_S'' 1 = env_float w ''NTP_DELAY_S'' 1"
    using assms(1) b by (cases "name = ''NTP_DELAY_S''") (auto simp: float_defaults_def env_float_assign_other)
  show "env_int (assign w name (PyFloat d)) ''NTP_RETRIES'' 2 = env_int w ''NTP_RETRIES'' 2"
    using assms(1) by (auto simp: float_defaults_def env_int_assign_other)
  show "env_int (assign w name (PyFloat d)) ''NTP_CACHE_SECONDS'' 0 = env_int w ''NTP_CACHE_SECONDS'' 0"
    using assms(1) by (auto simp: float_defaults_def env_int_assign_other)
  show "env_int (assign w name (PyFloat d)) ''NTP_INTERVAL'' 0 = env_int w ''NTP_INTERVAL'' 0"
    using assms(1) by (auto simp: float_defaults_def env_int_assign_other)
  show "getenv (assign w name (PyFloat d)) ''NTP_SERVER'' = getenv w ''NTP_SERVER''"
    using assms(1) by (auto simp: float_defaults_def getenv_assign_other)
  show "py_float (assign w name (PyFloat d)) = py_float w"
    by (rule ext) (rule py_float_assign)
  show "py_int (assign w name (PyFloat d)) = py_int w"
    by (rule ext) (rule py_int_assign)
qed

lemma sync_time_config_assign_int:
  assumes "(name, d) \<in> set int_defaults" "bad_int w name"
  shows "sync_time_config (assign w name (PyInt d)) srv tz tuning = sync_time_config w srv tz tuning"
proof (rule sync_time_config_cong)
  note b = env_int_assign_default [OF assms(2), of d]
  show "env_float (assign w name (PyInt d)) ''NTP_TZ'' 0 = env_float w ''NTP_TZ'' 0"
    using assms(1) by (auto simp: int_defaults_def env_float_assign_other)
  show "env_float (assign w name (PyInt d)) ''NTP_DST'' 0 = env_float w ''NTP_DST'' 0"
    using assms(1) by (auto simp: int_defaults_def env_float_assign_other)
  show "env_float (assign w name (PyInt d)) ''NTP_TIMEOUT'' 5 = env_float w ''NTP_TIMEOUT'' 5"
    using assms(1) by (auto simp: int_defaults_def env_float_assign_other)
  show "env_float (assign w name (PyInt d)) ''NTP_DELAY_S'' 1 = env_float w ''NTP_DELAY_S'' 1"
    using assms(1) by (auto simp: int_defaults_def env_float_assign_other)
  show "env_int (assign w name (PyInt d)) ''NTP_RETRIES'' 2 = env_int w ''NTP_RETRIES'' 2"
    using assms(1) b by (cases "name = ''NTP_RETRIES''") (auto simp: int_defaults_def env_int_assign_other)
  show "env_int (assign w name (PyInt d)) ''NTP_CACHE_SECONDS'' 0 = env_int w ''NTP_CACHE_SECONDS'' 0"
    using assms(1) b by (cases "name = ''NTP_CACHE_SECONDS''") (auto simp: int_defaults_def env_int_assign_other)
  show "env_int (assign w name (PyInt d)) ''NTP_INTERVAL'' 0 = env_int w ''NTP_INTERVAL'' 0"
    using assms(1) b by (cases "name = ''NTP_INTERVAL''") (auto simp: int_defaults_def env_int_assign_other)
  show "getenv (assign w name (PyInt d)) ''NTP_SERVER'' = getenv w ''NTP_SERVER''"
    using assms(1) by (auto simp: int_defaults_def getenv_assign_other)
  show "py_float (assign w name (PyInt d)) = py_float w"
    by (rule ext) (rule py_float_assign)
  show "py_int (assign w name (PyInt d)) = py_int w"
    by (rule ext) (rule py_int_assign)
qed

lemma ext_call_assign: "ext_call (assign w name v) c x emb s = ext_call w c x emb s"
  by (simp add: ext_call_def assign_def)

lemma oracles_assign: "is_connected_val (assign w name v) = is_connected_val w"
  "ntp_time (assign w name v) = ntp_time w" "clock (assign w name v) = clock w"
  by (simp_all add: assign_def)

lemma ensure_radio_assign: "ensure_radio (assign w name v) s = ensure_radio w s"
  by (simp add: ensure_radio_def ensure_radio_acquire_def get_or_new_def new_obj_def ext_call_assign
      cong: sum.case_cong option.case_cong prod.case_cong)

lemma try_connect_assign: "try_connect (assign w name v) e ssid pw s = try_connect w e ssid pw s"
  by (simp add: try_connect_def esp_is_connected_def proc_call_def ext_call_assign
      oracles_assign cong: sum.case_cong bool.case_cong prod.case_cong)

lemma connect_loop_assign:
  "connect_loop (assign w name v) e ssid pw n d as s = connect_loop w e ssid pw n d as s"
  by (induction as arbitrary: s)
    (simp_all add: try_connect_assign proc_call_def ext_call_assign
      cong: sum.case_cong prod.case_cong if_cong)

lemma sync_time_ntp_assign: "sync_time_ntp (assign w name v) c p s = sync_time_ntp w c p s"
  by (simp add: sync_time_ntp_def new_obj_def ntp_datetime_def proc_call_def ext_call_assign
      time_time_def oracles_assign cong: sum.case_cong prod.case_cong if_cong)

lemma sync_time_assign:
  assumes "sync_time_config (assign w name v) srv tz tuning = sync_time_config w srv tz tuning"
    and "name \<noteq> ''CIRCUITPY_WIFI_SSID''" "name \<noteq> ''CIRCUITPY_WIFI_PASSWORD''"
  shows "sync_time (assign w name v) srv tz tuning s = sync_time w srv tz tuning s"
  unfolding sync_time_def
  by (simp only: assms(1) ensure_radio_assign connect_loop_assign sync_time_ntp_assign
      getenv_assign_other [OF assms(2) [symmetric]] getenv_assign_other [OF assms(3) [symmetric]])

lemma ext_call_never:
  "raises w = (\<lambda>h c. None) \<Longrightarrow> ext_call w c x emb s = (Inr x, record_call c (emb x) s)"
  by (simp add: ext_call_def)

lemma get_or_new_never:
  assumes "raises w = (\<lambda>h c. None)"
  shows "\<exists>x s1. get_or_new w cur c s = (Inr x, s1)"
  by (cases cur) (simp_all add: get_or_new_def new_obj_def ext_call_never [OF assms])

lemma ensure_radio_acquire_never:
  assumes "raises w = (\<lambda>h c. None)"
  shows "\<exists>e p s1. ensure_radio_acquire w s = (Inr (e, p), s1)"
proof -
  note g = get_or_new_never [OF assms]
  obtain a s1 where 1: "get_or_new w (spi s) Board_SPI s = (Inr a, s1)"
    using g by blast
  obtain b s2 where 2: "get_or_new w (cs s1) (DigitalInOut ESP_CS) (s1\<lparr>spi := Some a\<rparr>) = (Inr b, s2)"
    using g by blast
  obtain c s3 where 3: "get_or_new w (rdy s2) (DigitalInOut ESP_BUSY) (s2\<lparr>cs := Some b\<rparr>) = (Inr c, s3)"
    using g by blast
  obtain d s4 where 4: "get_or_new w (rst s3) (DigitalInOut ESP_RESET) (s3\<lparr>rdy := Some c\<rparr>) = (Inr d, s4)"
    using g by blast
  obtain e s5 where 5: "get_or_new w (esp s4) (ESP_SPIcontrol a b c d) (s4\<lparr>rst := Some d\<rparr>) = (Inr e, s5)"
    using g by blast
  obtain p s6 where 6: "get_or_new w (pool s5) (Get_radio_socketpool e) (s5\<lparr>esp := Some e\<rparr>) = (Inr p, s6)"
    using g by blast
  show ?thesis
    by (simp add: ensure_radio_acquire_def 1 2 3 4 5 6)
qed

lemma ensure_radio_never:
  assumes "raises w = (\<lambda>h c. None)"
  shows "\<exists>e p s1. ensure_radio w s = (Inr (e, p), s1)"
  using ensure_radio_acquire_never [OF assms, of s]
  by (auto simp: ensure_radio_def split: option.splits)

lemma try_connect_never:
  assumes "raises w = (\<lambda>h c. None)"
  shows "\<exists>s1. try_connect w e ssid pw s = (Inr (), s1)"
  by (simp add: try_connect_def esp_is_connected_def proc_call_def ext_call_never [OF assms]
      split: bool.splits)

lemma connect_loop_never:
  assumes "raises w = (\<lambda>h c. None)"
  shows "\<exists>s2. connect_loop w e ssid pw n d as s = (Inr (), s2)"
proof (cases as)
  case Nil
  then show ?thesis by simp
next
  case (Cons a rest)
  obtain s1 where "try_connect w e ssid pw s = (Inr (), s1)"
    using try_connect_never [OF assms] by blast
  then show ?thesis using Cons by simp
qed

lemma py_add_int_ok: "num_of t \<noteq> None \<Longrightarrow> \<exists>v. py_add t (PyInt i) = Inr v"
  by (cases t) (auto simp: py_add_def)

lemma py_add_int_not_Inl: "num_of t \<noteq> None \<Longrightarrow> py_add t (PyInt i) \<noteq> Inl x"
  using py_add_int_ok [of t i] by auto

lemma sync_time_ntp_never:
  assumes "raises w = (\<lambda>h c. None)"
    and "\<forall>h. require_year c \<le> tm_year (ntp_time w h)"
    and "\<forall>h. num_of (clock w h) \<noteq> None"
  shows "\<exists>res s'. sync_time_ntp w c p s = (Inr res, s')"
proof -
  have y: "\<And>h. \<not> tm_year (ntp_time w h) < require_year c"
    using assms(2) by (simp add: not_less)
  have n: "\<And>h x. py_add (clock w h) (PyInt (interval c)) \<noteq> Inl x"
    using assms(3) py_add_int_not_Inl by blast
  show ?thesis
    by (simp add: sync_time_ntp_def new_obj_def ntp_datetime_def proc_call_def
        ext_call_never [OF assms(1)] time_time_def y n split: sum.splits)
qed

lemma sync_time_never:
  assumes "raises w = (\<lambda>h c. None)"
    and "\<forall>h. 2022 \<le> tm_year (ntp_time w h)"
    and "\<forall>h. num_of (clock w h) \<noteq> None"
    and "truthy (getenv w ''CIRCUITPY_WIFI_SSID'')" "truthy (getenv w ''CIRCUITPY_WIFI_PASSWORD'')"
  shows "\<exists>res s'. sync_time w srv PyNone None s = (Inr res, s')"
proof -
  have none: "\<And>key. supplied None key = None"
    by (simp add: supplied_def)
  obtain c where c: "sync_time_config w srv PyNone None = Inr c"
    using sync_time_config_total [of PyNone None w srv] by (auto simp: none)
  have "require_year c = 2022"
    using sync_time_config_fields(6) [OF c] by (simp add: tuning_get_supplied none)
  then have y: "\<forall>h. require_year c \<le> tm_year (ntp_time w h)"
    using assms(2) by simp
  obtain e p s1 where r: "ensure_radio w s = (Inr (e, p), s1)"
    using ensure_radio_never [OF assms(1)] by blast
  obtain s2 where l: "connect_loop w e (getenv w ''CIRCUITPY_WIFI_SSID'')
      (getenv w ''CIRCUITPY_WIFI_PASSWORD'') (retries c) (retry_delay c) [0..retries c] s1 = (Inr (), s2)"
    using connect_loop_never [OF assms(1)] by blast
  obtain res s' where "sync_time_ntp w c p s2 = (Inr res, s')"
    using sync_time_ntp_never [OF assms(1) y assms(3)] by blast
  then show ?thesis
    using c r l assms(4,5) by (simp add: sync_time_def)
qed

lemma world_a_plain_run:
  "sync_time world_a PyNone PyNone None initial =
    (Inr (time_of_year 2025, PyInt 1060),
     \<lparr>spi = Some 0, cs = Some 1, rdy = Some 2, rst = Some 3, esp = Some 4, pool = Some 5,
      log = [(Board_SPI, New_obj 0), (DigitalInOut ESP_CS, New_obj 1),
        (DigitalInOut ESP_BUSY, New_obj 2), (DigitalInOut ESP_RESET, New_obj 3),
        (ESP_SPIcontrol 0 1 2 3, New_obj 4), (Get_radio_socketpool 4, New_obj 5),
        (Is_connected 4, Returned_bool False),
        (Connect_AP 4 (PyStr ''net'') (PyStr ''secret''), Returned_none),
        (NTP_new 5 (PyFloat (- 4)) (PyStr ''pool.ntp.org'') 5 0, New_obj 8),
        (NTP_datetime 8, Returned_time (time_of_year 2025)),
        (RTC_set_datetime (time_of_year 2025), Returned_none),
        (Time_time, Returned_val (PyInt 1000))]\<rparr>)"
  by (simp add: world_a_def eval_defs Let_def)

lemma world_a_quiet:
  "raises world_a = (\<lambda>h c. None)"
  "\<forall>h. 2022 \<le> tm_year (ntp_time world_a h)"
  "\<forall>h. num_of (clock world_a h) \<noteq> None"
  "truthy (getenv world_a ''CIRCUITPY_WIFI_SSID'')"
  "truthy (getenv world_a ''CIRCUITPY_WIFI_PASSWORD'')"
  by (simp_all add: world_a_def example_world_def never_def time_of_year_def env_of_def wifi_def
      fun_eq_iff)

text \<open>
  Claim C10. For each of the seven numeric variables with its default: when the variable
  is unset, empty, or holds a value that \<^verbatim>\<open>float\<close> (or \<^verbatim>\<open>int\<close>) rejects, \<^verbatim>\<open>_env_float\<close> (or
  \<^verbatim>\<open>_env_int\<close>) returns the default, and the whole call of \<^verbatim>\<open>sync_time\<close>, result and calls
  made, is the call in the world where the variable holds the default, and the call in the
  world without the variable. A call without overrides, in a world with both credentials
  where no collaborator raises, the server's year is at least 2022 and \<^verbatim>\<open>time.time()\<close> is a
  number, does not fail, whatever the seven variables hold. In the configuration of a
  call, each value whose variable is unusable and which the caller did not override is the
  default: 0 for \<^verbatim>\<open>NTP_TZ\<close> and \<^verbatim>\<open>NTP_DST\<close>, 5 for \<^verbatim>\<open>NTP_TIMEOUT\<close>, 2 for \<^verbatim>\<open>NTP_RETRIES\<close>, 1 for
  \<^verbatim>\<open>NTP_DELAY_S\<close>, 0 for \<^verbatim>\<open>NTP_CACHE_SECONDS\<close> and \<^verbatim>\<open>NTP_INTERVAL\<close>.
\<close>

theorem unusable_number_is_default:
  "((name, d) \<in> set float_defaults \<and> bad_float w name \<longrightarrow>
      env_float w name d = d
      \<and> sync_time w srv tz tuning s = sync_time (assign w name (PyFloat d)) srv tz tuning s
      \<and> sync_time w srv tz tuning s = sync_time (unset w name) srv tz tuning s)
   \<and> ((name, i) \<in> set int_defaults \<and> bad_int w name \<longrightarrow>
      env_int w name i = i
      \<and> sync_time w srv tz tuning s = sync_time (assign w name (PyInt i)) srv tz tuning s
      \<and> sync_time w srv tz tuning s = sync_time (unset w name) srv tz tuning s)
   \<and> (raises w = (\<lambda>h c. None) \<and> (\<forall>h. 2022 \<le> tm_year (ntp_time w h))
        \<and> (\<forall>h. num_of (clock w h) \<noteq> None)
        \<and> truthy (getenv w ''CIRCUITPY_WIFI_SSID'')
        \<and> truthy (getenv w ''CIRCUITPY_WIFI_PASSWORD'') \<longrightarrow>
        (\<exists>res s'. sync_time w srv PyNone None s = (Inr res, s')))
   \<and> (\<forall>c. sync_time_config w srv tz tuning = Inr c \<longrightarrow>
        (bad_float w ''NTP_TZ'' \<and> tz = PyNone \<longrightarrow>
           tz_offset c = PyFloat (0 + env_float w ''NTP_DST'' 0))
      \<and> (bad_float w ''NTP_DST'' \<longrightarrow>
           py_add (if tz = PyNone then PyFloat (env_float w ''NTP_TZ'' 0) else tz) (PyFloat 0) =
             Inr (tz_offset c))
      \<and> (bad_float w ''NTP_TIMEOUT'' \<and> supplied tuning ''timeout'' = None \<longrightarrow> timeout c = 5)
      \<and> (bad_int w ''NTP_RETRIES'' \<and> supplied tuning ''retries'' = None \<longrightarrow> retries c = 2)
      \<and> (bad_float w ''NTP_DELAY_S'' \<and> supplied tuning ''retry_delay'' = None \<longrightarrow>
           retry_delay c = 1)
      \<and> (bad_int w ''NTP_CACHE_SECONDS'' \<and> supplied tuning ''cache_seconds'' = None \<longrightarrow>
           cache_seconds c = 0)
      \<and> (bad_int w ''NTP_INTERVAL'' \<longrightarrow> interval c = 0))"
proof -
  have a: "(name, d) \<in> set float_defaults \<and> bad_float w name \<longrightarrow>
      env_float w name d = d
      \<and> sync_time w srv tz tuning s = sync_time (assign w name (PyFloat d)) srv tz tuning s
      \<and> sync_time w srv tz tuning s = sync_time (unset w name) srv tz tuning s"
  proof (intro impI, elim conjE)
    assume n: "(name, d) \<in> set float_defaults" and b: "bad_float w name"
    have ne: "name \<noteq> ''CIRCUITPY_WIFI_SSID''" "name \<noteq> ''CIRCUITPY_WIFI_PASSWORD''"
      and fv: "name \<in> set float_vars"
      using n by (auto simp: float_defaults_def float_vars_def)
    have 1: "sync_time (assign w name (PyFloat d)) srv tz tuning s = sync_time w srv tz tuning s"
      by (rule sync_time_assign [OF sync_time_config_assign_float [OF n b] ne])
    have 2: "sync_time (unset w name) srv tz tuning s = sync_time w srv tz tuning s"
      by (rule sync_time_unset [OF sync_time_config_unset_float [OF fv b] ne])
    show "env_float w name d = d
      \<and> sync_time w srv tz tuning s = sync_time (assign w name (PyFloat d)) srv tz tuning s
      \<and> sync_time w srv tz tuning s = sync_time (unset w name) srv tz tuning s"
      using env_float_bad [OF b] 1 2 by simp
  qed
  have b: "(name, i) \<in> set int_defaults \<and> bad_int w name \<longrightarrow>
      env_int w name i = i
      \<and> sync_time w srv tz tuning s = sync_time (assign w name (PyInt i)) srv tz tuning s
      \<and> sync_time w srv tz tuning s = sync_time (unset w name) srv tz tuning s"
  proof (intro impI, elim conjE)
    assume n: "(name, i) \<in> set int_defaults" and b: "bad_int w name"
    have ne: "name \<noteq> ''CIRCUITPY_WIFI_SSID''" "name \<noteq> ''CIRCUITPY_WIFI_PASSWORD''"
      and iv: "name \<in> set int_vars"
      using n by (auto simp: int_defaults_def int_vars_def)
    have 1: "sync_time (assign w name (PyInt i)) srv tz tuning s = sync_time w srv tz tuning s"
      by (rule sync_time_assign [OF sync_time_config_assign_int [OF n b] ne])
    have 2: "sync_time (unset w name) srv tz tuning s = sync_time w srv tz tuning s"
      by (rule sync_time_unset [OF sync_time_config_unset_int [OF iv b] ne])
    show "env_int w name i = i
      \<and> sync_time w srv tz tuning s = sync_time (assign w name (PyInt i)) srv tz tuning s
      \<and> sync_time w srv tz tuning s = sync_time (unset w name) srv tz tuning s"
      using env_int_bad [OF b] 1 2 by simp
  qed
  have c: "raises w = (\<lambda>h c. None) \<and> (\<forall>h. 2022 \<le> tm_year (ntp_time w h))
        \<and> (\<forall>h. num_of (clock w h) \<noteq> None)
        \<and> truthy (getenv w ''CIRCUITPY_WIFI_SSID'')
        \<and> truthy (getenv w ''CIRCUITPY_WIFI_PASSWORD'') \<longrightarrow>
        (\<exists>res s'. sync_time w srv PyNone None s = (Inr res, s'))"
    using sync_time_never [of w srv s] by blast
  have d: "\<forall>c. sync_time_config w srv tz tuning = Inr c \<longrightarrow>
        (bad_float w ''NTP_TZ'' \<and> tz = PyNone \<longrightarrow>
           tz_offset c = PyFloat (0 + env_float w ''NTP_DST'' 0))
      \<and> (bad_float w ''NTP_DST'' \<longrightarrow>
           py_add (if tz = PyNone then PyFloat (env_float w ''NTP_TZ'' 0) else tz) (PyFloat 0) =
             Inr (tz_offset c))
      \<and> (bad_float w ''NTP_TIMEOUT'' \<and> supplied tuning ''timeout'' = None \<longrightarrow> timeout c = 5)
      \<and> (bad_int w ''NTP_RETRIES'' \<and> supplied tuning ''retries'' = None \<longrightarrow> retries c = 2)
      \<and> (bad_float w ''NTP_DELAY_S'' \<and> supplied tuning ''retry_delay'' = None \<longrightarrow>
           retry_delay c = 1)
      \<and> (bad_int w ''NTP_CACHE_SECONDS'' \<and> supplied tuning ''cache_seconds'' = None \<longrightarrow>
           cache_seconds c = 0)
      \<and> (bad_int w ''NTP_INTERVAL'' \<longrightarrow> interval c = 0)"
  proof (intro allI impI)
    fix c assume c: "sync_time_config w srv tz tuning = Inr c"
    note f = sync_time_config_fields [OF c]
    have 1: "bad_float w ''NTP_TZ'' \<and> tz = PyNone \<longrightarrow>
           tz_offset c = PyFloat (0 + env_float w ''NTP_DST'' 0)"
      using f(1) by (auto simp: env_float_bad py_add_def)
    have 2: "bad_float w ''NTP_DST'' \<longrightarrow>
           py_add (if tz = PyNone then PyFloat (env_float w ''NTP_TZ'' 0) else tz) (PyFloat 0) =
             Inr (tz_offset c)"
      using f(1) by (auto simp: env_float_bad)
    have 3: "bad_float w ''NTP_TIMEOUT'' \<and> supplied tuning ''timeout'' = None \<longrightarrow> timeout c = 5"
      using f(2) by (auto simp: env_float_bad tuning_get_supplied)
    have 4: "bad_int w ''NTP_RETRIES'' \<and> supplied tuning ''retries'' = None \<longrightarrow> retries c = 2"
      using f(3) by (auto simp: env_int_bad tuning_get_supplied)
    have 5: "bad_float w ''NTP_DELAY_S'' \<and> supplied tuning ''retry_delay'' = None \<longrightarrow>
           retry_delay c = 1"
      using f(4) by (auto simp: env_float_bad tuning_get_supplied)
    have 6: "bad_int w ''NTP_CACHE_SECONDS'' \<and> supplied tuning ''cache_seconds'' = None \<longrightarrow>
           cache_seconds c = 0"
      using f(5) by (auto simp: env_int_bad tuning_get_supplied)
    have 7: "bad_int w ''NTP_INTERVAL'' \<longrightarrow> interval c = 0"
      using f(7) by (auto simp: env_int_bad)
    show "(bad_float w ''NTP_TZ'' \<and> tz = PyNone \<longrightarrow>
           tz_offset c = PyFloat (0 + env_float w ''NTP_DST'' 0))
      \<and> (bad_float w ''NTP_DST'' \<longrightarrow>
           py_add (if tz = PyNone then PyFloat (env_float w ''NTP_TZ'' 0) else tz) (PyFloat 0) =
             Inr (tz_offset c))
      \<and> (bad_float w ''NTP_TIMEOUT'' \<and> supplied tuning ''timeout'' = None \<longrightarrow> timeout c = 5)
      \<and> (bad_int w ''NTP_RETRIES'' \<and> supplied tuning ''retries'' = None \<longrightarrow> retries c = 2)
      \<and> (bad_float w ''NTP_DELAY_S'' \<and> supplied tuning ''retry_delay'' = None \<longrightarrow>
           retry_delay c = 1)
      \<and> (bad_int w ''NTP_CACHE_SECONDS'' \<and> supplied tuning ''cache_seconds'' = None \<longrightarrow>
           cache_seconds c = 0)
      \<and> (bad_int w ''NTP_INTERVAL'' \<longrightarrow> interval c = 0)"
      using 1 2 3 4 5 6 7 by (intro conjI)
  qed
  show ?thesis
    using a b c d by (intro conjI)
qed

theorem unusable_number_is_default_witness:
  "(''NTP_TIMEOUT'', 5) \<in> set float_defaults \<and> bad_float world_a ''NTP_TIMEOUT''
   \<and> (''NTP_CACHE_SECONDS'', 0) \<in> set int_defaults \<and> bad_int world_a ''NTP_CACHE_SECONDS''
   \<and> raises world_a = (\<lambda>h c. None)
   \<and> fst (sync_time world_a PyNone PyNone None initial) = Inr (time_of_year 2025, PyInt 1060)
   \<and> (NTP_new 5 (PyFloat (- 4)) (PyStr ''pool.ntp.org'') 5 0, New_obj 8)
        \<in> set (new_events initial (snd (sync_time world_a PyNone PyNone None initial)))
   \<and> sync_time world_a PyNone PyNone None initial =
       sync_time (assign world_a ''NTP_TIMEOUT'' (PyFloat 5)) PyNone PyNone None initial
   \<and> sync_time world_a PyNone PyNone None initial =
       sync_time (assign world_a ''NTP_CACHE_SECONDS'' (PyInt 0)) PyNone PyNone None initial"
proof -
  note t1 = unusable_number_is_default [where name = "''NTP_TIMEOUT''" and d = 5
      and w = world_a and srv = PyNone and tz = PyNone and tuning = None and s = initial]
  note t2 = unusable_number_is_default [where name = "''NTP_CACHE_SECONDS''" and i = 0
      and w = world_a and srv = PyNone and tz = PyNone and tuning = None and s = initial]
  have m: "(''NTP_TIMEOUT'', 5) \<in> set float_defaults" "(''NTP_CACHE_SECONDS'', 0) \<in> set int_defaults"
    by (simp_all add: float_defaults_def int_defaults_def)
  have e1: "sync_time world_a PyNone PyNone None initial =
       sync_time (assign world_a ''NTP_TIMEOUT'' (PyFloat 5)) PyNone PyNone None initial"
    using t1 m(1) world_a_env(4) by blast
  have e2: "sync_time world_a PyNone PyNone None initial =
       sync_time (assign world_a ''NTP_CACHE_SECONDS'' (PyInt 0)) PyNone PyNone None initial"
    using t2 m(2) world_a_env(3) by blast
  have r: "fst (sync_time world_a PyNone PyNone None initial) = Inr (time_of_year 2025, PyInt 1060)"
    by (simp add: world_a_plain_run)
  have ev: "(NTP_new 5 (PyFloat (- 4)) (PyStr ''pool.ntp.org'') 5 0, New_obj 8)
        \<in> set (new_events initial (snd (sync_time world_a PyNone PyNone None initial)))"
    by (simp add: world_a_plain_run new_events_def log_initial)
  show ?thesis
    using m world_a_env(3,4) world_a_quiet(1) r ev e1 e2 by (intro conjI)
qed

end
